(* ===== verification/Prelude.thy ===== *)
theory Prelude
  imports Main "HOL-Library.Multiset"
begin

text \<open>
  Shared vocabulary of the TaskDashboard development: the error values every component
  propagates (the exceptions the TypeScript code throws or rethrows), the semantics of
  the JavaScript string builtins the code calls (\<open>String.prototype.trim\<close>, truthiness
  of strings), and the generic lemmas on them that the component theories use through
  the collection \<open>js_string_simps\<close>.

  Strings are \<open>char list\<close>. A JavaScript string is a sequence of UTF-16 code units;
  the model covers the code units 0 to 255 (Isabelle's \<open>char\<close>), which contain every
  ASCII character and the Latin-1 no-break space U+00A0. ECMAScript's WhiteSpace and
  LineTerminator sets restricted to that range are U+0009 to U+000D, U+0020 and U+00A0.
\<close>

named_theorems js_string_simps "evaluation and shape rules of the JavaScript string builtins"
named_theorems store_simps "equations of the local store's operations"

section \<open>Errors\<close>

text \<open>
  One error type for the whole program, so that an error thrown in one component and
  rethrown by its caller (\<open>catch (error) { ...; throw error }\<close>) is the same value:
  \<^item> \<open>NetworkError\<close>: \<open>fetch\<close> rejected (no connection, DNS, TLS);
  \<^item> \<open>HttpError n\<close>: \<open>apiClient.get\<close> saw a status outside 200..299;
  \<^item> \<open>JsonParseError\<close>: \<open>response.json()\<close> rejected;
  \<^item> \<open>TypeError\<close>: a property or method read on \<open>undefined\<close>;
  \<^item> \<open>StoreReadError\<close>, \<open>StoreWriteError\<close>: the storage engine rejected a query or a
    write transaction;
  \<^item> \<open>IndexOutOfBounds\<close>: a Kotlin \<open>List.get\<close> with an index outside the list (native
    avatar view);
  \<^item> \<open>InvariantViolation\<close>: React Native's invariant that a host component asked for by
    \<open>requireNativeComponent\<close> is provided by a registered view manager.
\<close>

datatype app_error =
    NetworkError
  | HttpError nat
  | JsonParseError
  | TypeError
  | StoreReadError
  | StoreWriteError
  | IndexOutOfBounds
  | InvariantViolation

type_synonym 'a result = "app_error + 'a"

section \<open>JavaScript string builtins\<close>

definition is_js_space :: "char \<Rightarrow> bool" where
  "is_js_space c \<longleftrightarrow> c \<in> set [CHR 0x09, CHR 0x0A, CHR 0x0B, CHR 0x0C, CHR 0x0D, CHR 0x20, CHR 0xA0]"

text \<open>\<open>s.trim()\<close>: drop the white space at both ends.\<close>

definition js_trim :: "string \<Rightarrow> string" where
  "js_trim s = rev (dropWhile is_js_space (rev (dropWhile is_js_space s)))"

text \<open>A string is truthy in JavaScript when it is not empty.\<close>

definition js_truthy_str :: "string \<Rightarrow> bool" where
  "js_truthy_str s \<longleftrightarrow> s \<noteq> []"

declare is_js_space_def [js_string_simps] js_trim_def [js_string_simps]
  js_truthy_str_def [js_string_simps]

text \<open>A string that \<open>trim\<close> leaves as it is: empty, or no white space at either end.\<close>

definition trimmed :: "string \<Rightarrow> bool" where
  "trimmed s \<longleftrightarrow> s = [] \<or> (\<not> is_js_space (hd s) \<and> \<not> is_js_space (last s))"

subsection \<open>The shape of a trimmed string\<close>

lemma dropWhile_rev_split:
  "dropWhile is_js_space s = js_trim s @ rev (takeWhile is_js_space (rev (dropWhile is_js_space s)))"
proof -
  let ?v = "rev (dropWhile is_js_space s)"
  have "?v = takeWhile is_js_space ?v @ dropWhile is_js_space ?v" by simp
  then have "rev ?v = rev (dropWhile is_js_space ?v) @ rev (takeWhile is_js_space ?v)"
    by (metis rev_append)
  then show ?thesis by (simp add: js_trim_def)
qed

lemma dropWhile_all_space: "\<forall>c\<in>set s. is_js_space c \<Longrightarrow> dropWhile is_js_space s = []"
  by (induction s) auto

lemma js_trim_eqI:
  assumes a: "\<forall>c\<in>set a. is_js_space c" and b: "\<forall>c\<in>set b. is_js_space c"
    and m: "trimmed m"
  shows "js_trim (a @ m @ b) = m"
proof (cases "m = []")
  case True
  with a b show ?thesis by (simp add: js_trim_def dropWhile_append2 dropWhile_all_space)
next
  case False
  with m have hd: "\<not> is_js_space (hd m)" and last: "\<not> is_js_space (last m)"
    by (auto simp: trimmed_def)
  from False hd have "dropWhile is_js_space (m @ b) = m @ b"
    by (cases m) auto
  with a have d1: "dropWhile is_js_space (a @ m @ b) = m @ b"
    by (simp add: dropWhile_append2)
  from False last have "dropWhile is_js_space (rev m) = rev m"
    by (cases "rev m") (auto simp: last_rev [symmetric] dest: arg_cong [where f = hd])
  moreover have "dropWhile is_js_space (rev b @ rev m) = dropWhile is_js_space (rev m)"
    using b by (intro dropWhile_append2) simp
  ultimately have "dropWhile is_js_space (rev (m @ b)) = rev m"
    by simp
  with d1 show ?thesis by (simp add: js_trim_def)
qed

lemma js_trim_split:
  "\<exists>a b. s = a @ js_trim s @ b \<and> (\<forall>c\<in>set a. is_js_space c) \<and> (\<forall>c\<in>set b. is_js_space c)"
proof -
  let ?u = "dropWhile is_js_space s"
  have s: "s = takeWhile is_js_space s @ ?u" by simp
  with dropWhile_rev_split [of s] have "s = takeWhile is_js_space s @ js_trim s @ rev (takeWhile is_js_space (rev ?u))"
    by simp
  moreover have "\<forall>c\<in>set (takeWhile is_js_space s). is_js_space c"
    by (auto dest: set_takeWhileD)
  moreover have "\<forall>c\<in>set (rev (takeWhile is_js_space (rev ?u))). is_js_space c"
    by (auto dest: set_takeWhileD)
  ultimately show ?thesis by blast
qed

lemma js_trim_trimmed [js_string_simps]: "trimmed (js_trim s)"
proof (cases "js_trim s = []")
  case True
  then show ?thesis by (simp add: trimmed_def)
next
  case False
  let ?u = "dropWhile is_js_space s"
  have last: "\<not> is_js_space (last (js_trim s))"
    using False hd_dropWhile [of is_js_space "rev ?u"]
    by (auto simp: js_trim_def last_rev)
  note u = dropWhile_rev_split [of s]
  with False have "hd ?u = hd (js_trim s)" and "?u \<noteq> []"
    by (metis hd_append2, metis append_is_Nil_conv)
  with hd_dropWhile [of is_js_space s] have "\<not> is_js_space (hd (js_trim s))"
    by simp
  with last show ?thesis by (simp add: trimmed_def)
qed

lemma js_trim_idem [simp, js_string_simps]: "js_trim (js_trim s) = js_trim s"
  using js_trim_eqI [of "[]" "[]" "js_trim s"] js_trim_trimmed [of s] by simp

lemma js_trim_id_iff: "js_trim s = s \<longleftrightarrow> trimmed s"
  using js_trim_trimmed [of s] js_trim_eqI [of "[]" "[]" s] by auto

lemma js_trim_Nil_iff: "js_trim s = [] \<longleftrightarrow> (\<forall>c\<in>set s. is_js_space c)"
proof
  assume "js_trim s = []"
  with js_trim_split [of s] show "\<forall>c\<in>set s. is_js_space c" by auto
next
  assume "\<forall>c\<in>set s. is_js_space c"
  then show "js_trim s = []" by (simp add: js_trim_def dropWhile_all_space)
qed

lemma js_trim_Nil_imp [js_string_simps]: "js_trim s \<noteq> [] \<Longrightarrow> s \<noteq> []"
  by (auto simp: js_trim_def)

text \<open>Trimming a string that carries white space at its end changes it.\<close>

lemma js_trim_append_space:
  "is_js_space c \<Longrightarrow> js_trim (s @ [c]) \<noteq> s @ [c]"
  using js_trim_trimmed [of "s @ [c]"] by (auto simp: trimmed_def)

section \<open>Lists\<close>

text \<open>The element \<open>Array.prototype.find\<close> returns, when exactly one element matches.\<close>

lemma find_unique:
  assumes "x \<in> set xs" and "P x" and "\<And>y. y \<in> set xs \<Longrightarrow> P y \<Longrightarrow> y = x"
  shows "find P xs = Some x"
  using assms
proof (induction xs)
  case Nil
  then show ?case by simp
next
  case (Cons a xs)
  show ?case
  proof (cases "P a")
    case True
    then have "a = x" using Cons.prems(3) by simp
    with True show ?thesis by simp
  next
    case False
    with Cons.prems(1,2) have "x \<in> set xs" by (cases "a = x") simp_all
    then have "find P xs = Some x" using Cons.prems(2,3) by (intro Cons.IH) simp_all
    with False show ?thesis by simp
  qed
qed

end
