(* ===== verification/Store.thy ===== *)
theory Store
  imports Prelude
begin

text \<open>
  The local store: the schema of \<open>src/src/database/schema.ts\<close>, the \<open>Task\<close> model of
  \<open>src/src/database/Task.ts\<close> with its two writer methods, the database instance of
  \<open>src/src/database/index.ts\<close>, and the part of the WatermelonDB contract the code relies
  on (queries with \<open>Q.where\<close>, \<open>prepareCreate\<close>/\<open>batch\<close> inside a write, \<open>Model.update\<close>).
  WatermelonDB is a library the sources call; its behaviour is modelled from the spec
  (section 4.3 and 4.4): a batch commits all its records or none, a query returns the rows
  that satisfy every clause. Record identifiers, random strings in WatermelonDB, are
  drawn from a counter \<open>next_id\<close> so that freshness is explicit.
\<close>

section \<open>Schema\<close>

datatype column_type = ColString | ColBoolean | ColNumber

record column_schema =
  col_name :: string
  col_type :: column_type
  col_isOptional :: bool

record table_schema =
  tbl_name :: string
  tbl_columns :: "column_schema list"

record app_schema =
  schema_version :: nat
  schema_tables :: "table_schema list"

definition schema :: app_schema where
  "schema = \<lparr>schema_version = 1,
     schema_tables = [\<lparr>tbl_name = ''tasks'', tbl_columns =
       [\<lparr>col_name = ''todo'', col_type = ColString, col_isOptional = False\<rparr>,
        \<lparr>col_name = ''completed'', col_type = ColBoolean, col_isOptional = False\<rparr>,
        \<lparr>col_name = ''attachment_uri'', col_type = ColString, col_isOptional = True\<rparr>]\<rparr>]\<rparr>"

section \<open>Rows and the database\<close>

text \<open>
  A row of table \<open>tasks\<close> as the model class \<open>Task\<close> exposes it: \<open>@text('todo') todo\<close>,
  \<open>@field('completed') completed\<close>, \<open>@text('attachment_uri') attachmentUri?\<close>, and the
  record's id.
\<close>

record task =
  task_id :: nat
  todo :: string
  completed :: bool
  attachmentUri :: "string option"

text \<open>
  What an assignment to a decorated field stores: WatermelonDB's \<open>@text\<close> sanitises the
  string, storing \<open>value.trim()\<close>; \<open>@field\<close> stores the value as given.
\<close>

definition text_field_set :: "string \<Rightarrow> string" where
  "text_field_set v = js_trim v"

text \<open>
  The bindings of the model's properties to columns (\<open>static table = 'tasks'\<close> and the
  decorators): the property, its column, the decorator, the TypeScript type and whether the
  property is optional (\<open>?\<close>).
\<close>

datatype decorator = DecText | DecField

datatype ts_type = TsString | TsBoolean

record field_binding =
  fb_property :: string
  fb_column :: string
  fb_decorator :: decorator
  fb_type :: ts_type
  fb_optional :: bool

definition Task_table :: string where
  "Task_table = ''tasks''"

definition Task_fields :: "field_binding list" where
  "Task_fields =
     [\<lparr>fb_property = ''todo'', fb_column = ''todo'', fb_decorator = DecText, fb_type = TsString,
       fb_optional = False\<rparr>,
      \<lparr>fb_property = ''completed'', fb_column = ''completed'', fb_decorator = DecField,
       fb_type = TsBoolean, fb_optional = False\<rparr>,
      \<lparr>fb_property = ''attachmentUri'', fb_column = ''attachment_uri'', fb_decorator = DecText,
       fb_type = TsString, fb_optional = True\<rparr>]"

text \<open>A binding agrees with a column: same name, the column type of the property's type, the
  same optionality, and \<open>@text\<close> only on a string.\<close>

fun column_of_type :: "ts_type \<Rightarrow> column_type" where
  "column_of_type TsString = ColString"
| "column_of_type TsBoolean = ColBoolean"

fun decorator_allows :: "decorator \<Rightarrow> ts_type \<Rightarrow> bool" where
  "decorator_allows DecText ty = (ty = TsString)"
| "decorator_allows DecField ty = True"

definition binding_ok :: "field_binding \<Rightarrow> column_schema \<Rightarrow> bool" where
  "binding_ok f c \<longleftrightarrow>
     fb_column f = col_name c \<and> column_of_type (fb_type f) = col_type c
     \<and> fb_optional f = col_isOptional c \<and> decorator_allows (fb_decorator f) (fb_type f)"

text \<open>The rows of table \<open>tasks\<close> in creation order, and the next fresh identifier.\<close>

record db_state =
  tasks :: "task list"
  next_id :: nat

text \<open>\<open>export const database = new Database({adapter, modelClasses: [Task]})\<close>: an empty store.\<close>

definition database :: db_state where
  "database = \<lparr>tasks = [], next_id = 0\<rparr>"

section \<open>Queries\<close>

text \<open>\<open>Q.where('completed', b)\<close>, the only clause the code builds.\<close>

datatype clause = WhereCompleted bool

fun clause_holds :: "clause \<Rightarrow> task \<Rightarrow> bool" where
  "clause_holds (WhereCompleted b) t \<longleftrightarrow> completed t = b"

text \<open>\<open>collection.query(...clauses)\<close>: the rows that satisfy every clause, in store order.\<close>

definition query_fetch :: "clause list \<Rightarrow> db_state \<Rightarrow> task list" where
  "query_fetch cs db = filter (\<lambda>t. list_all (\<lambda>c. clause_holds c t) cs) (tasks db)"

text \<open>\<open>await collection.query(...).fetch()\<close>: the engine may fail the read.\<close>

definition db_fetch :: "bool \<Rightarrow> clause list \<Rightarrow> db_state \<Rightarrow> task list result" where
  "db_fetch read_fault cs db = (if read_fault then Inl StoreReadError else Inr (query_fetch cs db))"

section \<open>Batch creation\<close>

text \<open>
  \<open>database.batch(...records)\<close>: the engine inserts the prepared rows one after the other
  into its working copy; \<open>fault = Some k\<close> makes it reject the k-th row (counting from 0),
  which aborts the transaction. Only a batch that inserted every row commits; the
  identifiers the prepared rows reserved are then consumed.
\<close>

fun insert_rows :: "nat option \<Rightarrow> nat \<Rightarrow> task list \<Rightarrow> task list \<Rightarrow> task list result" where
  "insert_rows fault i [] acc = Inr acc"
| "insert_rows fault i (r # rs) acc =
     (if fault = Some i then Inl StoreWriteError else insert_rows fault (Suc i) rs (acc @ [r]))"

definition db_batch :: "nat option \<Rightarrow> task list \<Rightarrow> db_state \<Rightarrow> db_state result" where
  "db_batch fault rs db =
     (case insert_rows fault 0 rs (tasks db) of
        Inl e \<Rightarrow> Inl e
      | Inr ts \<Rightarrow> Inr (db\<lparr>tasks := ts, next_id := next_id db + length rs\<rparr>))"

text \<open>The store after a batch of rows \<open>rs\<close> committed.\<close>

abbreviation append_rows :: "task list \<Rightarrow> db_state \<Rightarrow> db_state" where
  "append_rows rs db \<equiv> db\<lparr>tasks := tasks db @ rs, next_id := next_id db + length rs\<rparr>"

section \<open>Writes to one record\<close>

text \<open>\<open>record.update(builder)\<close> inside a writer: the builder runs on the stored row.\<close>

definition update_task :: "nat \<Rightarrow> (task \<Rightarrow> task) \<Rightarrow> db_state \<Rightarrow> db_state" where
  "update_task i f db = db\<lparr>tasks := map (\<lambda>t. if task_id t = i then f t else t) (tasks db)\<rparr>"

text \<open>\<open>@writer async toggleComplete()\<close>: \<open>task.completed = !task.completed\<close>.\<close>

definition toggleComplete :: "nat \<Rightarrow> db_state \<Rightarrow> db_state" where
  "toggleComplete i = update_task i (\<lambda>t. t\<lparr>completed := \<not> completed t\<rparr>)"

text \<open>\<open>@writer async addAttachment(uri)\<close>: \<open>task.attachmentUri = uri\<close>, through the
  \<open>@text('attachment_uri')\<close> setter.\<close>

definition addAttachment :: "nat \<Rightarrow> string \<Rightarrow> db_state \<Rightarrow> db_state" where
  "addAttachment i uri = update_task i (\<lambda>t. t\<lparr>attachmentUri := Some (text_field_set uri)\<rparr>)"

section \<open>Invariants of the store\<close>

text \<open>Identifiers are distinct and below the counter.\<close>

definition ids_ok :: "db_state \<Rightarrow> bool" where
  "ids_ok db \<longleftrightarrow> distinct (map task_id (tasks db)) \<and> list_all (\<lambda>t. task_id t < next_id db) (tasks db)"

text \<open>Every stored title is non-empty and trimmed (spec section 3, first invariant).\<close>

definition title_ok :: "task \<Rightarrow> bool" where
  "title_ok t \<longleftrightarrow> todo t \<noteq> [] \<and> js_trim (todo t) = todo t"

definition titles_ok :: "db_state \<Rightarrow> bool" where
  "titles_ok db \<longleftrightarrow> list_all title_ok (tasks db)"

definition store_inv :: "db_state \<Rightarrow> bool" where
  "store_inv db \<longleftrightarrow> ids_ok db \<and> titles_ok db"

declare query_fetch_def [store_simps] db_fetch_def [store_simps] db_batch_def [store_simps]
  update_task_def [store_simps] toggleComplete_def [store_simps] addAttachment_def [store_simps]

section \<open>Lemmas\<close>

declare text_field_set_def [simp, js_string_simps]

subsection \<open>Batches\<close>

lemma store_inv_database [simp]: "store_inv database"
  by (simp add: database_def store_inv_def ids_ok_def titles_ok_def)

lemma insert_rows_ok: "fault = None \<or> (\<exists>k. fault = Some k \<and> (k < i \<or> i + length rs \<le> k)) \<Longrightarrow>
  insert_rows fault i rs acc = Inr (acc @ rs)"
  by (induction fault i rs acc rule: insert_rows.induct) auto

lemma insert_rows_fault: "i \<le> k \<Longrightarrow> k < i + length rs \<Longrightarrow>
  insert_rows (Some k) i rs acc = Inl StoreWriteError"
  by (induction "Some k" i rs acc rule: insert_rows.induct) (auto simp: less_Suc_eq)

lemma insert_rows_cases: "insert_rows fault i rs acc = Inr (acc @ rs) \<or> insert_rows fault i rs acc = Inl StoreWriteError"
  by (induction fault i rs acc rule: insert_rows.induct) auto

text \<open>A batch either commits all its rows or fails with the store's write error.\<close>

lemma db_batch_cases:
  "db_batch fault rs db = Inr (append_rows rs db) \<or> db_batch fault rs db = Inl StoreWriteError"
  using insert_rows_cases [of fault 0 rs "tasks db"] by (auto simp: db_batch_def)

lemma db_batch_None [simp]: "db_batch None rs db = Inr (append_rows rs db)"
  by (simp add: db_batch_def insert_rows_ok)

lemma db_batch_no_fault:
  "length rs \<le> k \<Longrightarrow> db_batch (Some k) rs db = Inr (append_rows rs db)"
  by (simp add: db_batch_def insert_rows_ok)

lemma append_rows_Nil [simp]: "append_rows [] db = db"
  by simp

lemma db_batch_fault:
  "k < length rs \<Longrightarrow> db_batch (Some k) rs db = Inl StoreWriteError"
  by (simp add: db_batch_def insert_rows_fault)

subsection \<open>Record updates\<close>

lemma map_update_task [simp]:
  "(\<And>t. g (f t) = g t) \<Longrightarrow> map g (tasks (update_task i f db)) = map g (tasks db)"
  by (simp add: update_task_def)

lemma next_id_update_task [simp]: "next_id (update_task i f db) = next_id db"
  by (simp add: update_task_def)

lemma update_task_comp:
  assumes "\<And>t. task_id (f t) = task_id t"
  shows "update_task i g (update_task i f db) = update_task i (g \<circ> f) db"
  unfolding update_task_def by (auto simp: assms intro!: map_cong)

lemma update_task_ident:
  assumes "\<And>t. f t = t"
  shows "update_task i f db = db"
proof -
  have "map (\<lambda>t. if task_id t = i then f t else t) (tasks db) = tasks db"
    by (rule map_idI) (simp add: assms)
  then show ?thesis by (simp add: update_task_def)
qed

lemma titles_ok_update_task:
  "(\<And>t. todo (f t) = todo t) \<Longrightarrow> titles_ok db \<Longrightarrow> titles_ok (update_task i f db)"
  by (auto simp: titles_ok_def title_ok_def update_task_def list_all_iff)

lemma ids_ok_update_task:
  assumes f: "\<And>t. task_id (f t) = task_id t" and ok: "ids_ok db"
  shows "ids_ok (update_task i f db)"
proof -
  have m: "map task_id (tasks (update_task i f db)) = map task_id (tasks db)"
    using f by (rule map_update_task)
  then have img: "task_id ` set (tasks (update_task i f db)) = task_id ` set (tasks db)"
    by (metis set_map)
  have "\<forall>t\<in>set (tasks (update_task i f db)). task_id t < next_id db"
  proof
    fix t
    assume "t \<in> set (tasks (update_task i f db))"
    with img obtain t' where "t' \<in> set (tasks db)" and "task_id t' = task_id t"
      by (metis imageE imageI)
    with ok show "task_id t < next_id db"
      by (auto simp: ids_ok_def list_all_iff)
  qed
  with m ok show ?thesis
    by (simp add: ids_ok_def list_all_iff)
qed

lemma store_inv_update_task:
  "(\<And>t. todo (f t) = todo t) \<Longrightarrow> (\<And>t. task_id (f t) = task_id t) \<Longrightarrow>
   store_inv db \<Longrightarrow> store_inv (update_task i f db)"
  by (simp add: store_inv_def titles_ok_update_task ids_ok_update_task)

subsection \<open>Properties of the Task model and of queries\<close>

text \<open>
  C33. An attachment is stored trimmed: \<open>addAttachment\<close> assigns through the
  \<open>@text('attachment_uri')\<close> setter, so the record with the given id holds the trimmed
  reference and every other record keeps its own. (The spec, section 6, has the core store
  the reference as given.)
\<close>

theorem addAttachment_trims:
  "map attachmentUri (tasks (addAttachment i uri db))
   = map (\<lambda>t. if task_id t = i then Some (js_trim uri) else attachmentUri t) (tasks db)"
  by (simp add: addAttachment_def update_task_def)

text \<open>
  Completion toggle reversibility (spec section 8): toggling the same record twice
  gives back the store as it was.
\<close>

theorem toggleComplete_involutive: "toggleComplete i (toggleComplete i db) = db"
  unfolding toggleComplete_def
  by (simp add: update_task_comp update_task_ident comp_def)

text \<open>
  A toggle flips the completion flag of exactly the record it is called on and
  leaves every identifier, title and attachment, and every other record, as it was.
\<close>

theorem toggleComplete_frame:
  "map (\<lambda>t. (task_id t, todo t, attachmentUri t, completed t)) (tasks (toggleComplete i db))
   = map (\<lambda>t. (task_id t, todo t, attachmentUri t, if task_id t = i then \<not> completed t else completed t)) (tasks db)"
  by (simp add: toggleComplete_def update_task_def)

text \<open>
  Attachment is last-write-wins (spec section 8): attaching \<open>b\<close> after \<open>a\<close> is
  attaching \<open>b\<close>, and attaching the same reference twice is attaching it once.
\<close>

theorem addAttachment_last_wins:
  "addAttachment i b (addAttachment i a db) = addAttachment i b db
   \<and> addAttachment i a (addAttachment i a db) = addAttachment i a db"
  unfolding addAttachment_def
  by (simp add: update_task_comp comp_def)

text \<open>
  The two filtered queries the dashboard builds, \<open>completed == true\<close> and
  \<open>completed == false\<close>, partition the unfiltered one: every row is in exactly one.
\<close>

theorem query_fetch_partition:
  "mset (query_fetch [WhereCompleted True] db) + mset (query_fetch [WhereCompleted False] db)
   = mset (query_fetch [] db)"
proof -
  have "mset (filter (\<lambda>t. completed t) (tasks db)) + mset (filter (\<lambda>t. \<not> completed t) (tasks db))
        = mset (tasks db)"
    using multiset_partition [of "mset (tasks db)" completed] by simp
  then show ?thesis by (simp add: query_fetch_def)
qed

end
