(* ===== verification/Remote.thy ===== *)
theory Remote
  imports Prelude
begin

text \<open>
  The remote source: the API data contracts of \<open>src/src/types/api.ts\<close> and
  \<open>src/src/services/SyncService.ts\<close> (\<open>RemoteTask\<close>), the HTTP client
  \<open>apiClient.get\<close> of \<open>src/src/api/client.ts\<close>, \<open>taskApi.fetchAllTasks\<close> of
  \<open>src/src/api/taskApi.ts\<close>, and the first step of \<open>syncTaskFromApi\<close>, which calls
  \<open>fetch\<close> itself. The network is a parameter: a function from a URL to what \<open>fetch\<close>
  and \<open>response.json()\<close> produce for it. The DummyJSON endpoint the app talks to is
  modelled from the spec (section 6): \<open>/todos\<close> answers with one page, \<open>/todos?limit=0\<close>
  with the whole collection.

  The JSON payload is assumed to have the shape the TypeScript interfaces declare
  (a parsed body is either a \<open>TodoResponse\<close> or some other object, such as DummyJSON's
  error object \<open>{message}\<close>); field values of other JSON types are not modelled.
\<close>

section \<open>Data contracts\<close>

text \<open>
  \<open>interface RemoteTask { id; todo; completed; userId }\<close> (the same shape as
  \<open>TodoFromApi\<close> in types/api.ts).
\<close>

record remote_task =
  rt_id :: int
  rt_todo :: string
  rt_completed :: bool
  rt_userId :: int

text \<open>\<open>interface TodoFromApi { id; todo; completed; userId }\<close> of types/api.ts, the type
  of the items of a \<open>TodoResponse\<close>: the shape of \<open>RemoteTask\<close>.\<close>

type_synonym TodoFromApi = remote_task

text \<open>\<open>interface TodoResponse { todos; total; skip; limit }\<close>.\<close>

record todo_response =
  todos :: "TodoFromApi list"
  total :: nat
  skip :: nat
  limit :: nat

text \<open>What \<open>await response.json()\<close> resolves to.\<close>

datatype json_body = TodoBody todo_response | OtherJson

text \<open>
  What \<open>fetch(url)\<close> produces: a rejected promise, or a response with its status and a
  body that parses as JSON (\<open>Some\<close>) or does not (\<open>None\<close>).
\<close>

datatype fetch_outcome = NetFailure | Response nat "json_body option"

type_synonym network = "string \<Rightarrow> fetch_outcome"

text \<open>\<open>response.ok\<close>: the status is in 200..299.\<close>

definition response_ok :: "nat \<Rightarrow> bool" where
  "response_ok st \<longleftrightarrow> 200 \<le> st \<and> st \<le> 299"

section \<open>The API client\<close>

definition BASE_URL :: string where
  "BASE_URL = ''https://dummyjson.com''"

text \<open>
  \<open>apiClient.get(endpoint)\<close>: fetch \<open>BASE_URL + endpoint\<close>, throw on a status that is not
  ok, return the parsed body; the catch block logs and rethrows, so every error reaches
  the caller unchanged.
\<close>

definition apiClient_get :: "network \<Rightarrow> string \<Rightarrow> json_body result" where
  "apiClient_get net endpoint =
     (case net (BASE_URL @ endpoint) of
        NetFailure \<Rightarrow> Inl NetworkError
      | Response st body \<Rightarrow>
          (if \<not> response_ok st then Inl (HttpError st)
           else (case body of None \<Rightarrow> Inl JsonParseError | Some j \<Rightarrow> Inr j)))"

text \<open>\<open>taskApi.fetchAllTasks()\<close>: \<open>apiClient.get('/todos')\<close>, errors rethrown.\<close>

definition fetchAllTasks :: "network \<Rightarrow> json_body result" where
  "fetchAllTasks net = apiClient_get net ''/todos''"

section \<open>The fetch of the sync service\<close>

definition SYNC_URL :: string where
  "SYNC_URL = ''https://dummyjson.com/todos?limit=0''"

text \<open>
  \<open>const response = await fetch(SYNC_URL); const data = await response.json();
  const apiTasks = data.todos;\<close> No status check: any response whose body parses is
  used. \<open>data.todos\<close> is \<open>undefined\<close> (\<open>None\<close>) when the body is not a \<open>TodoResponse\<close>.
\<close>

definition sync_fetch :: "network \<Rightarrow> remote_task list option result" where
  "sync_fetch net =
     (case net SYNC_URL of
        NetFailure \<Rightarrow> Inl NetworkError
      | Response st body \<Rightarrow>
          (case body of
             None \<Rightarrow> Inl JsonParseError
           | Some (TodoBody r) \<Rightarrow> Inr (Some (todos r))
           | Some OtherJson \<Rightarrow> Inr None))"

section \<open>The remote endpoint\<close>

text \<open>
  DummyJSON's \<open>/todos\<close> collection holding \<open>all\<close>, with default page size \<open>page\<close>:
  \<open>?limit=0\<close> lifts the limit, the bare path answers with the first page, anything else
  is a 404 with an error object.
\<close>

definition dummyjson :: "nat \<Rightarrow> remote_task list \<Rightarrow> network" where
  "dummyjson page all url =
     (if url = BASE_URL @ ''/todos?limit=0'' then
        Response 200 (Some (TodoBody \<lparr>todos = all, total = length all, skip = 0, limit = length all\<rparr>))
      else if url = BASE_URL @ ''/todos'' then
        Response 200 (Some (TodoBody \<lparr>todos = take page all, total = length all, skip = 0, limit = page\<rparr>))
      else Response 404 (Some OtherJson))"

lemma SYNC_URL_eq: "SYNC_URL = BASE_URL @ ''/todos?limit=0''"
  by (simp add: SYNC_URL_def BASE_URL_def)

lemma todos_url_neq: "BASE_URL @ ''/todos'' \<noteq> BASE_URL @ ''/todos?limit=0''"
  by simp

text \<open>
  \<open>taskApi.fetchAllTasks\<close> requests \<open>/todos\<close> without \<open>limit=0\<close>: against an endpoint
  whose collection is larger than its default page it returns fewer items than the
  reported total (the under-sync the spec, section 4.1, forbids).
\<close>

theorem fetchAllTasks_paginated:
  assumes "page < length all"
  shows "\<exists>r. fetchAllTasks (dummyjson page all) = Inr (TodoBody r) \<and> todos r = take page all
             \<and> length (todos r) < total r"
  using assms
  by (simp add: fetchAllTasks_def apiClient_get_def dummyjson_def response_ok_def)

theorem fetchAllTasks_paginated_witness:
  "(1::nat) < length [\<lparr>rt_id = 1, rt_todo = ''a'', rt_completed = False, rt_userId = 1\<rparr>,
                       \<lparr>rt_id = 2, rt_todo = ''b'', rt_completed = True, rt_userId = 1\<rparr>]
   \<and> (\<exists>r. fetchAllTasks (dummyjson 1 [\<lparr>rt_id = 1, rt_todo = ''a'', rt_completed = False, rt_userId = 1\<rparr>,
                       \<lparr>rt_id = 2, rt_todo = ''b'', rt_completed = True, rt_userId = 1\<rparr>]) = Inr (TodoBody r)
         \<and> length (todos r) < total r)"
  using fetchAllTasks_paginated [of 1 "[\<lparr>rt_id = 1, rt_todo = ''a'', rt_completed = False, rt_userId = 1\<rparr>,
                       \<lparr>rt_id = 2, rt_todo = ''b'', rt_completed = True, rt_userId = 1\<rparr>]"]
  by auto

text \<open>
  The sync service's own request asks for \<open>limit=0\<close>, and receives the whole
  remote collection, whatever the endpoint's default page size.
\<close>

theorem sync_fetch_full: "sync_fetch (dummyjson page all) = Inr (Some all)"
  by (simp add: sync_fetch_def dummyjson_def SYNC_URL_eq)

text \<open>
  C15. The sync service does not check the response status: a response whose status is
  not ok but whose body has the \<open>TodoResponse\<close> shape is used as the remote collection,
  where \<open>apiClient.get\<close> fails with the status (the spec, section 4.1, asks for the failure).
\<close>

theorem sync_fetch_ignores_status:
  assumes "\<not> response_ok st"
  shows "sync_fetch (\<lambda>_. Response st (Some (TodoBody r))) = Inr (Some (todos r))
         \<and> apiClient_get (\<lambda>_. Response st (Some (TodoBody r))) endpoint = Inl (HttpError st)"
  using assms by (simp add: sync_fetch_def apiClient_get_def)

theorem sync_fetch_ignores_status_witness:
  "\<not> response_ok 500
   \<and> sync_fetch (\<lambda>_. Response 500 (Some (TodoBody \<lparr>todos = [], total = 0, skip = 0, limit = 0\<rparr>))) = Inr (Some [])
   \<and> apiClient_get (\<lambda>_. Response 500 (Some (TodoBody \<lparr>todos = [], total = 0, skip = 0, limit = 0\<rparr>))) ''/todos''
       = Inl (HttpError 500)"
proof -
  have h: "\<not> response_ok 500" by (simp add: response_ok_def)
  from sync_fetch_ignores_status [OF h, of "\<lparr>todos = [], total = 0, skip = 0, limit = 0\<rparr>" "''/todos''"] h
  show ?thesis by simp
qed

end
