(* ===== verification/Sync.thy ===== *)
theory Sync
  imports Store Remote
begin

text \<open>
  The synchronisation pass \<open>syncTaskFromApi\<close> of \<open>src/src/services/SyncService.ts\<close>:
  fetch the remote collection, read the local titles, and inside one
  \<open>database.write\<close> filter the remote items (the reconciler of the spec, section 4.2),
  prepare one record per kept item and commit them with one \<open>database.batch\<close> (the
  atomic writer, section 4.3). The environment of one pass (what the network answers,
  whether the engine fails the read, at which row it fails the batch) is a record
  \<open>sync_env\<close>; the pass returns its outcome and the store after it.
\<close>

section \<open>The reconciler\<close>

text \<open>\<open>const localTodoTexts = new Set(localTasks.map(t => t.todo))\<close>.\<close>

definition localTodoTexts :: "task list \<Rightarrow> string set" where
  "localTodoTexts localTasks = set (map todo localTasks)"

text \<open>
  The filter's predicate: \<open>raw.todo && raw.todo.trim().length > 0 &&
  !localTodoTexts.has(raw.todo)\<close>. The membership test takes the title as received, not
  trimmed.
\<close>

definition keep_raw :: "string set \<Rightarrow> remote_task \<Rightarrow> bool" where
  "keep_raw texts raw \<longleftrightarrow>
     js_truthy_str (rt_todo raw) \<and> 0 < length (js_trim (rt_todo raw)) \<and> rt_todo raw \<notin> texts"

definition tasksToCreate :: "string set \<Rightarrow> remote_task list \<Rightarrow> remote_task list" where
  "tasksToCreate texts apiTasks = filter (keep_raw texts) apiTasks"

text \<open>
  \<open>tasksCollection.prepareCreate(task => { task.todo = raw.todo.trim();
  task.completed = raw.completed })\<close>, on the identifier the record reserves.
\<close>

definition prepareCreate :: "nat \<Rightarrow> remote_task \<Rightarrow> task" where
  "prepareCreate i raw =
     \<lparr>task_id = i, todo = text_field_set (js_trim (rt_todo raw)), completed = rt_completed raw, attachmentUri = None\<rparr>"

text \<open>\<open>const batchActions = tasksToCreate.map(raw => prepareCreate(...))\<close>, identifiers from \<open>n\<close>.\<close>

fun batchActions :: "nat \<Rightarrow> remote_task list \<Rightarrow> task list" where
  "batchActions n [] = []"
| "batchActions n (raw # rs) = prepareCreate n raw # batchActions (Suc n) rs"

section \<open>The write\<close>

text \<open>
  The body of \<open>database.write(async () => {...})\<close>: \<open>apiTasks.filter\<close> throws a
  \<open>TypeError\<close> when \<open>data.todos\<close> was \<open>undefined\<close>; the batch runs only when there is
  something to create.
\<close>

definition sync_write ::
  "nat option \<Rightarrow> string set \<Rightarrow> remote_task list option \<Rightarrow> db_state \<Rightarrow> db_state result" where
  "sync_write fault texts apiTasks db =
     (case apiTasks of
        None \<Rightarrow> Inl TypeError
      | Some rs \<Rightarrow>
          (let batch = batchActions (next_id db) (tasksToCreate texts rs)
           in if 0 < length batch then db_batch fault batch db else Inr db))"

section \<open>The whole pass\<close>

record sync_env =
  net :: network
  read_fault :: bool
  batch_fault :: "nat option"

text \<open>
  \<open>syncTaskFromApi()\<close>: fetch, then \<open>await tasksCollection.query().fetch()\<close>, then the
  write. The catch block logs and rethrows, so the error of the failing step is the
  outcome; the store is what the last committed write left.
\<close>

definition syncTaskFromApi :: "sync_env \<Rightarrow> db_state \<Rightarrow> unit result \<times> db_state" where
  "syncTaskFromApi env db =
     (case sync_fetch (net env) of
        Inl e \<Rightarrow> (Inl e, db)
      | Inr apiTasks \<Rightarrow>
          (case db_fetch (read_fault env) [] db of
             Inl e \<Rightarrow> (Inl e, db)
           | Inr localTasks \<Rightarrow>
               (case sync_write (batch_fault env) (localTodoTexts localTasks) apiTasks db of
                  Inl e \<Rightarrow> (Inl e, db)
                | Inr db' \<Rightarrow> (Inr (), db'))))"

section \<open>The abstract specification\<close>

text \<open>
  What the pass promises, seen through the set of stored titles: the titles of the store
  after a successful pass are those before it together with the trimmed non-blank remote
  titles. The count of rows is not part of it (spec section 8's idempotence asks more).
\<close>

definition title_set :: "db_state \<Rightarrow> string set" where
  "title_set db = set (map todo (tasks db))"

definition remote_titles :: "remote_task list \<Rightarrow> string set" where
  "remote_titles rs = js_trim ` {rt_todo r | r. r \<in> set rs \<and> js_trim (rt_todo r) \<noteq> []}"

section \<open>Sample inputs\<close>

text \<open>A remote item and a pass whose network serves a given collection with status 200.\<close>

abbreviation remote_item :: "int \<Rightarrow> string \<Rightarrow> remote_task" where
  "remote_item i s \<equiv> \<lparr>rt_id = i, rt_todo = s, rt_completed = False, rt_userId = 1\<rparr>"

abbreviation serving :: "remote_task list \<Rightarrow> sync_env" where
  "serving rs \<equiv> \<lparr>net = \<lambda>_. Response 200 (Some (TodoBody \<lparr>todos = rs, total = length rs, skip = 0, limit = 0\<rparr>)),
                  read_fault = False, batch_fault = None\<rparr>"

section \<open>Lemmas\<close>

lemma length_batchActions [simp]: "length (batchActions n rs) = length rs"
  by (induction rs arbitrary: n) auto

lemma batchActions_eq_Nil [simp]: "batchActions n rs = [] \<longleftrightarrow> rs = []"
  by (cases rs) auto

lemma batchActions_nth:
  "k < length rs \<Longrightarrow> batchActions n rs ! k = prepareCreate (n + k) (rs ! k)"
  by (induction rs arbitrary: n k) (auto simp: nth_Cons split: nat.split)

lemma map_todo_batchActions [simp]:
  "map todo (batchActions n rs) = map (\<lambda>raw. js_trim (rt_todo raw)) rs"
  by (induction rs arbitrary: n) (auto simp: prepareCreate_def)

lemma map_todo_completed_batchActions:
  "map (\<lambda>t. (todo t, completed t)) (batchActions n rs) = map (\<lambda>r. (js_trim (rt_todo r), rt_completed r)) rs"
  by (induction rs arbitrary: n) (auto simp: prepareCreate_def)

lemma map_id_batchActions [simp]: "map task_id (batchActions n rs) = [n..<n + length rs]"
  by (induction rs arbitrary: n) (auto simp: prepareCreate_def upt_rec)

lemma query_fetch_Nil [simp]: "query_fetch [] db = tasks db"
  by (simp add: query_fetch_def)

lemma keep_raw_title_ok:
  "keep_raw texts raw \<Longrightarrow> js_trim (rt_todo raw) \<noteq> []"
  by (simp add: keep_raw_def)

text \<open>The whole pass on each branch, first the successful one.\<close>

lemma sync_write_Some:
  "sync_write fault texts (Some rs) db =
     (if tasksToCreate texts rs = [] then Inr db
      else db_batch fault (batchActions (next_id db) (tasksToCreate texts rs)) db)"
  by (simp add: sync_write_def Let_def)

lemma syncTaskFromApi_eq:
  "syncTaskFromApi env db =
     (case sync_fetch (net env) of
        Inl e \<Rightarrow> (Inl e, db)
      | Inr None \<Rightarrow> (if read_fault env then Inl StoreReadError else Inl TypeError, db)
      | Inr (Some rs) \<Rightarrow>
          (if read_fault env then (Inl StoreReadError, db)
           else (case sync_write (batch_fault env) (localTodoTexts (tasks db)) (Some rs) db of
                   Inl e \<Rightarrow> (Inl e, db)
                 | Inr db' \<Rightarrow> (Inr (), db'))))"
  by (simp add: syncTaskFromApi_def db_fetch_def sync_write_def
      split: sum.split option.split)


lemma syncTaskFromApi_ok:
  "sync_fetch (net env) = Inr (Some rs) \<Longrightarrow> \<not> read_fault env \<Longrightarrow> batch_fault env = None \<Longrightarrow>
   syncTaskFromApi env db =
     (Inr (), append_rows (batchActions (next_id db) (tasksToCreate (localTodoTexts (tasks db)) rs)) db)"
  by (simp add: syncTaskFromApi_eq sync_write_Some)

lemma title_ok_batchActions: "\<forall>r\<in>set rs. js_trim (rt_todo r) \<noteq> [] \<Longrightarrow> list_all title_ok (batchActions n rs)"
  by (induction rs arbitrary: n) (auto simp: title_ok_def prepareCreate_def)

lemma store_inv_append_batch:
  assumes inv: "store_inv db" and rs: "\<forall>r\<in>set rs. js_trim (rt_todo r) \<noteq> []"
  shows "store_inv (append_rows (batchActions (next_id db) rs) db)"
proof -
  from inv have d: "distinct (map task_id (tasks db))" and lt: "\<forall>t\<in>set (tasks db). task_id t < next_id db"
    by (auto simp: store_inv_def ids_ok_def list_all_iff)
  have "set (map task_id (tasks db)) \<inter> set [next_id db..<next_id db + length rs] = {}"
    using lt by auto
  with d have "distinct (map task_id (tasks db @ batchActions (next_id db) rs))"
    by simp
  moreover have "list_all (\<lambda>t. task_id t < next_id db + length rs) (tasks db @ batchActions (next_id db) rs)"
  proof -
    have "\<forall>t\<in>set (batchActions (next_id db) rs). task_id t < next_id db + length rs"
      using map_id_batchActions [of "next_id db" rs] by (metis atLeastLessThan_iff imageI set_map set_upt)
    with lt show ?thesis by (auto simp: list_all_iff)
  qed
  moreover have "titles_ok (append_rows (batchActions (next_id db) rs) db)"
    using inv title_ok_batchActions [OF rs] by (simp add: store_inv_def titles_ok_def)
  ultimately show ?thesis by (simp add: store_inv_def ids_ok_def)
qed

lemma tasksToCreate_nonblank: "\<forall>r\<in>set (tasksToCreate texts rs). js_trim (rt_todo r) \<noteq> []"
  by (simp add: tasksToCreate_def keep_raw_def)

lemma sync_write_Inr:
  assumes "sync_write fault texts a db = Inr db'"
  shows "\<exists>rs. a = Some rs \<and> db' = append_rows (batchActions (next_id db) (tasksToCreate texts rs)) db"
proof (cases a)
  case None
  with assms show ?thesis by (simp add: sync_write_def)
next
  case (Some rs)
  show ?thesis
  proof (cases "tasksToCreate texts rs = []")
    case True
    with assms Some show ?thesis by (simp add: sync_write_Some)
  next
    case False
    with assms Some db_batch_cases [of "fault" "batchActions (next_id db) (tasksToCreate texts rs)" db]
    show ?thesis by (auto simp: sync_write_Some)
  qed
qed

lemma syncTaskFromApi_cases:
  "snd (syncTaskFromApi env db) = db \<or>
   (\<exists>rs. sync_fetch (net env) = Inr (Some rs) \<and> \<not> read_fault env \<and>
     syncTaskFromApi env db =
       (Inr (), append_rows (batchActions (next_id db) (tasksToCreate (localTodoTexts (tasks db)) rs)) db))"
proof (cases "fst (syncTaskFromApi env db)")
  case (Inl e)
  then show ?thesis
    by (auto simp: syncTaskFromApi_def split: sum.splits)
next
  case (Inr u)
  then obtain a db' where f: "sync_fetch (net env) = Inr a" and r: "\<not> read_fault env"
    and w: "sync_write (batch_fault env) (localTodoTexts (tasks db)) a db = Inr db'"
    and s: "syncTaskFromApi env db = (Inr (), db')"
    by (auto simp: syncTaskFromApi_def db_fetch_def split: sum.splits if_splits)
  from sync_write_Inr [OF w] f r s show ?thesis by auto
qed

lemma syncTaskFromApi_store_inv:
  "store_inv db \<Longrightarrow> store_inv (snd (syncTaskFromApi env db))"
  using syncTaskFromApi_cases [of env db] store_inv_append_batch [OF _ tasksToCreate_nonblank]
  by auto


lemma titles_ok_trimmed: "titles_ok db \<Longrightarrow> s \<in> title_set db \<Longrightarrow> js_trim s = s"
  by (auto simp: titles_ok_def title_ok_def title_set_def list_all_iff)

lemma title_set_append_batch:
  "title_set (append_rows (batchActions n rs) db) = title_set db \<union> (\<lambda>r. js_trim (rt_todo r)) ` set rs"
  by (simp add: title_set_def image_comp)

lemma created_titles:
  assumes "titles_ok db"
  shows "title_set db \<union> (\<lambda>r. js_trim (rt_todo r)) ` set (tasksToCreate (localTodoTexts (tasks db)) rs)
         = title_set db \<union> remote_titles rs"
proof -
  have "js_trim (rt_todo r) \<in> title_set db"
    if "r \<in> set rs" "js_trim (rt_todo r) \<noteq> []" "\<not> keep_raw (localTodoTexts (tasks db)) r" for r
  proof -
    from that have "rt_todo r \<in> title_set db"
      by (auto simp: keep_raw_def js_truthy_str_def localTodoTexts_def title_set_def dest: js_trim_Nil_imp)
    with titles_ok_trimmed [OF assms] show ?thesis by simp
  qed
  then show ?thesis
    by (auto simp: remote_titles_def tasksToCreate_def keep_raw_def)
qed

lemma syncTaskFromApi_Inr:
  assumes "syncTaskFromApi env db = (Inr u, db')"
  shows "\<exists>rs. sync_fetch (net env) = Inr (Some rs) \<and> \<not> read_fault env \<and>
           db' = append_rows (batchActions (next_id db) (tasksToCreate (localTodoTexts (tasks db)) rs)) db"
proof -
  from assms obtain a where f: "sync_fetch (net env) = Inr a" and r: "\<not> read_fault env"
    and w: "sync_write (batch_fault env) (localTodoTexts (tasks db)) a db = Inr db'"
    by (auto simp: syncTaskFromApi_def db_fetch_def split: sum.splits if_splits)
  from sync_write_Inr [OF w] f r show ?thesis by auto
qed

lemma syncTaskFromApi_Inl_unchanged:
  "syncTaskFromApi env db = (Inl e, db') \<Longrightarrow> db' = db"
  by (auto simp: syncTaskFromApi_def split: sum.splits)

lemma sync_refines_title_union:
  assumes "titles_ok db" and "sync_fetch (net env) = Inr (Some rs)"
    and "syncTaskFromApi env db = (Inr (), db')"
  shows "title_set db' = title_set db \<union> remote_titles rs"
proof -
  from syncTaskFromApi_Inr [OF assms(3)] assms(2)
  have "db' = append_rows (batchActions (next_id db) (tasksToCreate (localTodoTexts (tasks db)) rs)) db"
    by auto
  then have "title_set db' = title_set db \<union> (\<lambda>r. js_trim (rt_todo r)) ` set (tasksToCreate (localTodoTexts (tasks db)) rs)"
    by (simp only: title_set_append_batch)
  with created_titles [OF assms(1)] show ?thesis by simp
qed

lemma keep_raw_after_sync:
  assumes ok: "titles_ok db" and sub: "remote_titles rs \<subseteq> title_set db" and r: "r \<in> set rs"
  shows "keep_raw (localTodoTexts (tasks db)) r \<longleftrightarrow>
           js_trim (rt_todo r) \<noteq> [] \<and> js_trim (rt_todo r) \<noteq> rt_todo r"
proof
  assume k: "keep_raw (localTodoTexts (tasks db)) r"
  then have nb: "js_trim (rt_todo r) \<noteq> []" and out: "rt_todo r \<notin> title_set db"
    by (auto simp: keep_raw_def localTodoTexts_def title_set_def)
  have "js_trim (rt_todo r) \<in> title_set db"
    using sub r nb by (auto simp: remote_titles_def)
  with out nb show "js_trim (rt_todo r) \<noteq> [] \<and> js_trim (rt_todo r) \<noteq> rt_todo r"
    by auto
next
  assume a: "js_trim (rt_todo r) \<noteq> [] \<and> js_trim (rt_todo r) \<noteq> rt_todo r"
  then have "rt_todo r \<notin> title_set db"
    using titles_ok_trimmed [OF ok] by auto
  with a show "keep_raw (localTodoTexts (tasks db)) r"
    by (auto simp: keep_raw_def js_truthy_str_def localTodoTexts_def title_set_def dest: js_trim_Nil_imp)
qed

lemma store_inv_titles_ok: "store_inv db \<Longrightarrow> titles_ok db"
  by (simp add: store_inv_def)

lemma sync_second_pass:
  assumes inv: "store_inv db" and f: "sync_fetch (net env) = Inr (Some rs)"
    and r: "\<not> read_fault env" and b: "batch_fault env = None"
    and db1: "db1 = snd (syncTaskFromApi env db)"
  shows "syncTaskFromApi env db1 =
           (Inr (), append_rows (batchActions (next_id db1)
              (filter (\<lambda>r. js_trim (rt_todo r) \<noteq> [] \<and> js_trim (rt_todo r) \<noteq> rt_todo r) rs)) db1)"
proof -
  have s1: "syncTaskFromApi env db = (Inr (), db1)"
    using syncTaskFromApi_ok [OF f r b] db1 by simp
  have ok1: "titles_ok db1"
    using syncTaskFromApi_store_inv [OF inv] db1 by (simp add: store_inv_def)
  have "title_set db1 = title_set db \<union> remote_titles rs"
    using sync_refines_title_union [OF store_inv_titles_ok [OF inv] f s1] .
  then have sub: "remote_titles rs \<subseteq> title_set db1" by simp
  have "tasksToCreate (localTodoTexts (tasks db1)) rs
          = filter (\<lambda>r. js_trim (rt_todo r) \<noteq> [] \<and> js_trim (rt_todo r) \<noteq> rt_todo r) rs"
    unfolding tasksToCreate_def using keep_raw_after_sync [OF ok1 sub] by (rule filter_cong [OF refl])
  with syncTaskFromApi_ok [OF f r b, of db1] show ?thesis by simp
qed

lemma db_batch_Inl:
  assumes h: "db_batch fault rs db = Inl e"
  shows "\<exists>k. fault = Some k \<and> k < length rs \<and> e = StoreWriteError"
proof -
  obtain k where k: "fault = Some k"
    using h by (cases fault) auto
  have "k < length rs"
  proof (rule ccontr)
    assume "\<not> k < length rs"
    with h k db_batch_no_fault [of rs k db] show False by simp
  qed
  moreover have "e = StoreWriteError"
    using h db_batch_cases [of fault rs db] by auto
  ultimately show ?thesis using k by blast
qed

section \<open>Properties of one pass\<close>

text \<open>
  C4. A successful pass with no engine fault appends one row per kept remote item, in
  the remote order, carrying the trimmed title and the remote completion flag, under fresh
  consecutive identifiers; nothing else changes.
\<close>

theorem syncTaskFromApi_creates:
  assumes "sync_fetch (net env) = Inr (Some rs)" and "\<not> read_fault env" and "batch_fault env = None"
  shows "syncTaskFromApi env db = (Inr (), append_rows (batchActions (next_id db) (tasksToCreate (title_set db) rs)) db)
         \<and> map (\<lambda>t. (todo t, completed t)) (batchActions (next_id db) (tasksToCreate (title_set db) rs))
             = map (\<lambda>r. (js_trim (rt_todo r), rt_completed r)) (filter (keep_raw (title_set db)) rs)
         \<and> map task_id (batchActions (next_id db) (tasksToCreate (title_set db) rs))
             = [next_id db..<next_id db + length (tasksToCreate (title_set db) rs)]"
  using syncTaskFromApi_ok [OF assms, of db]
  by (simp add: map_todo_completed_batchActions tasksToCreate_def localTodoTexts_def title_set_def)

theorem syncTaskFromApi_creates_witness:
  "sync_fetch (net (serving [remote_item 1 '' Buy milk ''])) = Inr (Some [remote_item 1 '' Buy milk ''])
   \<and> \<not> read_fault (serving [remote_item 1 '' Buy milk '']) \<and> batch_fault (serving [remote_item 1 '' Buy milk '']) = None
   \<and> map todo (tasks (snd (syncTaskFromApi (serving [remote_item 1 '' Buy milk '']) database))) = [''Buy milk'']"
proof -
  have f: "sync_fetch (net (serving [remote_item 1 '' Buy milk ''])) = Inr (Some [remote_item 1 '' Buy milk ''])"
    by (simp add: sync_fetch_def)
  show ?thesis
    using syncTaskFromApi_creates [OF f, of database] f
    by (simp add: database_def tasksToCreate_def keep_raw_def title_set_def prepareCreate_def js_string_simps)
qed

text \<open>
  C5. Running the pass twice on an unchanged payload creates no row the second time
  exactly when every non-blank remote title is already trimmed: a title received with
  white space around it is compared untrimmed against the trimmed stored titles, so it is
  re-created on every pass (spec section 8, idempotence, holds only for such payloads).
\<close>

corollary sync_idempotent_iff:
  assumes "store_inv db" and "sync_fetch (net env) = Inr (Some rs)"
    and "\<not> read_fault env" and "batch_fault env = None"
    and "db1 = snd (syncTaskFromApi env db)"
  shows "snd (syncTaskFromApi env db1) = db1 \<longleftrightarrow>
           list_all (\<lambda>r. js_trim (rt_todo r) \<noteq> [] \<longrightarrow> js_trim (rt_todo r) = rt_todo r) rs"
proof -
  have "snd (syncTaskFromApi env db1) = db1 \<longleftrightarrow>
          filter (\<lambda>r. js_trim (rt_todo r) \<noteq> [] \<and> js_trim (rt_todo r) \<noteq> rt_todo r) rs = []"
    using sync_second_pass [OF assms] by (auto dest: arg_cong [where f = "\<lambda>d. length (tasks d)"])
  then show ?thesis by (auto simp: filter_empty_conv list_all_iff)
qed

theorem sync_idempotent_iff_witness:
  "store_inv database
   \<and> sync_fetch (net (serving [remote_item 1 ''Buy milk  ''])) = Inr (Some [remote_item 1 ''Buy milk  ''])
   \<and> snd (syncTaskFromApi (serving [remote_item 1 ''Buy milk  ''])
          (snd (syncTaskFromApi (serving [remote_item 1 ''Buy milk  '']) database)))
       \<noteq> snd (syncTaskFromApi (serving [remote_item 1 ''Buy milk  '']) database)"
proof -
  have i: "store_inv database" by (rule store_inv_database)
  have f: "sync_fetch (net (serving [remote_item 1 ''Buy milk  ''])) = Inr (Some [remote_item 1 ''Buy milk  ''])"
    by (simp add: sync_fetch_def)
  have "\<not> list_all (\<lambda>r. js_trim (rt_todo r) \<noteq> [] \<longrightarrow> js_trim (rt_todo r) = rt_todo r) [remote_item 1 ''Buy milk  '']"
    by (simp add: js_string_simps)
  with sync_idempotent_iff [OF i f _ _ refl] i f show ?thesis by simp
qed

text \<open>
  C6. An error of the pass leaves the store as it was, and it is one of: the fetch's
  error; the store's read error; a \<open>TypeError\<close> when the body had no \<open>todos\<close>; the
  store's write error when the engine rejects a row of a non-empty batch.
\<close>

theorem syncTaskFromApi_error:
  assumes "syncTaskFromApi env db = (Inl e, db')"
  shows "db' = db \<and>
    (sync_fetch (net env) = Inl e
     \<or> (\<exists>a. sync_fetch (net env) = Inr a \<and> read_fault env \<and> e = StoreReadError)
     \<or> (sync_fetch (net env) = Inr None \<and> \<not> read_fault env \<and> e = TypeError)
     \<or> (\<exists>rs k. sync_fetch (net env) = Inr (Some rs) \<and> \<not> read_fault env \<and> batch_fault env = Some k \<and>
          k < length (tasksToCreate (localTodoTexts (tasks db)) rs) \<and> e = StoreWriteError))"
  using assms
  by (auto simp: syncTaskFromApi_eq sync_write_Some split: sum.splits option.splits if_splits
      dest!: db_batch_Inl)

theorem syncTaskFromApi_error_witness:
  "syncTaskFromApi \<lparr>net = \<lambda>_. Response 404 (Some OtherJson), read_fault = False, batch_fault = None\<rparr> database
     = (Inl TypeError, database)
   \<and> sync_fetch (\<lambda>_. Response 404 (Some OtherJson)) = Inr None"
proof -
  have s: "syncTaskFromApi \<lparr>net = \<lambda>_. Response 404 (Some OtherJson), read_fault = False, batch_fault = None\<rparr> database
     = (Inl TypeError, database)"
    by (simp add: syncTaskFromApi_eq sync_fetch_def)
  from syncTaskFromApi_error [OF s] s show ?thesis by (simp add: sync_fetch_def)
qed

text \<open>
  Duplicates inside one payload are not suppressed either (spec section 4.2, step 2b):
  the same title received twice creates two rows in one pass.
\<close>

theorem intra_batch_duplicates:
  "map todo (tasks (snd (syncTaskFromApi (serving [remote_item 1 ''Call mom'', remote_item 2 ''Call mom'']) database)))
     = [''Call mom'', ''Call mom'']"
  by (simp add: syncTaskFromApi_eq sync_fetch_def sync_write_Some tasksToCreate_def keep_raw_def
      localTodoTexts_def prepareCreate_def database_def js_string_simps)

text \<open>
  C8. Empty-title rejection (spec section 8): of N remote items of which K have a blank
  title, at most N - K are created.
\<close>

theorem tasksToCreate_length_bound:
  "length (tasksToCreate texts rs) \<le> length rs - length (filter (\<lambda>r. js_trim (rt_todo r) = []) rs)"
proof -
  have "tasksToCreate texts rs = filter (keep_raw texts) (filter (\<lambda>r. js_trim (rt_todo r) \<noteq> []) rs)"
    by (auto simp: tasksToCreate_def keep_raw_def intro: filter_cong)
  then have "length (tasksToCreate texts rs) \<le> length (filter (\<lambda>r. js_trim (rt_todo r) \<noteq> []) rs)"
    by (metis length_filter_le)
  moreover have "length (filter (\<lambda>r. js_trim (rt_todo r) \<noteq> []) rs)
      = length rs - length (filter (\<lambda>r. js_trim (rt_todo r) = []) rs)"
    using sum_length_filter_compl [of "\<lambda>r. js_trim (rt_todo r) = []" rs] by simp
  ultimately show ?thesis by simp
qed

end
