(* ===== verification/Orchestrator.thy ===== *)
theory Orchestrator
  imports Sync "HOL-Library.Sublist"
begin

text \<open>
  The orchestration of sync passes by \<open>useTasks\<close> (\<open>src/src/hooks/useTasks.ts\<close>):
  \<open>handleRefresh\<close> sets \<open>isSyncing\<close>, awaits \<open>syncTaskFromApi()\<close>, logs an error, and
  in \<open>finally\<close> clears \<open>isSyncing\<close>. It is called on mount and by every pull to refresh,
  and it does not look at \<open>isSyncing\<close> before starting, so passes can overlap. JavaScript
  runs one continuation at a time; a pass gives way at each \<open>await\<close> of
  \<open>syncTaskFromApi\<close>: after the fetch, after the read of the local titles, after the
  write (the write's callback itself runs alone in WatermelonDB's writer queue, which is
  the atomicity the spec grants, section 5). A pass is therefore a sequence of phases,
  and the hook's state is the store, the flag and the list of passes in flight. Which
  pass moves next, and what the network and the engine answer, is left open: the steps
  are an inductive relation.
\<close>

section \<open>State and steps\<close>

text \<open>Where a pass stands: waiting for the fetch, holding the payload, holding the local
  titles it read, or settled with its outcome and waiting for \<open>finally\<close>.\<close>

datatype pass_phase =
    Fetching
  | Fetched "remote_task list option"
  | LocalRead "string set" "remote_task list option"
  | Settled "unit result"

record orch_state =
  store :: db_state
  isSyncing :: bool
  pending :: "pass_phase list"

definition orch_init :: "db_state \<Rightarrow> orch_state" where
  "orch_init db = \<lparr>store = db, isSyncing = False, pending = []\<rparr>"

definition drop_pass :: "nat \<Rightarrow> pass_phase list \<Rightarrow> pass_phase list" where
  "drop_pass i ps = take i ps @ drop (Suc i) ps"

text \<open>\<open>handleRefresh\<close> up to its first \<open>await\<close>: \<open>setIsSyncing(true)\<close>, then
  \<open>syncTaskFromApi()\<close> starts and waits for its fetch.\<close>

definition handleRefresh :: "orch_state \<Rightarrow> orch_state" where
  "handleRefresh s = s\<lparr>isSyncing := True, pending := pending s @ [Fetching]\<rparr>"

text \<open>
  The steps, for a network \<open>nw\<close> that answers every fetch of the run (the remote collection
  as it stands); whether the engine fails a read or a batch is chosen per step.
\<close>

inductive orch_step :: "network \<Rightarrow> orch_state \<Rightarrow> orch_state \<Rightarrow> bool" for nw :: network where
  refresh:
    "s' = handleRefresh s \<Longrightarrow> orch_step nw s s'"
| fetched:
    "i < length (pending s) \<Longrightarrow> pending s ! i = Fetching \<Longrightarrow> sync_fetch nw = Inr a \<Longrightarrow>
     s' = s\<lparr>pending := (pending s)[i := Fetched a]\<rparr> \<Longrightarrow> orch_step nw s s'"
| fetch_failed:
    "i < length (pending s) \<Longrightarrow> pending s ! i = Fetching \<Longrightarrow> sync_fetch nw = Inl e \<Longrightarrow>
     s' = s\<lparr>pending := (pending s)[i := Settled (Inl e)]\<rparr> \<Longrightarrow> orch_step nw s s'"
| read_ok:
    "i < length (pending s) \<Longrightarrow> pending s ! i = Fetched a \<Longrightarrow> db_fetch rf [] (store s) = Inr lt \<Longrightarrow>
     s' = s\<lparr>pending := (pending s)[i := LocalRead (localTodoTexts lt) a]\<rparr> \<Longrightarrow> orch_step nw s s'"
| read_failed:
    "i < length (pending s) \<Longrightarrow> pending s ! i = Fetched a \<Longrightarrow> db_fetch rf [] (store s) = Inl e \<Longrightarrow>
     s' = s\<lparr>pending := (pending s)[i := Settled (Inl e)]\<rparr> \<Longrightarrow> orch_step nw s s'"
| write_ok:
    "i < length (pending s) \<Longrightarrow> pending s ! i = LocalRead texts a \<Longrightarrow>
     sync_write fault texts a (store s) = Inr db' \<Longrightarrow>
     s' = s\<lparr>store := db', pending := (pending s)[i := Settled (Inr ())]\<rparr> \<Longrightarrow> orch_step nw s s'"
| write_failed:
    "i < length (pending s) \<Longrightarrow> pending s ! i = LocalRead texts a \<Longrightarrow>
     sync_write fault texts a (store s) = Inl e \<Longrightarrow>
     s' = s\<lparr>pending := (pending s)[i := Settled (Inl e)]\<rparr> \<Longrightarrow> orch_step nw s s'"
| finish:
    "i < length (pending s) \<Longrightarrow> pending s ! i = Settled r \<Longrightarrow>
     s' = s\<lparr>isSyncing := False, pending := drop_pass i (pending s)\<rparr> \<Longrightarrow> orch_step nw s s'"

text \<open>The steps a pass has left, by phase; the passes in flight weigh their sum. A step
  of the first pass in flight lowers the weight, which bounds how long the passes can
  run.\<close>

fun phase_weight :: "pass_phase \<Rightarrow> nat" where
  "phase_weight Fetching = 4"
| "phase_weight (Fetched a) = 3"
| "phase_weight (LocalRead texts a) = 2"
| "phase_weight (Settled r) = 1"

definition pending_weight :: "orch_state \<Rightarrow> nat" where
  "pending_weight s = sum_list (map phase_weight (pending s))"

text \<open>
  The continuation pass \<open>i\<close> waits on, run with the answers of an environment: the fetch,
  the read of the local titles, the write, or \<open>finally\<close>; an index past the passes in
  flight changes nothing. Which pass moves next is the choice the step relation leaves
  open; \<open>advance_at\<close> is one step of it once that choice is made.
\<close>

definition advance_at :: "sync_env \<Rightarrow> nat \<Rightarrow> orch_state \<Rightarrow> orch_state" where
  "advance_at env i s =
     (if length (pending s) \<le> i then s else
      case pending s ! i of
        Fetching \<Rightarrow>
          s\<lparr>pending := (pending s)[i := (case sync_fetch (net env) of Inl e \<Rightarrow> Settled (Inl e) | Inr a \<Rightarrow> Fetched a)]\<rparr>
      | Fetched a \<Rightarrow>
          s\<lparr>pending := (pending s)[i := (case db_fetch (read_fault env) [] (store s) of
                                           Inl e \<Rightarrow> Settled (Inl e)
                                         | Inr lt \<Rightarrow> LocalRead (localTodoTexts lt) a)]\<rparr>
      | LocalRead texts a \<Rightarrow>
          (case sync_write (batch_fault env) texts a (store s) of
             Inl e \<Rightarrow> s\<lparr>pending := (pending s)[i := Settled (Inl e)]\<rparr>
           | Inr db' \<Rightarrow> s\<lparr>store := db', pending := (pending s)[i := Settled (Inr ())]\<rparr>)
      | Settled r \<Rightarrow> s\<lparr>isSyncing := False, pending := drop_pass i (pending s)\<rparr>)"

inductive_cases orch_step_cases: "orch_step nw s s'"

section \<open>Lemmas\<close>

text \<open>Every step keeps the store invariant: the rows a write commits are valid whatever
  snapshot of the local titles the pass read.\<close>

lemma sync_write_store_inv:
  "sync_write fault texts a db = Inr db' \<Longrightarrow> store_inv db \<Longrightarrow> store_inv db'"
  using sync_write_Inr [of fault texts a db db'] store_inv_append_batch [OF _ tasksToCreate_nonblank]
  by auto

lemma drop_pass_0 [simp]: "drop_pass 0 (p # ps) = ps"
  by (simp add: drop_pass_def)

lemma handleRefresh_simps [simp]:
  "store (handleRefresh s) = store s" "isSyncing (handleRefresh s)" "pending (handleRefresh s) = pending s @ [Fetching]"
  by (simp_all add: handleRefresh_def)

lemma orch_step_store_inv: "orch_step nw s s' \<Longrightarrow> store_inv (store s) \<Longrightarrow> store_inv (store s')"
  by (induction rule: orch_step.induct) (auto intro: sync_write_store_inv)

lemma orch_reach_store_inv:
  "(orch_step nw)\<^sup>*\<^sup>* s s' \<Longrightarrow> store_inv (store s) \<Longrightarrow> store_inv (store s')"
  by (induction rule: rtranclp_induct) (auto intro: orch_step_store_inv)

lemma orch_step_tasks_prefix: "orch_step nw s s' \<Longrightarrow> prefix (tasks (store s)) (tasks (store s'))"
  by (induction rule: orch_step.induct) (auto dest!: sync_write_Inr)

lemma orch_step_idle:
  "orch_step nw s s' \<Longrightarrow> (pending s = [] \<longrightarrow> \<not> isSyncing s) \<Longrightarrow> pending s' = [] \<longrightarrow> \<not> isSyncing s'"
  by (induction rule: orch_step.induct) auto

lemma orch_reach_idle:
  "(orch_step nw)\<^sup>*\<^sup>* (orch_init db) s \<Longrightarrow> pending s = [] \<longrightarrow> \<not> isSyncing s"
  by (induction rule: rtranclp_induct) (auto simp: orch_init_def dest: orch_step_idle)

lemma orch_reach_handleRefresh:
  "(orch_step nw)\<^sup>*\<^sup>* s s' \<Longrightarrow> (orch_step nw)\<^sup>*\<^sup>* s (handleRefresh s')"
  by (erule rtranclp.rtrancl_into_rtrancl, rule orch_step.refresh, rule refl)

text \<open>A continuation is a step of the hook, and so is a sequence of them.\<close>

lemma advance_at_step:
  assumes i: "i < length (pending s)"
  shows "orch_step (net env) s (advance_at env i s)"
proof -
  from i have n: "\<not> length (pending s) \<le> i" by simp
  show ?thesis
proof (cases "pending s ! i")
  case Fetching
  show ?thesis
  proof (cases "sync_fetch (net env)")
    case (Inl e)
    show ?thesis
      by (rule orch_step.fetch_failed [where i = i and e = e]) (simp_all add: i Fetching Inl advance_at_def n)
  next
    case (Inr a)
    show ?thesis
      by (rule orch_step.fetched [where i = i and a = a]) (simp_all add: i Fetching Inr advance_at_def n)
  qed
next
  case (Fetched a)
  show ?thesis
  proof (cases "db_fetch (read_fault env) [] (store s)")
    case (Inl e)
    show ?thesis
      by (rule orch_step.read_failed [where i = i and a = a and rf = "read_fault env" and e = e])
        (simp_all add: i Fetched Inl advance_at_def n)
  next
    case (Inr lt)
    show ?thesis
      by (rule orch_step.read_ok [where i = i and a = a and rf = "read_fault env" and lt = lt])
        (simp_all add: i Fetched Inr advance_at_def n)
  qed
next
  case (LocalRead texts a)
  show ?thesis
  proof (cases "sync_write (batch_fault env) texts a (store s)")
    case (Inl e)
    show ?thesis
      by (rule orch_step.write_failed [where i = i and texts = texts and a = a and fault = "batch_fault env" and e = e])
        (simp_all add: i LocalRead Inl advance_at_def n)
  next
    case (Inr db')
    show ?thesis
      by (rule orch_step.write_ok [where i = i and texts = texts and a = a and fault = "batch_fault env" and db' = db'])
        (simp_all add: i LocalRead Inr advance_at_def n)
  qed
next
  case (Settled r)
  show ?thesis
    by (rule orch_step.finish [where i = i and r = r]) (simp_all add: i Settled advance_at_def n)
qed
qed

lemma advance_at_reach: "(orch_step (net env))\<^sup>*\<^sup>* s (advance_at env i s)"
proof (cases "i < length (pending s)")
  case True
  then show ?thesis by (intro r_into_rtranclp advance_at_step)
next
  case False
  then show ?thesis by (simp add: advance_at_def)
qed

lemma fold_advance_at_reach: "(orch_step (net env))\<^sup>*\<^sup>* s (fold (advance_at env) ks s)"
proof (induction ks arbitrary: s)
  case Nil
  then show ?case by simp
next
  case (Cons k ks)
  show ?case using rtranclp_trans [OF advance_at_reach Cons.IH] by simp
qed

text \<open>The oldest pass's continuation lowers the weight of the phases left, and it
  clears the flag when it ends the last pass.\<close>

lemma advance_at_weight:
  "pending s \<noteq> [] \<Longrightarrow> pending_weight (advance_at env 0 s) < pending_weight s"
  by (auto simp: advance_at_def pending_weight_def drop_pass_def neq_Nil_conv split: pass_phase.splits sum.splits)

lemma advance_at_idle:
  "pending s \<noteq> [] \<Longrightarrow> pending (advance_at env 0 s) = [] \<Longrightarrow> \<not> isSyncing (advance_at env 0 s)"
  by (auto simp: advance_at_def drop_pass_def neq_Nil_conv split: pass_phase.splits sum.splits)

lemma orch_progress:
  assumes p: "pending s \<noteq> []"
  shows "\<exists>s'. orch_step nw s s' \<and> pending_weight s' < pending_weight s \<and> (pending s' = [] \<longrightarrow> \<not> isSyncing s')"
proof -
  let ?env = "\<lparr>net = nw, read_fault = False, batch_fault = None\<rparr>"
  have "orch_step (net ?env) s (advance_at ?env 0 s)"
    using p by (intro advance_at_step) simp
  then have "orch_step nw s (advance_at ?env 0 s)" by simp
  with advance_at_weight [OF p, of ?env] advance_at_idle [OF p, of ?env] show ?thesis by blast
qed

lemma orch_drain:
  "\<exists>s'. (orch_step nw)\<^sup>*\<^sup>* s s' \<and> pending s' = [] \<and> (pending s \<noteq> [] \<longrightarrow> \<not> isSyncing s')"
proof (induction s rule: measure_induct_rule [where f = pending_weight])
  case (less s)
  show ?case
  proof (cases "pending s")
    case Nil
    then show ?thesis by blast
  next
    case (Cons p ps)
    then have "pending s \<noteq> []" by simp
    then obtain s1 where st: "orch_step nw s s1" and w: "pending_weight s1 < pending_weight s"
        and idle: "pending s1 = [] \<longrightarrow> \<not> isSyncing s1"
      using orch_progress by blast
    show ?thesis
    proof (cases "pending s1 = []")
      case True
      with st idle show ?thesis by (intro exI [where x = s1]) auto
    next
      case False
      from less [OF w] obtain s' where r: "(orch_step nw)\<^sup>*\<^sup>* s1 s'" and e: "pending s' = []"
          and f: "pending s1 \<noteq> [] \<longrightarrow> \<not> isSyncing s'"
        by blast
      have "(orch_step nw)\<^sup>*\<^sup>* s s'"
        using st r by (rule converse_rtranclp_into_rtranclp)
      with e f False show ?thesis by blast
    qed
  qed
qed

section \<open>Properties of the orchestration\<close>

text \<open>
  C16. Refinement: from an idle hook, one \<open>handleRefresh\<close> can run to its end with
  the steps of the relation, and then the store is exactly what \<open>syncTaskFromApi\<close>
  computes, no pass is in flight and the flag is cleared: the interleaved model
  implements the pass of the Sync theory.
\<close>

theorem handleRefresh_runs_syncTaskFromApi:
  "\<exists>s'. (orch_step (net env))\<^sup>*\<^sup>* (orch_init db) s' \<and> store s' = snd (syncTaskFromApi env db)
        \<and> pending s' = [] \<and> \<not> isSyncing s'"
proof -
  let ?s' = "fold (advance_at env) [0, 0, 0, 0] (handleRefresh (orch_init db))"
  have "(orch_step (net env))\<^sup>*\<^sup>* (orch_init db) (handleRefresh (orch_init db))"
    by (intro orch_reach_handleRefresh rtranclp.rtrancl_refl)
  then have "(orch_step (net env))\<^sup>*\<^sup>* (orch_init db) ?s'"
    using fold_advance_at_reach by (rule rtranclp_trans)
  moreover have "store ?s' = snd (syncTaskFromApi env db) \<and> pending ?s' = [] \<and> \<not> isSyncing ?s'"
    by (auto simp: advance_at_def handleRefresh_def orch_init_def drop_pass_def syncTaskFromApi_def
        split: sum.split)
  ultimately show ?thesis by blast
qed

text \<open>
  C17. The store invariant holds in every state of the hook, however passes interleave:
  a write computed from a stale snapshot of the local titles still only adds non-empty
  trimmed titles under fresh identifiers.
\<close>

theorem overlapping_passes_store_inv:
  "(orch_step nw)\<^sup>*\<^sup>* (orch_init database) s \<Longrightarrow> store_inv (store s)"
proof -
  assume r: "(orch_step nw)\<^sup>*\<^sup>* (orch_init database) s"
  have "store_inv (store (orch_init database))"
    by (simp add: orch_init_def database_def store_inv_def ids_ok_def titles_ok_def)
  with r show ?thesis by (rule orch_reach_store_inv)
qed

theorem overlapping_passes_store_inv_witness:
  "(orch_step (\<lambda>_. NetFailure))\<^sup>*\<^sup>* (orch_init database) (handleRefresh (orch_init database))
   \<and> store_inv (store (handleRefresh (orch_init database)))"
proof -
  have r: "(orch_step (\<lambda>_. NetFailure))\<^sup>*\<^sup>* (orch_init database) (handleRefresh (orch_init database))"
    by (intro orch_reach_handleRefresh rtranclp.rtrancl_refl)
  from r overlapping_passes_store_inv [OF r] show ?thesis by simp
qed

text \<open>
  C18. Overlapping passes duplicate rows (spec section 5): with the remote collection
  \<open>[a]\<close> unchanged, two passes that both read the local titles before either writes
  store \<open>a\<close> twice, where the same two passes one after the other store it once.
  \<open>handleRefresh\<close> does not suppress a refresh while \<open>isSyncing\<close> is set.
\<close>

theorem overlapping_passes_duplicate:
  "(\<exists>s. (orch_step (net (serving [remote_item 1 ''a''])))\<^sup>*\<^sup>* (orch_init database) s
        \<and> map todo (tasks (store s)) = [''a'', ''a''])
   \<and> map todo (tasks (snd (syncTaskFromApi (serving [remote_item 1 ''a''])
        (snd (syncTaskFromApi (serving [remote_item 1 ''a'']) database))))) = [''a'']"
proof
  let ?env = "serving [remote_item 1 ''a'']"
  let ?s2 = "handleRefresh (handleRefresh (orch_init database))"
  let ?s = "fold (advance_at ?env) ([0, 1, 0, 1] @ [0, 1]) ?s2"
  have "(orch_step (net ?env))\<^sup>*\<^sup>* (orch_init database) ?s2"
    by (intro orch_reach_handleRefresh rtranclp.rtrancl_refl)
  then have r: "(orch_step (net ?env))\<^sup>*\<^sup>* (orch_init database) ?s"
    using fold_advance_at_reach by (rule rtranclp_trans)
  let ?rs = "[remote_item 1 ''a'']"
  have s2: "?s2 = \<lparr>store = database, isSyncing = True, pending = [Fetching, Fetching]\<rparr>"
    by (simp add: handleRefresh_def orch_init_def)
  have read: "fold (advance_at ?env) [0, 1, 0, 1] ?s2
      = \<lparr>store = database, isSyncing = True, pending = [LocalRead {} (Some ?rs), LocalRead {} (Some ?rs)]\<rparr>"
    unfolding s2 by (simp add: advance_at_def sync_fetch_def db_fetch_def localTodoTexts_def database_def)
  have k: "tasksToCreate {} ?rs = ?rs"
    by (simp add: tasksToCreate_def keep_raw_def js_string_simps)
  have "map todo (tasks (store ?s)) = [js_trim ''a'', js_trim ''a'']"
    unfolding fold_append comp_apply read
    by (simp add: advance_at_def sync_write_Some k database_def prepareCreate_def)
  moreover have "js_trim ''a'' = ''a''" by (simp add: js_string_simps)
  ultimately have "map todo (tasks (store ?s)) = [''a'', ''a'']" by simp
  with r show "\<exists>s. (orch_step (net ?env))\<^sup>*\<^sup>* (orch_init database) s \<and> map todo (tasks (store s)) = [''a'', ''a'']"
    by (intro exI [of _ ?s] conjI)
next
  let ?d1 = "append_rows [prepareCreate 0 (remote_item 1 ''a'')] database"
  have f: "sync_fetch (net (serving [remote_item 1 ''a''])) = Inr (Some [remote_item 1 ''a''])"
    by (simp add: sync_fetch_def)
  have d1: "snd (syncTaskFromApi (serving [remote_item 1 ''a'']) database) = ?d1"
    using syncTaskFromApi_ok [OF f, of database]
    by (simp add: tasksToCreate_def keep_raw_def localTodoTexts_def database_def js_string_simps)
  have d2: "snd (syncTaskFromApi (serving [remote_item 1 ''a'']) ?d1) = ?d1"
    using syncTaskFromApi_ok [OF f, of ?d1]
    by (simp add: tasksToCreate_def keep_raw_def localTodoTexts_def database_def prepareCreate_def js_string_simps)
  from d1 d2 show "map todo (tasks (snd (syncTaskFromApi (serving [remote_item 1 ''a''])
        (snd (syncTaskFromApi (serving [remote_item 1 ''a'']) database))))) = [''a'']"
    by (simp add: prepareCreate_def database_def js_string_simps)
qed

text \<open>
  C19. The loading flag is not a single-flight guard: for any network and any store, the
  hook can reach a state where \<open>isSyncing\<close> is false while a pass is still in flight
  (two refreshes, the first settles and its \<open>finally\<close> clears the flag). The spec
  (sections 5 and 6) expects the orchestration layer's flag to keep one pass at a time.
\<close>

theorem isSyncing_cleared_in_flight:
  "\<exists>s. (orch_step nw)\<^sup>*\<^sup>* (orch_init db) s \<and> \<not> isSyncing s \<and> pending s = [Fetching]"
proof -
  let ?env = "\<lparr>net = nw, read_fault = True, batch_fault = None\<rparr>"
  let ?s2 = "handleRefresh (handleRefresh (orch_init db))"
  have r2: "(orch_step nw)\<^sup>*\<^sup>* (orch_init db) ?s2"
    by (intro orch_reach_handleRefresh rtranclp.rtrancl_refl)
  have reach: "(orch_step nw)\<^sup>*\<^sup>* (orch_init db) (fold (advance_at ?env) ks ?s2)" for ks
  proof -
    have "(orch_step (net ?env))\<^sup>*\<^sup>* ?s2 (fold (advance_at ?env) ks ?s2)"
      by (rule fold_advance_at_reach)
    then have "(orch_step nw)\<^sup>*\<^sup>* ?s2 (fold (advance_at ?env) ks ?s2)" by simp
    with r2 show ?thesis by (rule rtranclp_trans)
  qed
  show ?thesis
  proof (cases "sync_fetch nw")
    case (Inl e)
    have "\<not> isSyncing (fold (advance_at ?env) [0, 0] ?s2) \<and> pending (fold (advance_at ?env) [0, 0] ?s2) = [Fetching]"
      by (simp add: advance_at_def handleRefresh_def orch_init_def drop_pass_def Inl)
    with reach show ?thesis by blast
  next
    case (Inr a)
    have "\<not> isSyncing (fold (advance_at ?env) [0, 0, 0] ?s2) \<and> pending (fold (advance_at ?env) [0, 0, 0] ?s2) = [Fetching]"
      by (simp add: advance_at_def handleRefresh_def orch_init_def drop_pass_def db_fetch_def Inr)
    with reach show ?thesis by blast
  qed
qed


text \<open>
  C31. Offline-first under overlapping passes (spec sections 5 and 7): however refreshes
  and the phases of their passes interleave, and whatever the engine does, no step removes,
  reorders or changes a stored row; the rows of a state are a prefix of the rows of every
  state reachable from it.
\<close>
theorem overlapping_passes_append_only:
  "(orch_step nw)\<^sup>*\<^sup>* s s' \<Longrightarrow> prefix (tasks (store s)) (tasks (store s'))"
  by (induction rule: rtranclp_induct) (auto intro: prefix_order.trans orch_step_tasks_prefix)

theorem overlapping_passes_append_only_witness:
  "(orch_step (\<lambda>_. NetFailure))\<^sup>*\<^sup>* (orch_init database) (handleRefresh (orch_init database))
   \<and> prefix (tasks (store (orch_init database))) (tasks (store (handleRefresh (orch_init database))))"
proof -
  have r: "(orch_step (\<lambda>_. NetFailure))\<^sup>*\<^sup>* (orch_init database) (handleRefresh (orch_init database))"
    by (intro orch_reach_handleRefresh rtranclp.rtrancl_refl)
  from r overlapping_passes_append_only [OF r] show ?thesis by simp
qed

text \<open>
  C32. Every pass settles: from any state the hook reaches, whatever passes are in flight,
  the steps can run every one of them to its \<open>finally\<close>, and then the loading flag is
  cleared (whatever the network answers; the engine is not made to fail). Proved by
  induction on the weight of the phases left.
\<close>
theorem every_pass_settles:
  assumes "(orch_step nw)\<^sup>*\<^sup>* (orch_init db) s"
  shows "\<exists>s'. (orch_step nw)\<^sup>*\<^sup>* s s' \<and> pending s' = [] \<and> \<not> isSyncing s'"
proof (cases "pending s = []")
  case True
  with orch_reach_idle [OF assms] show ?thesis by blast
next
  case False
  with orch_drain [of nw s] show ?thesis by blast
qed

theorem every_pass_settles_witness:
  "(orch_step (\<lambda>_. NetFailure))\<^sup>*\<^sup>* (orch_init database) (handleRefresh (orch_init database))
   \<and> (\<exists>s'. (orch_step (\<lambda>_. NetFailure))\<^sup>*\<^sup>* (handleRefresh (orch_init database)) s'
           \<and> pending s' = [] \<and> \<not> isSyncing s')"
proof -
  have r: "(orch_step (\<lambda>_. NetFailure))\<^sup>*\<^sup>* (orch_init database) (handleRefresh (orch_init database))"
    by (intro orch_reach_handleRefresh rtranclp.rtrancl_refl)
  from r every_pass_settles [OF r] show ?thesis by blast
qed

end
