(* ===== verification/Schedule.thy ===== *)
theory Schedule
  imports Orchestrator
begin

text \<open>
  One schedule of the hook: the oldest pass in flight always moves first.
  \<open>advance_at env 0\<close> runs the continuation the oldest pass is waiting on (the fetch, the
  read of the local titles, the write, or \<open>finally\<close>) with the answers the environment of
  \<open>sync_env\<close> gives; \<open>run_oldest_first\<close> repeats it until no pass is in flight. The loop terminates
  because every continuation lowers \<open>pending_weight\<close>, the phases left. This is the order
  JavaScript runs the passes in when each await resolves before the next refresh's does;
  it is one of the interleavings of \<open>orch_step\<close>.
\<close>

section \<open>The oldest-first schedule\<close>

function run_oldest_first :: "sync_env \<Rightarrow> orch_state \<Rightarrow> orch_state" where
  "run_oldest_first env s = (if pending s = [] then s else run_oldest_first env (advance_at env 0 s))"
  by pat_completeness auto
termination
  by (relation "measure (\<lambda>(env, s). pending_weight s)") (auto simp: advance_at_weight)

declare run_oldest_first.simps [simp del]

section \<open>Lemmas\<close>

lemma run_oldest_first_Nil [simp]: "pending s = [] \<Longrightarrow> run_oldest_first env s = s"
  by (simp add: run_oldest_first.simps [of env s])

lemma run_oldest_first_Cons: "pending s \<noteq> [] \<Longrightarrow> run_oldest_first env s = run_oldest_first env (advance_at env 0 s)"
  by (simp add: run_oldest_first.simps [of env s])

lemma run_oldest_first_Fetching:
  assumes p: "pending s = Fetching # ps"
  shows "run_oldest_first env s
         = run_oldest_first env (s\<lparr>store := snd (syncTaskFromApi env (store s)), isSyncing := False, pending := ps\<rparr>)"
proof (cases "sync_fetch (net env)")
  case (Inl e)
  let ?s1 = "s\<lparr>pending := Settled (Inl e) # ps\<rparr>"
  have "run_oldest_first env s = run_oldest_first env ?s1"
    by (simp add: run_oldest_first_Cons p advance_at_def Inl)
  also have "\<dots> = run_oldest_first env (s\<lparr>isSyncing := False, pending := ps\<rparr>)"
    by (simp add: run_oldest_first_Cons advance_at_def)
  finally show ?thesis by (simp add: syncTaskFromApi_def Inl)
next
  case (Inr a)
  let ?s1 = "s\<lparr>pending := Fetched a # ps\<rparr>"
  have r1: "run_oldest_first env s = run_oldest_first env ?s1"
    by (simp add: run_oldest_first_Cons p advance_at_def Inr)
  show ?thesis
  proof (cases "read_fault env")
    case True
    have "run_oldest_first env ?s1 = run_oldest_first env (s\<lparr>pending := Settled (Inl StoreReadError) # ps\<rparr>)"
      by (simp add: run_oldest_first_Cons advance_at_def db_fetch_def True)
    also have "\<dots> = run_oldest_first env (s\<lparr>isSyncing := False, pending := ps\<rparr>)"
      by (simp add: run_oldest_first_Cons advance_at_def)
    finally show ?thesis using r1 by (simp add: syncTaskFromApi_def Inr db_fetch_def True)
  next
    case False
    let ?t = "localTodoTexts (tasks (store s))"
    have r2: "run_oldest_first env ?s1 = run_oldest_first env (s\<lparr>pending := LocalRead ?t a # ps\<rparr>)"
      by (simp add: run_oldest_first_Cons advance_at_def db_fetch_def False)
    show ?thesis
    proof (cases "sync_write (batch_fault env) ?t a (store s)")
      case (Inl e)
      have "run_oldest_first env (s\<lparr>pending := LocalRead ?t a # ps\<rparr>)
          = run_oldest_first env (s\<lparr>pending := Settled (Inl e) # ps\<rparr>)"
        by (simp add: run_oldest_first_Cons advance_at_def Inl)
      also have "\<dots> = run_oldest_first env (s\<lparr>isSyncing := False, pending := ps\<rparr>)"
        by (simp add: run_oldest_first_Cons advance_at_def)
      finally show ?thesis using r1 r2 by (simp add: syncTaskFromApi_def Inr db_fetch_def False Inl)
    next
      case (Inr db')
      have "run_oldest_first env (s\<lparr>pending := LocalRead ?t a # ps\<rparr>)
          = run_oldest_first env (s\<lparr>store := db', pending := Settled (Inr ()) # ps\<rparr>)"
        by (simp add: run_oldest_first_Cons advance_at_def Inr)
      also have "\<dots> = run_oldest_first env (s\<lparr>store := db', isSyncing := False, pending := ps\<rparr>)"
        by (simp add: run_oldest_first_Cons advance_at_def)
      finally show ?thesis using r1 r2 \<open>sync_fetch (net env) = Inr a\<close>
        by (simp add: syncTaskFromApi_def db_fetch_def False Inr)
    qed
  qed
qed

end
