(* ===== verification/Dashboard.thy ===== *)
theory Dashboard
  imports Store
begin

text \<open>
  The dashboard (\<open>src/src/screens/DashboardScreen.tsx\<close>) and the UI state it reads: the
  filter the user picks (\<open>DashboardScreen\<close>'s \<open>useState\<close>, the inline filter bar; the
  unused \<open>hooks/useFilter.ts\<close> and \<open>components/filterTabs.tsx\<close> hold the same state and
  tabs), the clauses \<open>enhance\<close> builds from it and the live query they observe, the UI
  store \<open>store/useUiStore.ts\<close> (Zustand: \<open>userName\<close>, \<open>isOnline\<close>), and the name entry of
  the header (\<open>tempName\<close>, \<open>isEditing\<close>, \<open>saveName\<close>) whose result is the name the native
  avatar receives. The live query is observed as the snapshot it emits for the store as
  it stands after each commit.
\<close>

section \<open>Filters\<close>

text \<open>\<open>type FilterType = 'all' | 'pending' | 'completed'\<close>.\<close>

datatype FilterType = F_all | F_pending | F_completed

text \<open>\<open>useFilter\<close>: the state starts at \<open>'all'\<close>; \<open>changeFilter\<close> replaces it.\<close>

definition useFilter_init :: FilterType where
  "useFilter_init = F_all"

definition changeFilter :: "FilterType \<Rightarrow> FilterType \<Rightarrow> FilterType" where
  "changeFilter newFilter fl = newFilter"

text \<open>
  \<open>FilterTabs\<close>: the configuration array and, per entry, what is rendered: the label, whether
  the tab is highlighted and selected (\<open>currentFilter === f.value\<close>), and the value its
  press hands to \<open>onFilterChange\<close>.
\<close>

definition filterTabs_filters :: "(string \<times> FilterType) list" where
  "filterTabs_filters = [(''Todas'', F_all), (''Pendientes'', F_pending), (''Hechas'', F_completed)]"

definition FilterTabs :: "FilterType \<Rightarrow> (string \<times> bool \<times> FilterType) list" where
  "FilterTabs currentFilter = map (\<lambda>(l, v). (l, currentFilter = v, v)) filterTabs_filters"

text \<open>The dashboard's own filter bar: the chips of \<open>['all', 'pending', 'completed']\<close>, each
  labelled by the nested conditional, active when it equals \<open>filter\<close>, pressing it calls
  \<open>setFilter(f)\<close>.\<close>

definition chip_label :: "FilterType \<Rightarrow> string" where
  "chip_label f = (if f = F_all then ''Todas'' else if f = F_pending then ''Pendientes'' else ''Hechas'')"

definition filterBar :: "FilterType \<Rightarrow> (string \<times> bool \<times> FilterType) list" where
  "filterBar fl = map (\<lambda>f. (chip_label f, fl = f, f)) [F_all, F_pending, F_completed]"

section \<open>The live query\<close>

text \<open>\<open>enhance\<close>: the clauses pushed for the filter, in the order of the two \<open>if\<close>s.\<close>

definition enhance_clauses :: "FilterType \<Rightarrow> clause list" where
  "enhance_clauses fl =
     (if fl = F_pending then [WhereCompleted False] else []) @
     (if fl = F_completed then [WhereCompleted True] else [])"

text \<open>\<open>database.get('tasks').query(...clauses).observe()\<close>: the snapshot emitted for a store.\<close>

definition observed_tasks :: "FilterType \<Rightarrow> db_state \<Rightarrow> task list" where
  "observed_tasks fl db = query_fetch (enhance_clauses fl) db"

text \<open>The spec's predicate (section 4.4): none, \<open>completed==false\<close>, \<open>completed==true\<close>.\<close>

fun spec_predicate :: "FilterType \<Rightarrow> task \<Rightarrow> bool" where
  "spec_predicate F_all t = True"
| "spec_predicate F_pending t = (\<not> completed t)"
| "spec_predicate F_completed t = completed t"

section \<open>UI state store and name entry\<close>

text \<open>\<open>interface UiState\<close> and the initial state of \<open>create<UiState>\<close>.\<close>

record UiState =
  userName :: string
  isOnline :: bool

definition useUiStore_init :: UiState where
  "useUiStore_init = \<lparr>userName = '''', isOnline = True\<rparr>"

text \<open>Zustand's \<open>set(partial)\<close>: a shallow merge, the fields the partial object names
  replaced and the others kept. A partial \<open>UiState\<close> names each field or not.\<close>

record UiState_partial =
  p_userName :: "string option"
  p_isOnline :: "bool option"

definition zustand_set :: "UiState_partial \<Rightarrow> UiState \<Rightarrow> UiState" where
  "zustand_set p s =
     s\<lparr>userName := (case p_userName p of None \<Rightarrow> userName s | Some n \<Rightarrow> n),
       isOnline := (case p_isOnline p of None \<Rightarrow> isOnline s | Some b \<Rightarrow> b)\<rparr>"

text \<open>\<open>setUserName: (name) => set({ userName: name })\<close> and
  \<open>setOnlineStatus: (status) => set({ isOnline: status })\<close>.\<close>

definition setUserName :: "string \<Rightarrow> UiState \<Rightarrow> UiState" where
  "setUserName name = zustand_set \<lparr>p_userName = Some name, p_isOnline = None\<rparr>"

definition setOnlineStatus :: "bool \<Rightarrow> UiState \<Rightarrow> UiState" where
  "setOnlineStatus status = zustand_set \<lparr>p_userName = None, p_isOnline = Some status\<rparr>"

text \<open>The store \<open>create<UiState>((set) => ({ ... }))\<close>: its initial state is
  \<open>useUiStore_init\<close>; its actions, as the commands a component calls.\<close>

datatype ui_action = SetUserName string | SetOnlineStatus bool

fun useUiStore :: "ui_action \<Rightarrow> UiState \<Rightarrow> UiState" where
  "useUiStore (SetUserName name) = setUserName name"
| "useUiStore (SetOnlineStatus status) = setOnlineStatus status"

text \<open>
  The dashboard's state: the UI store it subscribes to, the screen's \<open>filter\<close>, and the
  header's \<open>tempName\<close> and \<open>isEditing\<close>, initialised at mount from the store's name
  (\<open>useState(userName)\<close>, \<open>useState(!userName)\<close>).
\<close>

record dash_state =
  ui :: UiState
  dash_filter :: FilterType
  tempName :: string
  isEditing :: bool

definition Dashboard_mount :: "UiState \<Rightarrow> dash_state" where
  "Dashboard_mount u =
     \<lparr>ui = u, dash_filter = F_all, tempName = userName u, isEditing = \<not> js_truthy_str (userName u)\<rparr>"

text \<open>\<open>saveName\<close>: a name that is blank after trimming is ignored and the editor stays open.\<close>

definition saveName :: "dash_state \<Rightarrow> dash_state" where
  "saveName d =
     (if js_truthy_str (js_trim (tempName d))
      then d\<lparr>ui := setUserName (js_trim (tempName d)) (ui d), isEditing := False\<rparr>
      else d)"

text \<open>The header's events: typing, submitting or pressing OK, tapping the name to edit it,
  pressing a filter chip; and a change of the online flag by whoever calls the store.\<close>

datatype dash_event =
    ChangeText string
  | SubmitEditing
  | PressSave
  | PressName
  | PressChip FilterType
  | OnlineStatus bool

fun dash_step :: "dash_event \<Rightarrow> dash_state \<Rightarrow> dash_state" where
  "dash_step (ChangeText s) d = d\<lparr>tempName := s\<rparr>"
| "dash_step SubmitEditing d = saveName d"
| "dash_step PressSave d = saveName d"
| "dash_step PressName d = d\<lparr>isEditing := True\<rparr>"
| "dash_step (PressChip f) d = d\<lparr>dash_filter := f\<rparr>"
| "dash_step (OnlineStatus b) d = d\<lparr>ui := useUiStore (SetOnlineStatus b) (ui d)\<rparr>"

definition dash_run :: "dash_event list \<Rightarrow> dash_state \<Rightarrow> dash_state" where
  "dash_run evs d = fold dash_step evs d"

text \<open>\<open><AvatarView name={userName || "User"} />\<close>.\<close>

definition avatar_name :: "string \<Rightarrow> string" where
  "avatar_name name = (if js_truthy_str name then name else ''User'')"

text \<open>The header's invariant: the stored name is trimmed, and the welcome line (shown when
  not editing) has a name to show.\<close>

definition dash_inv :: "dash_state \<Rightarrow> bool" where
  "dash_inv d \<longleftrightarrow> trimmed (userName (ui d)) \<and> (\<not> isEditing d \<longrightarrow> userName (ui d) \<noteq> [])"

section \<open>Lemmas\<close>

lemma setUserName_simps [simp]:
  "userName (setUserName n s) = n" "isOnline (setUserName n s) = isOnline s"
  by (simp_all add: setUserName_def zustand_set_def)

lemma setOnlineStatus_simps [simp]:
  "userName (setOnlineStatus b s) = userName s" "isOnline (setOnlineStatus b s) = b"
  by (simp_all add: setOnlineStatus_def zustand_set_def)

text \<open>The store's two actions touch disjoint fields, so the shallow merge makes them
  commute: the order in which the header and the network monitor call them does not
  matter.\<close>

lemma useUiStore_commute:
  "useUiStore (SetUserName n) (useUiStore (SetOnlineStatus b) s)
   = useUiStore (SetOnlineStatus b) (useUiStore (SetUserName n) s)"
  by (simp add: setUserName_def setOnlineStatus_def zustand_set_def)

lemma tasks_toggleComplete:
  "set (tasks (toggleComplete i db)) = (\<lambda>v. if task_id v = i then v\<lparr>completed := \<not> completed v\<rparr> else v) ` set (tasks db)"
  by (simp add: toggleComplete_def update_task_def)

lemma toggle_member_id:
  assumes ok: "ids_ok db" and t: "t \<in> set (tasks db)" and ti: "task_id t = i"
  shows "u \<in> set (tasks (toggleComplete i db)) \<and> task_id u = i \<longleftrightarrow> u = t\<lparr>completed := \<not> completed t\<rparr>"
proof
  have inj: "inj_on task_id (set (tasks db))"
    using ok by (simp add: ids_ok_def distinct_map)
  assume u: "u \<in> set (tasks (toggleComplete i db)) \<and> task_id u = i"
  then obtain v where v: "v \<in> set (tasks db)"
      and uv: "u = (if task_id v = i then v\<lparr>completed := \<not> completed v\<rparr> else v)"
    unfolding tasks_toggleComplete by (elim conjE imageE)
  have "task_id v = i"
    using u uv by (cases "task_id v = i") simp_all
  then have "v = t"
    using inj_onD [OF inj _ v t] ti by simp
  with uv ti show "u = t\<lparr>completed := \<not> completed t\<rparr>"
    by simp
next
  assume u: "u = t\<lparr>completed := \<not> completed t\<rparr>"
  have "t\<lparr>completed := \<not> completed t\<rparr> \<in> (\<lambda>v. if task_id v = i then v\<lparr>completed := \<not> completed v\<rparr> else v) ` set (tasks db)"
    using t ti by (intro image_eqI [where x = t]) simp_all
  with u ti show "u \<in> set (tasks (toggleComplete i db)) \<and> task_id u = i"
    by (simp only: tasks_toggleComplete) simp
qed

lemma enhance_clauses_holds [simp]:
  "list_all (\<lambda>c. clause_holds c t) (enhance_clauses f) \<longleftrightarrow> spec_predicate f t"
  by (cases f) (simp_all add: enhance_clauses_def)

lemma dash_inv_step: "dash_inv d \<Longrightarrow> dash_inv (dash_step e d)"
  by (cases e) (auto simp: dash_inv_def saveName_def js_truthy_str_def
      js_trim_trimmed)

lemma dash_inv_run: "dash_inv d \<Longrightarrow> dash_inv (dash_run evs d)"
  unfolding dash_run_def by (induction evs arbitrary: d) (auto intro: dash_inv_step)

lemma dash_inv_mount: "trimmed (userName u) \<Longrightarrow> dash_inv (Dashboard_mount u)"
  by (simp add: dash_inv_def Dashboard_mount_def js_truthy_str_def)

section \<open>Properties of the dashboard\<close>

text \<open>
  C20. Live query correctness (spec sections 4.4 and 8): the snapshot the dashboard
  observes for a filter is exactly the stored rows that satisfy the spec's predicate for
  it, in store order: the clauses \<open>enhance\<close> builds implement the predicate, so no
  emitted row mismatches the filter and none that matches is missing.
\<close>
theorem observed_tasks_spec:
  "observed_tasks fl db = filter (spec_predicate fl) (tasks db)"
  by (simp add: observed_tasks_def query_fetch_def)

text \<open>
  C21. A toggle moves the record between the filtered views: after toggling record
  \<open>i\<close>, the completed view holds a row with id \<open>i\<close> exactly when the record was pending,
  and the pending view exactly when it was completed.
\<close>
theorem toggle_moves_between_views:
  assumes "ids_ok db" "t \<in> set (tasks db)" "task_id t = i"
  shows "((\<exists>u\<in>set (observed_tasks F_completed (toggleComplete i db)). task_id u = i) \<longleftrightarrow> \<not> completed t)
       \<and> ((\<exists>u\<in>set (observed_tasks F_pending (toggleComplete i db)). task_id u = i) \<longleftrightarrow> completed t)"
proof -
  have m: "(\<exists>u\<in>set (tasks (toggleComplete i db)). task_id u = i \<and> P u) \<longleftrightarrow> P (t\<lparr>completed := \<not> completed t\<rparr>)" for P
  proof -
    have "(\<exists>u\<in>set (tasks (toggleComplete i db)). task_id u = i \<and> P u)
        \<longleftrightarrow> (\<exists>u. (u \<in> set (tasks (toggleComplete i db)) \<and> task_id u = i) \<and> P u)"
      by blast
    also have "\<dots> \<longleftrightarrow> (\<exists>u. u = t\<lparr>completed := \<not> completed t\<rparr> \<and> P u)"
      by (simp only: toggle_member_id [OF assms])
    finally show ?thesis by simp
  qed
  have c: "(\<exists>u\<in>set (observed_tasks F_completed (toggleComplete i db)). task_id u = i) \<longleftrightarrow> \<not> completed t"
    using m [of completed] by (auto simp: observed_tasks_def query_fetch_def)
  have p: "(\<exists>u\<in>set (observed_tasks F_pending (toggleComplete i db)). task_id u = i) \<longleftrightarrow> completed t"
    using m [of "\<lambda>u. \<not> completed u"] by (auto simp: observed_tasks_def query_fetch_def)
  from c p show ?thesis by (rule conjI)
qed

text \<open>
  C24. Whatever the user types, submits, taps and filters, starting from the store's
  initial state: the stored name is trimmed, the welcome line never shows an empty name,
  and the name the dashboard hands to the native avatar is non-empty and trimmed.
\<close>
theorem dashboard_name_shown:
  "dash_inv (dash_run evs (Dashboard_mount useUiStore_init))
   \<and> js_trim (avatar_name (userName (ui (dash_run evs (Dashboard_mount useUiStore_init)))))
       = avatar_name (userName (ui (dash_run evs (Dashboard_mount useUiStore_init))))
   \<and> avatar_name (userName (ui (dash_run evs (Dashboard_mount useUiStore_init)))) \<noteq> []"
proof -
  have "dash_inv (dash_run evs (Dashboard_mount useUiStore_init))"
    by (rule dash_inv_run, rule dash_inv_mount) (simp add: useUiStore_init_def trimmed_def)
  then show ?thesis
    by (simp add: dash_inv_def avatar_name_def js_truthy_str_def js_trim_id_iff)
      (simp add: js_trim_id_iff [symmetric] js_trim_def is_js_space_def)
qed

text \<open>
  \<open>saveName\<close> on each branch: a name that is blank after trimming changes nothing
  (the editor stays open); otherwise the store receives the trimmed name and the editor
  closes, leaving the filter and the typed text as they were.
\<close>
theorem saveName_cases:
  "(js_trim (tempName d) = [] \<longrightarrow> saveName d = d)
   \<and> (js_trim (tempName d) \<noteq> [] \<longrightarrow> userName (ui (saveName d)) = js_trim (tempName d)
        \<and> \<not> isEditing (saveName d) \<and> dash_filter (saveName d) = dash_filter d
        \<and> tempName (saveName d) = tempName d)"
  by (simp add: saveName_def js_truthy_str_def)

text \<open>
  The unused \<open>FilterTabs\<close> component renders the same tabs as the dashboard's inline
  filter bar (labels, order, values); exactly one tab is highlighted, the one of the
  current filter.
\<close>
theorem filterTabs_eq_filterBar:
  "FilterTabs fl = filterBar fl \<and> length (filter (\<lambda>(l, sel, v). sel) (filterBar fl)) = 1
   \<and> (\<forall>(l, sel, v)\<in>set (filterBar fl). sel \<longleftrightarrow> v = fl)"
  by (cases fl) (simp_all add: FilterTabs_def filterTabs_filters_def filterBar_def chip_label_def)

theorem toggle_moves_between_views_witness:
  "ids_ok \<lparr>tasks = [\<lparr>task_id = 0, todo = ''a'', completed = False, attachmentUri = None\<rparr>], next_id = 1\<rparr>
   \<and> (\<exists>u\<in>set (observed_tasks F_completed (toggleComplete 0
          \<lparr>tasks = [\<lparr>task_id = 0, todo = ''a'', completed = False, attachmentUri = None\<rparr>], next_id = 1\<rparr>)). task_id u = 0)
   \<and> \<not> (\<exists>u\<in>set (observed_tasks F_pending (toggleComplete 0
          \<lparr>tasks = [\<lparr>task_id = 0, todo = ''a'', completed = False, attachmentUri = None\<rparr>], next_id = 1\<rparr>)). task_id u = 0)"
proof -
  have ok: "ids_ok \<lparr>tasks = [\<lparr>task_id = 0, todo = ''a'', completed = False, attachmentUri = None\<rparr>], next_id = 1\<rparr>"
    by (simp add: ids_ok_def)
  note w = toggle_moves_between_views [OF ok, of "\<lparr>task_id = 0, todo = ''a'', completed = False, attachmentUri = None\<rparr>" 0]
  from ok w show ?thesis by simp
qed

theorem dashboard_name_shown_witness:
  "dash_inv (dash_run [ChangeText '' Ana '', PressSave] (Dashboard_mount useUiStore_init))
   \<and> avatar_name (userName (ui (dash_run [ChangeText '' Ana '', PressSave] (Dashboard_mount useUiStore_init)))) = ''Ana''"
proof -
  have "avatar_name (userName (ui (dash_run [ChangeText '' Ana '', PressSave] (Dashboard_mount useUiStore_init)))) = ''Ana''"
    by (simp add: dash_run_def Dashboard_mount_def useUiStore_init_def saveName_def
        avatar_name_def js_truthy_str_def js_trim_def is_js_space_def)
  with dashboard_name_shown [of "[ChangeText '' Ana '', PressSave]"] show ?thesis by simp
qed

theorem saveName_cases_witness:
  "saveName ((Dashboard_mount useUiStore_init)\<lparr>tempName := ''  ''\<rparr>) = (Dashboard_mount useUiStore_init)\<lparr>tempName := ''  ''\<rparr>
   \<and> userName (ui (saveName ((Dashboard_mount useUiStore_init)\<lparr>tempName := '' Bo''\<rparr>))) = ''Bo''"
proof -
  have b: "js_trim ''  '' = []" and n: "js_trim '' Bo'' = ''Bo''"
    by (simp_all add: js_trim_def is_js_space_def)
  from saveName_cases [of "(Dashboard_mount useUiStore_init)\<lparr>tempName := ''  ''\<rparr>"]
       saveName_cases [of "(Dashboard_mount useUiStore_init)\<lparr>tempName := '' Bo''\<rparr>"] b n
  show ?thesis by simp
qed

theorem filterTabs_eq_filterBar_witness:
  "FilterTabs F_pending = filterBar F_pending
   \<and> filter (\<lambda>(l, sel, v). sel) (filterBar F_pending) = [(''Pendientes'', True, F_pending)]"
proof -
  have "filter (\<lambda>(l, sel, v). sel) (filterBar F_pending) = [(''Pendientes'', True, F_pending)]"
    by (simp add: filterBar_def chip_label_def)
  with filterTabs_eq_filterBar [of F_pending] show ?thesis by simp
qed

end
