(* ===== verification/TaskItem.thy ===== *)
theory TaskItem
  imports Store
begin

text \<open>
  One row of the list (\<open>src/src/components/TaskItem.tsx\<close>): the checkbox press calls
  \<open>task.toggleComplete()\<close>, the camera button runs \<open>handleCamera\<close>, which awaits
  \<open>launchCamera\<close> and attaches the first asset's URI, and the title falls back to a
  placeholder when the record's \<open>todo\<close> is empty. The picker's answer is an input: the
  \<open>ImagePickerResponse\<close> of react-native-image-picker, reduced to the fields the handler
  reads. The record the row shows is named by its id.
\<close>

section \<open>The picker's answer\<close>

record Asset =
  uri :: "string option"

record ImagePickerResponse =
  didCancel :: bool
  assets :: "Asset list option"

section \<open>The handlers\<close>

text \<open>
  \<open>if (result.assets && result.assets[0].uri) await task.addAttachment(result.assets[0].uri)\<close>.
  An absent \<open>assets\<close> (a cancelled capture) skips the write. A present array is truthy
  even when empty, and then \<open>result.assets[0]\<close> is \<open>undefined\<close> and reading its \<open>uri\<close>
  throws a \<open>TypeError\<close>. A URI is written only when it is a non-empty string.
\<close>

definition handleCamera :: "nat \<Rightarrow> ImagePickerResponse \<Rightarrow> db_state \<Rightarrow> db_state result" where
  "handleCamera i result db =
     (case assets result of
        None \<Rightarrow> Inr db
      | Some [] \<Rightarrow> Inl TypeError
      | Some (a # _) \<Rightarrow>
          (case uri a of
             None \<Rightarrow> Inr db
           | Some u \<Rightarrow> (if js_truthy_str u then Inr (addAttachment i u db) else Inr db)))"

text \<open>The row's two buttons.\<close>

datatype item_event = PressCheckbox | PressCamera ImagePickerResponse

fun TaskItem_step :: "nat \<Rightarrow> item_event \<Rightarrow> db_state \<Rightarrow> db_state result" where
  "TaskItem_step i PressCheckbox db = Inr (toggleComplete i db)"
| "TaskItem_step i (PressCamera result) db = handleCamera i result db"

text \<open>\<open>{task.todo ? task.todo : "Tarea sin t\<dots>tulo en DB"}\<close> (the accented letter is the
  code unit U+00ED).\<close>

definition display_title :: "task \<Rightarrow> string" where
  "display_title t =
     (if js_truthy_str (todo t) then todo t else ''Tarea sin t'' @ [CHR 0xED] @ ''tulo en DB'')"

section \<open>The camera device hook\<close>

text \<open>
  \<open>src/src/hooks/useCamera.ts\<close> (not imported by any screen): the first device whose
  position is \<open>'back'\<close>, and \<open>requestPermissions\<close>, true exactly when the system answers
  \<open>'granted'\<close>. The devices and the permission answer are inputs.
\<close>

datatype camera_position = Back | Front | External

record camera_device =
  position :: camera_position

definition useCamera_device :: "camera_device list \<Rightarrow> camera_device option" where
  "useCamera_device devices = find (\<lambda>d. position d = Back) devices"

definition requestPermissions :: "string \<Rightarrow> bool" where
  "requestPermissions permission \<longleftrightarrow> permission = ''granted''"

section \<open>Lemmas\<close>

lemma handleCamera_cases_raw:
  "handleCamera i r db = Inr db \<or> handleCamera i r db = Inl TypeError
   \<or> (\<exists>u. handleCamera i r db = Inr (addAttachment i u db))"
  by (auto simp: handleCamera_def split: option.splits list.splits)

lemma handleCamera_store_inv:
  "handleCamera i r db = Inr db' \<Longrightarrow> store_inv db \<Longrightarrow> store_inv db'"
  using handleCamera_cases_raw [of i r db]
  by (auto simp: addAttachment_def intro: store_inv_update_task)

lemma TaskItem_step_store_inv:
  "TaskItem_step i ev db = Inr db' \<Longrightarrow> store_inv db \<Longrightarrow> store_inv db'"
  by (cases ev) (auto simp: toggleComplete_def intro: store_inv_update_task handleCamera_store_inv)

lemma TaskItem_step_cases:
  assumes "TaskItem_step i ev db = Inr db'"
  shows "db' = db \<or> db' = toggleComplete i db \<or> (\<exists>u. db' = addAttachment i u db)"
proof (cases ev)
  case PressCheckbox
  with assms show ?thesis by simp
next
  case (PressCamera r)
  with assms handleCamera_cases_raw [of i r db] show ?thesis by auto
qed

section \<open>Properties of the row\<close>

text \<open>
  C22. \<open>handleCamera\<close> on each branch: a cancelled capture (no \<open>assets\<close>) leaves the
  store unchanged; an empty \<open>assets\<close> array passes the guard and throws a \<open>TypeError\<close>;
  a first asset with a non-empty URI attaches exactly that URI to the row's record; a first
  asset without a URI, or with an empty one, writes nothing.
\<close>
theorem handleCamera_cases:
  "(assets r = None \<longrightarrow> handleCamera i r db = Inr db)
   \<and> (assets r = Some [] \<longrightarrow> handleCamera i r db = Inl TypeError)
   \<and> (assets r = Some (a # as) \<longrightarrow> uri a = Some u \<longrightarrow> u \<noteq> [] \<longrightarrow>
        handleCamera i r db = Inr (addAttachment i u db))
   \<and> (assets r = Some (a # as) \<longrightarrow> uri a \<in> {None, Some []} \<longrightarrow> handleCamera i r db = Inr db)"
  by (auto simp: handleCamera_def js_truthy_str_def)

theorem handleCamera_cases_witness:
  "handleCamera 0 \<lparr>didCancel = True, assets = None\<rparr> database = Inr database
   \<and> handleCamera 0 \<lparr>didCancel = False, assets = Some []\<rparr> database = Inl TypeError
   \<and> handleCamera 0 \<lparr>didCancel = False, assets = Some [\<lparr>uri = Some ''file://a''\<rparr>]\<rparr> database
       = Inr (addAttachment 0 ''file://a'' database)
   \<and> handleCamera 0 \<lparr>didCancel = False, assets = Some [\<lparr>uri = None\<rparr>]\<rparr> database = Inr database"
  using handleCamera_cases [of "\<lparr>didCancel = True, assets = None\<rparr>" 0 database]
        handleCamera_cases [of "\<lparr>didCancel = False, assets = Some []\<rparr>" 0 database]
        handleCamera_cases [of "\<lparr>didCancel = False, assets = Some [\<lparr>uri = Some ''file://a''\<rparr>]\<rparr>" 0 database
          "\<lparr>uri = Some ''file://a''\<rparr>" "[]" "''file://a''"]
        handleCamera_cases [of "\<lparr>didCancel = False, assets = Some [\<lparr>uri = None\<rparr>]\<rparr>" 0 database
          "\<lparr>uri = None\<rparr>" "[]"]
  by simp

text \<open>
  The placeholder title is never shown for a stored row: every record of a store
  that keeps the invariant is displayed with its own title.
\<close>
theorem display_title_stored:
  "store_inv db \<Longrightarrow> t \<in> set (tasks db) \<Longrightarrow> display_title t = todo t"
  by (auto simp: store_inv_def titles_ok_def title_ok_def list_all_iff display_title_def js_truthy_str_def)

theorem display_title_stored_witness:
  "store_inv \<lparr>tasks = [\<lparr>task_id = 0, todo = ''a'', completed = False, attachmentUri = None\<rparr>], next_id = 1\<rparr>
   \<and> display_title \<lparr>task_id = 0, todo = ''a'', completed = False, attachmentUri = None\<rparr> = ''a''"
proof -
  have i: "store_inv \<lparr>tasks = [\<lparr>task_id = 0, todo = ''a'', completed = False, attachmentUri = None\<rparr>], next_id = 1\<rparr>"
    by (simp add: store_inv_def ids_ok_def titles_ok_def title_ok_def js_trim_def is_js_space_def)
  from i display_title_stored [OF i, of "\<lparr>task_id = 0, todo = ''a'', completed = False, attachmentUri = None\<rparr>"]
  show ?thesis by simp
qed

end
