(* ===== verification/Styles.thy ===== *)
theory Styles
  imports Complex_Main Prelude
begin

text \<open>
  React Native styles as the components write them. A style sheet is
  \<open>StyleSheet.create({...})\<close> of an object whose entries are style objects; the \<open>style\<close> prop
  of an element is a style object or an array of entries in which a falsy entry (the
  \<open>false\<close> of \<open>cond && styles.x\<close>, an absent prop) is skipped. React Native draws the
  element with the array flattened into one object, a later entry overriding an earlier
  one key by key (\<open>StyleSheet.flatten\<close>). A style value is a number (rational, for
  opacities such as 0.05), a string (colours, keywords, \<open>'100%'\<close>) or a nested object
  (\<open>shadowOffset\<close>). The sheets of \<open>AvatarView.tsx\<close>, \<open>DashboardScreen.tsx\<close>,
  \<open>TaskItem.tsx\<close> and \<open>filterTabs.tsx\<close> are data, key for key and in source order.
\<close>

section \<open>Style objects and their flattening\<close>

datatype style_val = Num rat | Str string | Obj "(string \<times> style_val) list"

type_synonym style_object = "(string \<times> style_val) list"

text \<open>The map an object literal denotes: a repeated key keeps its last value.\<close>

definition obj :: "style_object \<Rightarrow> string \<rightharpoonup> style_val" where
  "obj kvs = map_of (rev kvs)"

text \<open>An entry of a style array: a style object, or a falsy value.\<close>

datatype style_entry = StyleObj style_object | NoStyle

text \<open>\<open>cond && e\<close>: \<open>e\<close> when \<open>cond\<close> holds, \<open>false\<close> otherwise.\<close>

definition js_and :: "bool \<Rightarrow> style_entry \<Rightarrow> style_entry" where
  "js_and b e = (if b then e else NoStyle)"

type_synonym style = "string \<rightharpoonup> style_val"

primrec entry_obj :: "style_entry \<Rightarrow> style" where
  "entry_obj NoStyle = Map.empty"
| "entry_obj (StyleObj s) = obj s"

text \<open>\<open>StyleSheet.flatten\<close>: every key of every truthy entry copied in order into one result.\<close>

definition StyleSheet_flatten :: "style_entry list \<Rightarrow> style" where
  "StyleSheet_flatten es = fold (\<lambda>e m. m ++ entry_obj e) es Map.empty"

text \<open>\<open>StyleSheet.create\<close> returns its argument; \<open>styles.k\<close> is the entry named \<open>k\<close>, and
  \<open>undefined\<close> (falsy) when the sheet has none.\<close>

type_synonym style_sheet = "(string \<times> style_object) list"

definition sheet_get :: "style_sheet \<Rightarrow> string \<Rightarrow> style_entry" where
  "sheet_get sheet k = (case map_of (rev sheet) k of None \<Rightarrow> NoStyle | Some s \<Rightarrow> StyleObj s)"

section \<open>The style sheets\<close>

text \<open>\<open>AvatarView.tsx\<close>: the default size and the clipping of the native view.\<close>

definition AvatarView_styles :: style_sheet where
  "AvatarView_styles =
     [(''defaultStyle'', [(''width'', Num 50), (''height'', Num 50), (''borderRadius'', Num 25),
                          (''overflow'', Str ''hidden'')])]"

text \<open>\<open>DashboardScreen.tsx\<close>.\<close>

definition DashboardScreen_styles :: style_sheet where
  "DashboardScreen_styles =
     [(''container'', [(''flex'', Num 1)]),
      (''header'', [(''flexDirection'', Str ''row''), (''justifyContent'', Str ''space-between''),
                    (''paddingHorizontal'', Num 25), (''paddingTop'', Num 20), (''paddingBottom'', Num 20),
                    (''alignItems'', Str ''center''), (''backgroundColor'', Str ''#FFF''),
                    (''borderBottomLeftRadius'', Num 30), (''borderBottomRightRadius'', Num 30),
                    (''elevation'', Num 4)]),
      (''welcome'', [(''fontSize'', Num 14), (''color'', Str ''#64748B''), (''fontWeight'', Str ''500'')]),
      (''name'', [(''fontSize'', Num 24), (''fontWeight'', Str ''800''), (''color'', Str ''#0F172A'')]),
      (''avatar'', [(''width'', Num 60), (''height'', Num 60), (''borderRadius'', Num 30)]),
      (''inputRow'', [(''flexDirection'', Str ''row''), (''alignItems'', Str ''center'')]),
      (''input'', [(''flex'', Num 1), (''fontSize'', Num 18), (''fontWeight'', Str ''700''),
                   (''color'', Str ''#0F172A''), (''borderBottomWidth'', Num 2),
                   (''borderBottomColor'', Str ''#6366F1''), (''marginRight'', Num 10)]),
      (''saveBtn'', [(''backgroundColor'', Str ''#6366F1''), (''padding'', Num 8), (''borderRadius'', Num 8)]),
      (''saveBtnText'', [(''color'', Str ''#FFF''), (''fontWeight'', Str ''bold'')]),
      (''filterBar'', [(''flexDirection'', Str ''row''), (''paddingHorizontal'', Num 20), (''gap'', Num 10),
                       (''marginTop'', Num 20), (''marginBottom'', Num 10)]),
      (''chip'', [(''flex'', Num 1), (''paddingVertical'', Num 12), (''borderRadius'', Num 16),
                  (''backgroundColor'', Str ''#FFF''), (''alignItems'', Str ''center''), (''elevation'', Num 2)]),
      (''chipActive'', [(''backgroundColor'', Str ''#6366F1'')]),
      (''chipText'', [(''fontSize'', Num 13), (''fontWeight'', Str ''700''), (''color'', Str ''#64748B'')]),
      (''chipTextActive'', [(''color'', Str ''#FFF'')]),
      (''listContent'', [(''paddingBottom'', Num 40)])]"

text \<open>\<open>TaskItem.tsx\<close>.\<close>

definition TaskItem_styles :: style_sheet where
  "TaskItem_styles =
     [(''card'', [(''backgroundColor'', Str ''#FFF''), (''marginHorizontal'', Num 20), (''marginVertical'', Num 8),
                  (''padding'', Num 16), (''borderRadius'', Num 22), (''flexDirection'', Str ''row''),
                  (''alignItems'', Str ''center''), (''elevation'', Num 3), (''shadowColor'', Str ''#000''),
                  (''shadowOffset'', Obj [(''width'', Num 0), (''height'', Num 2)]),
                  (''shadowOpacity'', Num 0.05), (''shadowRadius'', Num 8)]),
      (''cardCompleted'', [(''backgroundColor'', Str ''#F8F9FA''), (''elevation'', Num 0)]),
      (''checkbox'', [(''width'', Num 26), (''height'', Num 26), (''borderRadius'', Num 13), (''borderWidth'', Num 2),
                      (''borderColor'', Str ''#6366F1''), (''alignItems'', Str ''center''),
                      (''justifyContent'', Str ''center''), (''marginRight'', Num 12)]),
      (''checkboxActive'', [(''backgroundColor'', Str ''#6366F1'')]),
      (''checkIcon'', [(''color'', Str ''#FFF''), (''fontWeight'', Str ''bold'')]),
      (''content'', [(''flex'', Num 1)]),
      (''todoText'', [(''fontSize'', Num 16), (''color'', Str ''#1E293B''), (''fontWeight'', Str ''600'')]),
      (''completedText'', [(''textDecorationLine'', Str ''line-through''), (''color'', Str ''#94A3B8'')]),
      (''attachmentImg'', [(''width'', Str ''100%''), (''height'', Num 120), (''borderRadius'', Num 14),
                           (''marginTop'', Num 10)]),
      (''cameraBtn'', [(''backgroundColor'', Str ''#F1F5F9''), (''padding'', Num 10), (''borderRadius'', Num 14)])]"

text \<open>\<open>filterTabs.tsx\<close>.\<close>

definition FilterTabs_styles :: style_sheet where
  "FilterTabs_styles =
     [(''container'', [(''flexDirection'', Str ''row''), (''backgroundColor'', Str ''#f0f0f0''), (''borderRadius'', Num 8),
                       (''margin'', Num 16), (''elevation'', Num 2), (''shadowColor'', Str ''#000''),
                       (''shadowOffset'', Obj [(''width'', Num 0), (''height'', Num 1)]),
                       (''shadowOpacity'', Num 0.1), (''shadowRadius'', Num 2)]),
      (''tab'', [(''flex'', Num 1), (''paddingVertical'', Num 12), (''alignItems'', Str ''center''),
                 (''borderRadius'', Num 8)]),
      (''activeTab'', [(''backgroundColor'', Str ''#007aff'')]),
      (''text'', [(''color'', Str ''#666''), (''fontWeight'', Str ''600'')]),
      (''activeText'', [(''color'', Str ''#fff'')])]"

section \<open>The avatar's style\<close>

text \<open>\<open>style={[styles.defaultStyle, style]}\<close> with the \<open>style\<close> prop the caller passes.\<close>

definition AvatarView_style :: "style_entry \<Rightarrow> style" where
  "AvatarView_style st = StyleSheet_flatten [sheet_get AvatarView_styles ''defaultStyle'', st]"

text \<open>The dashboard's avatar: \<open>style={styles.avatar}\<close>.\<close>

definition dashboard_avatar_style :: style_entry where
  "dashboard_avatar_style = sheet_get DashboardScreen_styles ''avatar''"

definition is_circle :: "style \<Rightarrow> bool" where
  "is_circle st \<longleftrightarrow>
     (case (st ''width'', st ''height'', st ''borderRadius'') of
        (Some (Num w), Some (Num h), Some (Num r)) \<Rightarrow> w = h \<and> 2 * r = w
      | _ \<Rightarrow> False)"

section \<open>Lemmas\<close>

lemma fold_entry_obj: "fold (\<lambda>e m. m ++ entry_obj e) es m = m ++ StyleSheet_flatten es"
proof (induction es arbitrary: m)
  case Nil
  then show ?case by (simp add: StyleSheet_flatten_def)
next
  case (Cons e es)
  have "fold (\<lambda>e m. m ++ entry_obj e) (e # es) m = (m ++ entry_obj e) ++ StyleSheet_flatten es"
    by (simp only: fold_Cons o_apply Cons.IH)
  moreover have "StyleSheet_flatten (e # es) = (Map.empty ++ entry_obj e) ++ StyleSheet_flatten es"
    unfolding StyleSheet_flatten_def [of "e # es"] by (simp only: fold_Cons o_apply Cons.IH)
  ultimately show ?case by simp
qed

lemma StyleSheet_flatten_Nil [simp]: "StyleSheet_flatten [] = Map.empty"
  by (simp add: StyleSheet_flatten_def)

lemma StyleSheet_flatten_Cons [simp]:
  "StyleSheet_flatten (e # es) = entry_obj e ++ StyleSheet_flatten es"
  using fold_entry_obj [of es "entry_obj e"] unfolding StyleSheet_flatten_def [of "e # es"] by simp

lemma entry_obj_js_and [simp]: "entry_obj (js_and b e) = (if b then entry_obj e else Map.empty)"
  by (simp add: js_and_def)

lemma entry_obj_sheet_get [simp]:
  "entry_obj (sheet_get sheet k) = (case map_of (rev sheet) k of None \<Rightarrow> Map.empty | Some s \<Rightarrow> obj s)"
  by (simp add: sheet_get_def split: option.split)

end
