(* ===== verification/Views.thy ===== *)
theory Views
  imports Dashboard TaskItem Styles
begin

text \<open>
  What the screens render, as data: the dashboard (\<open>Dashboard\<close> in
  \<open>src/src/screens/DashboardScreen.tsx\<close>: header, avatar, filter bar, the \<open>FlatList\<close> of the
  live query and its \<open>RefreshControl\<close>), a row (\<open>TaskItem\<close> in
  \<open>src/src/components/TaskItem.tsx\<close>, re-rendered with the record \<open>task.observe()\<close>
  emits), the avatar's style (\<open>src/src/components/AvatarView.tsx\<close>), the navigator
  (\<open>src/src/navigation/MainNavigator.tsx\<close>, \<open>types.ts\<close>) and the app root
  (\<open>src/App.tsx\<close>). What is kept is what a user or React reads from the tree: texts,
  flags, keys, props, and the flattened style (theory Styles) of the elements whose style
  depends on the state: the chips of the filter bar, the tabs of \<open>FilterTabs\<close>, a row's
  card, checkbox and title. Animation is left out.
\<close>

section \<open>The filter bars as drawn\<close>

text \<open>
  A chip of the dashboard's bar: \<open>key={f}\<close>,
  \<open>style={[styles.chip, filter === f && styles.chipActive]}\<close>, the text's
  \<open>style={[styles.chipText, filter === f && styles.chipTextActive]}\<close>, the label, and
  \<open>onPress={() => setFilter(f)}\<close>. \<open>filterBar\<close> (theory Dashboard) is the same bar read
  as label, highlight and value.
\<close>

record chip_element =
  chip_key :: FilterType
  chip_style :: style
  chip_text_style :: style
  chip_text :: string
  chip_onPress :: FilterType

definition filterBar_elements :: "FilterType \<Rightarrow> chip_element list" where
  "filterBar_elements fl =
     map (\<lambda>f. \<lparr>chip_key = f,
              chip_style = StyleSheet_flatten [sheet_get DashboardScreen_styles ''chip'',
                             js_and (fl = f) (sheet_get DashboardScreen_styles ''chipActive'')],
              chip_text_style = StyleSheet_flatten [sheet_get DashboardScreen_styles ''chipText'',
                             js_and (fl = f) (sheet_get DashboardScreen_styles ''chipTextActive'')],
              chip_text = chip_label f,
              chip_onPress = f\<rparr>)
       [F_all, F_pending, F_completed]"

text \<open>
  A tab of \<open>FilterTabs\<close>: \<open>key={f.value}\<close>, the tab's and the text's conditional styles,
  \<open>onPress={() => onFilterChange(f.value)}\<close>, \<open>accessibilityRole="tab"\<close> and
  \<open>accessibilityState={{ selected: currentFilter === f.value }}\<close>.
\<close>

record tab_element =
  tab_key :: FilterType
  tab_style :: style
  tab_text_style :: style
  tab_label :: string
  tab_onPress :: FilterType
  tab_role :: string
  tab_selected :: bool

definition FilterTabs_elements :: "FilterType \<Rightarrow> tab_element list" where
  "FilterTabs_elements currentFilter =
     map (\<lambda>(label, value). \<lparr>tab_key = value,
              tab_style = StyleSheet_flatten [sheet_get FilterTabs_styles ''tab'',
                            js_and (currentFilter = value) (sheet_get FilterTabs_styles ''activeTab'')],
              tab_text_style = StyleSheet_flatten [sheet_get FilterTabs_styles ''text'',
                            js_and (currentFilter = value) (sheet_get FilterTabs_styles ''activeText'')],
              tab_label = label,
              tab_onPress = value,
              tab_role = ''tab'',
              tab_selected = (currentFilter = value)\<rparr>)
       filterTabs_filters"

section \<open>The dashboard\<close>

datatype header_view = EditRow string | Welcome string

record dashboard_view =
  header :: header_view
  avatar_prop :: string
  chips :: "chip_element list"
  list_keys :: "nat list"
  list_items :: "task list"
  refreshing :: bool

text \<open>\<open>Dashboard\<close>'s render: the editing row or the welcome line, \<open>userName || "User"\<close>
  for the avatar, the filter chips, \<open>FlatList data={tasks} keyExtractor={item => item.id}\<close>,
  \<open>RefreshControl refreshing={isSyncing}\<close>.\<close>

definition Dashboard_render :: "dash_state \<Rightarrow> task list \<Rightarrow> bool \<Rightarrow> dashboard_view" where
  "Dashboard_render d ts isSyncing =
     \<lparr>header = (if isEditing d then EditRow (tempName d) else Welcome (userName (ui d))),
      avatar_prop = avatar_name (userName (ui d)),
      chips = filterBar_elements (dash_filter d),
      list_keys = map task_id ts,
      list_items = ts,
      refreshing = isSyncing\<rparr>"

text \<open>\<open>EnhancedDashboard\<close> inside \<open>DashboardScreen\<close>: the \<open>tasks\<close> prop is the snapshot the
  live query of the current filter emits, \<open>isSyncing\<close> comes from \<open>useTasks\<close>.\<close>

definition DashboardScreen_render :: "dash_state \<Rightarrow> db_state \<Rightarrow> bool \<Rightarrow> dashboard_view" where
  "DashboardScreen_render d db isSyncing = Dashboard_render d (observed_tasks (dash_filter d) db) isSyncing"

section \<open>The layout animation\<close>

text \<open>
  \<open>useEffect(() => { LayoutAnimation.configureNext(...easeInEaseOut) }, [tasks.length,
  filter, isEditing])\<close>: after a render, React runs the effect when one of the
  dependencies differs from its value at the previous render (each compared with
  \<open>Object.is\<close>, which on numbers, strings and booleans is equality), and the next layout
  change is then animated.
\<close>

definition layout_deps :: "dash_state \<Rightarrow> task list \<Rightarrow> nat \<times> FilterType \<times> bool" where
  "layout_deps d ts = (length ts, dash_filter d, isEditing d)"

definition layout_effect_runs :: "dash_state \<Rightarrow> task list \<Rightarrow> dash_state \<Rightarrow> task list \<Rightarrow> bool" where
  "layout_effect_runs d ts d' ts' \<longleftrightarrow> layout_deps d ts \<noteq> layout_deps d' ts'"

section \<open>A row\<close>

record item_view =
  card_completed :: bool
  check_icon :: bool
  item_title :: string
  item_image :: "string option"
  card_style :: style
  checkbox_style :: style
  title_style :: style

text \<open>\<open>TaskItem\<close>'s render: the completed card and check mark, the title with its fallback,
  the image when \<open>task.attachmentUri\<close> is truthy, and the styles
  \<open>[styles.card, task.completed && styles.cardCompleted]\<close>,
  \<open>[styles.checkbox, task.completed && styles.checkboxActive]\<close> and
  \<open>[styles.todoText, task.completed && styles.completedText]\<close>.\<close>

definition TaskItem_render :: "task \<Rightarrow> item_view" where
  "TaskItem_render t =
     \<lparr>card_completed = completed t, check_icon = completed t, item_title = display_title t,
      item_image = (case attachmentUri t of
                      None \<Rightarrow> None
                    | Some u \<Rightarrow> (if js_truthy_str u then Some u else None)),
      card_style = StyleSheet_flatten [sheet_get TaskItem_styles ''card'',
                     js_and (completed t) (sheet_get TaskItem_styles ''cardCompleted'')],
      checkbox_style = StyleSheet_flatten [sheet_get TaskItem_styles ''checkbox'',
                     js_and (completed t) (sheet_get TaskItem_styles ''checkboxActive'')],
      title_style = StyleSheet_flatten [sheet_get TaskItem_styles ''todoText'',
                     js_and (completed t) (sheet_get TaskItem_styles ''completedText'')]\<rparr>"

text \<open>\<open>withObservables(['task'], ({task}) => ({task: task.observe()}))\<close>: the row renders
  the record with its id as the store holds it now.\<close>

definition TaskItem_observed :: "nat \<Rightarrow> db_state \<Rightarrow> item_view option" where
  "TaskItem_observed i db = map_option TaskItem_render (find (\<lambda>t. task_id t = i) (tasks db))"

section \<open>Navigation and the app root\<close>

text \<open>\<open>RootStackParamList\<close>: each route with the parameters it takes.\<close>

datatype route_params = NoParams | TaskIdParam

definition RootStackParamList :: "(string \<times> route_params) list" where
  "RootStackParamList = [(''Dashboard'', NoParams), (''Camera'', TaskIdParam)]"

record stack_navigator =
  initialRouteName :: string
  headerShown :: bool
  animation :: string
  screens :: "(string \<times> string) list"

text \<open>\<open>MainNavigator\<close>: one registered screen (the \<open>Camera\<close> screen is commented out).\<close>

definition MainNavigator :: stack_navigator where
  "MainNavigator =
     \<lparr>initialRouteName = ''Dashboard'', headerShown = False, animation = ''slide_from_right'',
      screens = [(''Dashboard'', ''DashboardScreen'')]\<rparr>"

definition initial_screen :: "stack_navigator \<Rightarrow> string option" where
  "initial_screen nav = map_of (screens nav) (initialRouteName nav)"

text \<open>\<open>App\<close>: the database provider around the dashboard screen.\<close>

datatype app_element = DatabaseProvider db_state "app_element list" | ScreenElement string

definition App :: app_element where
  "App = DatabaseProvider database [ScreenElement ''DashboardScreen'']"

fun rendered_screens :: "app_element \<Rightarrow> string list" where
  "rendered_screens (ScreenElement n) = [n]"
| "rendered_screens (DatabaseProvider db es) = concat (map rendered_screens es)"

section \<open>Lemmas\<close>

text \<open>After a toggle the row of the toggled record re-renders with the flipped flag.\<close>

lemma find_toggled:
  assumes ok: "ids_ok db" and t: "t \<in> set (tasks db)" and ti: "task_id t = i"
  shows "find (\<lambda>u. task_id u = i) (tasks (toggleComplete i db)) = Some (t\<lparr>completed := \<not> completed t\<rparr>)"
proof (rule find_unique)
  have "t\<lparr>completed := \<not> completed t\<rparr> \<in> set (tasks (toggleComplete i db)) \<and> task_id (t\<lparr>completed := \<not> completed t\<rparr>) = i"
    using toggle_member_id [OF ok t ti] by (rule iffD2) (rule refl)
  then show "t\<lparr>completed := \<not> completed t\<rparr> \<in> set (tasks (toggleComplete i db))"
    and "task_id (t\<lparr>completed := \<not> completed t\<rparr>) = i" by simp_all
next
  fix u assume "u \<in> set (tasks (toggleComplete i db))" "task_id u = i"
  then have "u \<in> set (tasks (toggleComplete i db)) \<and> task_id u = i" ..
  then show "u = t\<lparr>completed := \<not> completed t\<rparr>"
    by (rule iffD1 [OF toggle_member_id [OF ok t ti]])
qed

lemma TaskItem_observed_toggle:
  "ids_ok db \<Longrightarrow> t \<in> set (tasks db) \<Longrightarrow> task_id t = i \<Longrightarrow>
   TaskItem_observed i (toggleComplete i db) = Some (TaskItem_render (t\<lparr>completed := \<not> completed t\<rparr>))"
  by (simp add: TaskItem_observed_def find_toggled)

lemma length_filter_toggle:
  assumes "distinct (map task_id ts)" and "t \<in> set ts" and "task_id t = i"
  shows "length (filter (\<lambda>u. completed u = b)
           (map (\<lambda>u. if task_id u = i then u\<lparr>completed := \<not> completed u\<rparr> else u) ts))
         \<noteq> length (filter (\<lambda>u. completed u = b) ts)"
proof -
  obtain ys zs where ts: "ts = ys @ t # zs" using split_list [OF assms(2)] by blast
  with assms(1,3) have "i \<notin> task_id ` set ys" and "i \<notin> task_id ` set zs" by auto
  then have "map (\<lambda>u. if task_id u = i then u\<lparr>completed := \<not> completed u\<rparr> else u) ys = ys"
    and "map (\<lambda>u. if task_id u = i then u\<lparr>completed := \<not> completed u\<rparr> else u) zs = zs"
    by (auto intro!: map_idI)
  with ts assms(3) show ?thesis by simp
qed

text \<open>The navigator starts on a registered, typed route, and the app root renders the
  dashboard screen; the avatar is a circle at its default size and at the size the
  dashboard gives it.\<close>

lemma navigation_consistent:
  "initial_screen MainNavigator = Some ''DashboardScreen''
   \<and> set (map fst (screens MainNavigator)) \<subseteq> set (map fst RootStackParamList)
   \<and> rendered_screens App = [''DashboardScreen'']"
  by (simp add: initial_screen_def MainNavigator_def RootStackParamList_def App_def)

lemma avatar_styles_circle:
  "is_circle (AvatarView_style dashboard_avatar_style) \<and> is_circle (AvatarView_style NoStyle)"
  by (simp add: is_circle_def AvatarView_style_def AvatarView_styles_def dashboard_avatar_style_def
      DashboardScreen_styles_def obj_def)

text \<open>The drawn bars read back as the abstract ones: the highlight is the active colour,
  and for \<open>FilterTabs\<close> also the screen reader's selected state.\<close>

lemma filterBar_elements_abs:
  "map (\<lambda>c. (chip_text c, chip_style c ''backgroundColor'', chip_text_style c ''color'', chip_onPress c))
       (filterBar_elements fl)
   = map (\<lambda>(l, sel, v). (l, Some (Str (if sel then ''#6366F1'' else ''#FFF'')),
                         Some (Str (if sel then ''#FFF'' else ''#64748B'')), v)) (filterBar fl)"
  by (simp add: filterBar_elements_def filterBar_def DashboardScreen_styles_def obj_def)

lemma filterBar_elements_active:
  "map chip_onPress (filter (\<lambda>c. chip_style c ''backgroundColor'' = Some (Str ''#6366F1'')) (filterBar_elements fl))
   = [fl]"
  by (cases fl) (simp_all add: filterBar_elements_def DashboardScreen_styles_def obj_def)

lemma FilterTabs_elements_abs:
  "map (\<lambda>t. (tab_label t, tab_selected t, tab_onPress t)) (FilterTabs_elements cf) = FilterTabs cf
   \<and> map (\<lambda>t. (tab_style t ''backgroundColor'', tab_text_style t ''color'', tab_role t)) (FilterTabs_elements cf)
     = map (\<lambda>(l, sel, v). (if sel then Some (Str ''#007aff'') else None,
                           Some (Str (if sel then ''#fff'' else ''#666'')), ''tab'')) (FilterTabs cf)"
  by (simp add: FilterTabs_elements_def FilterTabs_def filterTabs_filters_def FilterTabs_styles_def obj_def)

text \<open>A row's styles follow its record's flag.\<close>

lemma TaskItem_render_styles:
  "title_style (TaskItem_render t) ''textDecorationLine'' = (if completed t then Some (Str ''line-through'') else None)
   \<and> title_style (TaskItem_render t) ''color'' = Some (Str (if completed t then ''#94A3B8'' else ''#1E293B''))
   \<and> card_style (TaskItem_render t) ''backgroundColor'' = Some (Str (if completed t then ''#F8F9FA'' else ''#FFF''))
   \<and> checkbox_style (TaskItem_render t) ''backgroundColor'' = (if completed t then Some (Str ''#6366F1'') else None)"
  by (simp add: TaskItem_render_def TaskItem_styles_def obj_def)

text \<open>For a store with distinct ids, the list has distinct keys and shows stored rows
  of the selected filter only.\<close>

lemma DashboardScreen_render_wf:
  assumes "ids_ok db"
  shows "distinct (list_keys (DashboardScreen_render d db sy))
         \<and> list_all (spec_predicate (dash_filter d)) (list_items (DashboardScreen_render d db sy))
         \<and> set (list_items (DashboardScreen_render d db sy)) \<subseteq> set (tasks db)"
  using assms
  by (simp add: DashboardScreen_render_def Dashboard_render_def observed_tasks_def query_fetch_def
      ids_ok_def distinct_map_filter) (auto simp: list_all_iff)

section \<open>Properties of the rendered dashboard\<close>

text \<open>
  C14. The list the dashboard renders refines the filtered query: for a store whose ids are
  distinct, the \<open>FlatList\<close> keys are distinct (React's \<open>keyExtractor\<close> contract), every
  rendered row satisfies the predicate of the selected filter, every row is a stored
  record, and the pull-to-refresh spinner shows exactly the \<open>isSyncing\<close> flag.
\<close>
theorem dashboard_list_wellformed:
  assumes "ids_ok db"
  shows "distinct (list_keys (DashboardScreen_render d db sy))
         \<and> list_all (spec_predicate (dash_filter d)) (list_items (DashboardScreen_render d db sy))
         \<and> set (list_items (DashboardScreen_render d db sy)) \<subseteq> set (tasks db)
         \<and> refreshing (DashboardScreen_render d db sy) = sy"
  using DashboardScreen_render_wf [OF assms, of d sy]
  by (simp add: DashboardScreen_render_def Dashboard_render_def)

theorem dashboard_list_wellformed_witness:
  "ids_ok \<lparr>tasks = [\<lparr>task_id = 0, todo = ''a'', completed = False, attachmentUri = None\<rparr>], next_id = 1\<rparr>
   \<and> list_keys (DashboardScreen_render (Dashboard_mount useUiStore_init)
        \<lparr>tasks = [\<lparr>task_id = 0, todo = ''a'', completed = False, attachmentUri = None\<rparr>], next_id = 1\<rparr> True) = [0]
   \<and> distinct (list_keys (DashboardScreen_render (Dashboard_mount useUiStore_init)
        \<lparr>tasks = [\<lparr>task_id = 0, todo = ''a'', completed = False, attachmentUri = None\<rparr>], next_id = 1\<rparr> True))"
proof -
  have ok: "ids_ok \<lparr>tasks = [\<lparr>task_id = 0, todo = ''a'', completed = False, attachmentUri = None\<rparr>], next_id = 1\<rparr>"
    by (simp add: ids_ok_def)
  have k: "list_keys (DashboardScreen_render (Dashboard_mount useUiStore_init)
        \<lparr>tasks = [\<lparr>task_id = 0, todo = ''a'', completed = False, attachmentUri = None\<rparr>], next_id = 1\<rparr> True) = [0]"
    by (simp add: DashboardScreen_render_def Dashboard_render_def observed_tasks_def query_fetch_def
        Dashboard_mount_def)
  have "distinct (list_keys (DashboardScreen_render (Dashboard_mount useUiStore_init)
        \<lparr>tasks = [\<lparr>task_id = 0, todo = ''a'', completed = False, attachmentUri = None\<rparr>], next_id = 1\<rparr> True))"
    using dashboard_list_wellformed [OF ok, of "Dashboard_mount useUiStore_init" True] by (rule conjunct1)
  with ok k show ?thesis by (intro conjI)
qed


text \<open>
  C10. A press on a row's checkbox restyles that row: the store emits the toggled record,
  and the row re-rendered from it shows the check mark, the struck-through grey title and
  the greyed card exactly when the record was pending before the press, and the plain
  title on a white card when it was completed.
\<close>
theorem checkbox_restyles_row:
  assumes "ids_ok db" and "t \<in> set (tasks db)" and "task_id t = i"
  shows "TaskItem_step i PressCheckbox db = Inr (toggleComplete i db)
         \<and> map_option (\<lambda>v. (check_icon v, title_style v ''textDecorationLine'', title_style v ''color'',
                           card_style v ''backgroundColor''))
             (TaskItem_observed i (toggleComplete i db))
           = Some (\<not> completed t, if completed t then None else Some (Str ''line-through''),
                   Some (Str (if completed t then ''#1E293B'' else ''#94A3B8'')),
                   Some (Str (if completed t then ''#FFF'' else ''#F8F9FA'')))"
  using TaskItem_observed_toggle [OF assms] TaskItem_render_styles [of "t\<lparr>completed := \<not> completed t\<rparr>"]
  by (simp add: TaskItem_render_def)

theorem checkbox_restyles_row_witness:
  "ids_ok \<lparr>tasks = [\<lparr>task_id = 0, todo = ''a'', completed = False, attachmentUri = None\<rparr>], next_id = 1\<rparr>
   \<and> map_option (\<lambda>v. title_style v ''textDecorationLine'')
       (TaskItem_observed 0 (toggleComplete 0 \<lparr>tasks = [\<lparr>task_id = 0, todo = ''a'', completed = False, attachmentUri = None\<rparr>], next_id = 1\<rparr>))
     = Some (Some (Str ''line-through''))"
proof -
  have ok: "ids_ok \<lparr>tasks = [\<lparr>task_id = 0, todo = ''a'', completed = False, attachmentUri = None\<rparr>], next_id = 1\<rparr>"
    by (simp add: ids_ok_def)
  have m: "\<lparr>task_id = 0, todo = ''a'', completed = False, attachmentUri = None\<rparr>
      \<in> set (tasks \<lparr>tasks = [\<lparr>task_id = 0, todo = ''a'', completed = False, attachmentUri = None\<rparr>], next_id = 1\<rparr>)"
    by simp
  from ok checkbox_restyles_row [OF ok m] show ?thesis by auto
qed

text \<open>
  C13. The filter bar as drawn refines the bar read as labels, highlights and values: each
  chip of the dashboard shows its label, has the active background and white text exactly
  when it is the current filter's chip (white background and grey text otherwise), and
  sets its own filter when pressed; exactly one chip is highlighted, the current filter's.
\<close>
theorem filter_chips_drawn:
  "map (\<lambda>c. (chip_text c, chip_style c ''backgroundColor'', chip_text_style c ''color'', chip_onPress c))
       (chips (Dashboard_render d ts sy))
   = map (\<lambda>(l, sel, v). (l, Some (Str (if sel then ''#6366F1'' else ''#FFF'')),
                         Some (Str (if sel then ''#FFF'' else ''#64748B'')), v)) (filterBar (dash_filter d))
   \<and> map chip_onPress (filter (\<lambda>c. chip_style c ''backgroundColor'' = Some (Str ''#6366F1''))
       (chips (Dashboard_render d ts sy))) = [dash_filter d]"
  by (simp add: Dashboard_render_def filterBar_elements_abs filterBar_elements_active)


text \<open>
  C26. The list animates a toggle exactly in the filtered views: pressing a row's checkbox
  changes the number of rows of the \<open>'pending'\<close> and \<open>'completed'\<close> views (the row
  leaves them), so the \<open>LayoutAnimation\<close> effect, keyed on \<open>tasks.length\<close>, the filter
  and the edit mode, runs after the re-render; under \<open>'all'\<close> the row stays and no
  animation is configured.
\<close>
theorem toggle_layout_effect:
  assumes "ids_ok db" and "t \<in> set (tasks db)" and "task_id t = i"
  shows "layout_effect_runs d (observed_tasks (dash_filter d) db) d (observed_tasks (dash_filter d) (toggleComplete i db))
         \<longleftrightarrow> dash_filter d \<noteq> F_all"
proof (cases "dash_filter d")
  case F_all
  then show ?thesis
    by (simp add: layout_effect_runs_def layout_deps_def observed_tasks_def query_fetch_def
        enhance_clauses_def toggleComplete_def update_task_def)
next
  case F_pending
  with length_filter_toggle [of "tasks db" t i False] assms show ?thesis
    by (simp add: layout_effect_runs_def layout_deps_def observed_tasks_def query_fetch_def
        enhance_clauses_def toggleComplete_def update_task_def ids_ok_def)
next
  case F_completed
  with length_filter_toggle [of "tasks db" t i True] assms show ?thesis
    by (simp add: layout_effect_runs_def layout_deps_def observed_tasks_def query_fetch_def
        enhance_clauses_def toggleComplete_def update_task_def ids_ok_def)
qed

theorem toggle_layout_effect_witness:
  "ids_ok \<lparr>tasks = [\<lparr>task_id = 0, todo = ''a'', completed = False, attachmentUri = None\<rparr>], next_id = 1\<rparr>
   \<and> layout_effect_runs ((Dashboard_mount useUiStore_init)\<lparr>dash_filter := F_pending\<rparr>)
       (observed_tasks F_pending \<lparr>tasks = [\<lparr>task_id = 0, todo = ''a'', completed = False, attachmentUri = None\<rparr>], next_id = 1\<rparr>)
       ((Dashboard_mount useUiStore_init)\<lparr>dash_filter := F_pending\<rparr>)
       (observed_tasks F_pending (toggleComplete 0 \<lparr>tasks = [\<lparr>task_id = 0, todo = ''a'', completed = False, attachmentUri = None\<rparr>], next_id = 1\<rparr>))"
proof -
  have ok: "ids_ok \<lparr>tasks = [\<lparr>task_id = 0, todo = ''a'', completed = False, attachmentUri = None\<rparr>], next_id = 1\<rparr>"
    by (simp add: ids_ok_def)
  have m: "\<lparr>task_id = 0, todo = ''a'', completed = False, attachmentUri = None\<rparr>
      \<in> set (tasks \<lparr>tasks = [\<lparr>task_id = 0, todo = ''a'', completed = False, attachmentUri = None\<rparr>], next_id = 1\<rparr>)"
    by simp
  from ok toggle_layout_effect [OF ok m refl, of "(Dashboard_mount useUiStore_init)\<lparr>dash_filter := F_pending\<rparr>"]
  show ?thesis by simp
qed

end
