(* ===== verification/Launch.thy ===== *)
theory Launch
  imports Schedule Views
begin

text \<open>
  The app from launch to its first settled screen: \<open>App\<close> (\<open>src/App.tsx\<close>) mounts
  \<open>DashboardScreen\<close> inside the database provider; \<open>DashboardScreen\<close>
  (\<open>src/src/screens/DashboardScreen.tsx\<close>) holds the filter and the \<open>useTasks\<close> hook
  (\<open>src/src/hooks/useTasks.ts\<close>); the \<open>Dashboard\<close> it renders starts a pass from its mount
  effect, and renders the live query of the store and the hook's \<open>isSyncing\<close>. The screen's
  state is the dashboard's state beside the hook's, and what it shows is
  \<open>DashboardScreen_render\<close> of both. Its steps interleave header events, steps of the
  hook and events of the rows shown; the properties are the first screen after launch,
  a failed refresh, and the invariant of every screen reachable from launch.
\<close>

section \<open>The screen and its hook\<close>

record screen_state =
  dash :: dash_state
  hook :: orch_state

text \<open>\<open>DashboardScreen\<close> mounting: \<open>useTasks()\<close> starts with \<open>isSyncing\<close> false and no
  pass, and \<open>Dashboard\<close> mounts inside it with the UI store's state.\<close>

definition DashboardScreen_mount :: "UiState \<Rightarrow> db_state \<Rightarrow> screen_state" where
  "DashboardScreen_mount u db = \<lparr>dash = Dashboard_mount u, hook = orch_init db\<rparr>"

text \<open>\<open>useEffect(() => { handleRefresh(); }, [handleRefresh])\<close>: \<open>handleRefresh\<close> is a
  \<open>useCallback\<close> without dependencies, so the effect runs once, at mount.\<close>

definition Dashboard_mount_effect :: "screen_state \<Rightarrow> screen_state" where
  "Dashboard_mount_effect st = st\<lparr>hook := handleRefresh (hook st)\<rparr>"

text \<open>\<open><EnhancedDashboard filter={filter} isSyncing={isSyncing} .../>\<close>: the screen
  shows the dashboard over the hook's store and flag.\<close>

definition screen_render :: "screen_state \<Rightarrow> dashboard_view" where
  "screen_render st = DashboardScreen_render (dash st) (store (hook st)) (isSyncing (hook st))"

text \<open>\<open>App\<close>: the screen over the \<open>database\<close> singleton, the UI store in its initial state,
  after the mount effect.\<close>

definition App_launch :: screen_state where
  "App_launch = Dashboard_mount_effect (DashboardScreen_mount useUiStore_init database)"

text \<open>The passes in flight run to their end, oldest first (the \<open>Schedule\<close> theory).\<close>

definition settle :: "sync_env \<Rightarrow> screen_state \<Rightarrow> screen_state" where
  "settle env st = st\<lparr>hook := run_oldest_first env (hook st)\<rparr>"

section \<open>The screen's steps\<close>

text \<open>
  What can happen to the screen, one step at a time: an event of the header or the filter
  bar; a step of the hook (a pull to refresh, which calls \<open>handleRefresh\<close> as the mount
  effect does, or a continuation of a pass in flight); an event of a row the list shows
  (\<open>renderItem={({ item }) => <TaskItem task={item} />}\<close>), which writes when it does not
  throw. A throwing \<open>handleCamera\<close> is an unhandled rejection and changes nothing.
\<close>

inductive screen_step :: "network \<Rightarrow> screen_state \<Rightarrow> screen_state \<Rightarrow> bool" for nw :: network where
  header: "st' = st\<lparr>dash := dash_step ev (dash st)\<rparr> \<Longrightarrow> screen_step nw st st'"
| hook: "orch_step nw (hook st) h' \<Longrightarrow> st' = st\<lparr>hook := h'\<rparr> \<Longrightarrow> screen_step nw st st'"
| item: "i \<in> set (list_keys (screen_render st)) \<Longrightarrow> TaskItem_step i ev (store (hook st)) = Inr db' \<Longrightarrow>
         st' = st\<lparr>hook := (hook st)\<lparr>store := db'\<rparr>\<rparr> \<Longrightarrow> screen_step nw st st'"

text \<open>The screen's invariant: the store's and the header's.\<close>

definition screen_inv :: "screen_state \<Rightarrow> bool" where
  "screen_inv st \<longleftrightarrow> store_inv (store (hook st)) \<and> dash_inv (dash st)"

section \<open>Lemmas\<close>

lemma screen_step_inv: "screen_step nw st st' \<Longrightarrow> screen_inv st \<Longrightarrow> screen_inv st'"
  by (induction rule: screen_step.induct)
    (auto simp: screen_inv_def dash_inv_step intro: orch_step_store_inv TaskItem_step_store_inv)

lemma screen_reach_inv: "(screen_step nw)\<^sup>*\<^sup>* st st' \<Longrightarrow> screen_inv st \<Longrightarrow> screen_inv st'"
  by (induction rule: rtranclp_induct) (auto intro: screen_step_inv)

lemma screen_inv_App_launch: "screen_inv App_launch"
  by (simp add: screen_inv_def App_launch_def Dashboard_mount_effect_def DashboardScreen_mount_def
      handleRefresh_def orch_init_def dash_inv_mount useUiStore_init_def trimmed_def)

lemma observed_tasks_all [simp]: "observed_tasks F_all db = tasks db"
  by (simp add: observed_tasks_def enhance_clauses_def)

lemma hook_App_launch: "hook App_launch = \<lparr>store = database, isSyncing = True, pending = [Fetching]\<rparr>"
  by (simp add: App_launch_def Dashboard_mount_effect_def DashboardScreen_mount_def handleRefresh_def orch_init_def)

lemma hook_settle_App_launch:
  "hook (settle env App_launch) = \<lparr>store = snd (syncTaskFromApi env database), isSyncing = False, pending = []\<rparr>"
  by (simp add: settle_def hook_App_launch run_oldest_first_Fetching)

lemma hook_settle_refresh:
  "pending (hook st) = [] \<Longrightarrow>
   hook (settle env (st\<lparr>hook := handleRefresh (hook st)\<rparr>))
   = (hook st)\<lparr>store := snd (syncTaskFromApi env (store (hook st))), isSyncing := False\<rparr>"
  by (simp add: settle_def handleRefresh_def run_oldest_first_Fetching)

lemma dash_settle [simp]: "dash (settle env st) = dash st"
  by (simp add: settle_def)

lemma dash_App_launch: "dash App_launch = Dashboard_mount useUiStore_init"
  by (simp add: App_launch_def Dashboard_mount_effect_def DashboardScreen_mount_def)

lemma screen_render_settled:
  "screen_render (settle env App_launch)
   = Dashboard_render (Dashboard_mount useUiStore_init) (tasks (snd (syncTaskFromApi env database))) False"
  by (simp add: screen_render_def hook_settle_App_launch dash_App_launch DashboardScreen_render_def
      Dashboard_mount_def)

lemma launch_view_fields:
  "header (Dashboard_render (Dashboard_mount useUiStore_init) ts sy) = EditRow ''''"
  "avatar_prop (Dashboard_render (Dashboard_mount useUiStore_init) ts sy) = ''User''"
  "list_items (Dashboard_render d ts sy) = ts"
  "list_keys (Dashboard_render d ts sy) = map task_id ts"
  "refreshing (Dashboard_render d ts sy) = sy"
  by (simp_all add: Dashboard_render_def Dashboard_mount_def useUiStore_init_def avatar_name_def
      js_truthy_str_def)

section \<open>Properties of the launched app\<close>

text \<open>
  C9. Launching the app refines one sync pass: right after launch the mount effect's
  pass is in flight and the list shows the refresh spinner; once the pass has run, the
  screen renders exactly the dashboard of a fresh UI store over the rows one call of
  \<open>syncTaskFromApi\<close> leaves in the empty database, unfiltered, with the spinner off.
\<close>
theorem App_launch_refines_sync:
  "refreshing (screen_render App_launch)
   \<and> screen_render (settle env App_launch)
       = Dashboard_render (Dashboard_mount useUiStore_init) (tasks (snd (syncTaskFromApi env database))) False"
proof
  show "refreshing (screen_render App_launch)"
    by (simp add: screen_render_def hook_App_launch dash_App_launch DashboardScreen_render_def launch_view_fields)
  show "screen_render (settle env App_launch)
       = Dashboard_render (Dashboard_mount useUiStore_init) (tasks (snd (syncTaskFromApi env database))) False"
    by (rule screen_render_settled)
qed

text \<open>
  C11. First launch online: when the fetch returns a collection and the engine does not
  fail, the settled screen lists one row per remote item with a non-blank title, in
  remote order, with its trimmed title and its completion flag, keyed \<open>0, 1, ...\<close>; the
  spinner is off, the header asks for a name and the avatar is given \<open>User\<close>.
\<close>
theorem first_launch_shows_remote:
  assumes "sync_fetch (net env) = Inr (Some rs)" and "\<not> read_fault env" and "batch_fault env = None"
  shows "map (\<lambda>t. (todo t, completed t)) (list_items (screen_render (settle env App_launch)))
           = map (\<lambda>r. (js_trim (rt_todo r), rt_completed r)) (filter (keep_raw {}) rs)
         \<and> list_keys (screen_render (settle env App_launch)) = [0..<length (filter (keep_raw {}) rs)]
         \<and> \<not> refreshing (screen_render (settle env App_launch))
         \<and> header (screen_render (settle env App_launch)) = EditRow ''''
         \<and> avatar_prop (screen_render (settle env App_launch)) = ''User''"
proof -
  have "tasks (snd (syncTaskFromApi env database)) = batchActions 0 (filter (keep_raw {}) rs)"
    using syncTaskFromApi_ok [OF assms, of database]
    by (simp add: database_def tasksToCreate_def localTodoTexts_def)
  then show ?thesis
    by (simp add: screen_render_settled launch_view_fields map_todo_completed_batchActions)
qed

theorem first_launch_shows_remote_witness:
  "map (\<lambda>t. (todo t, completed t)) (list_items (screen_render (settle (serving [remote_item 1 '' a '', remote_item 2 '' '']) App_launch)))
     = [(''a'', False)]
   \<and> list_keys (screen_render (settle (serving [remote_item 1 '' a '', remote_item 2 '' '']) App_launch)) = [0]"
  using first_launch_shows_remote [of "serving [remote_item 1 '' a '', remote_item 2 '' '']"
      "[remote_item 1 '' a '', remote_item 2 '' '']"]
  by (simp add: sync_fetch_def SYNC_URL_def keep_raw_def js_trim_def js_truthy_str_def is_js_space_def)

text \<open>
  C12. A failed refresh degrades nothing (spec section 7): from any screen with no pass in
  flight, a pull to refresh whose pass fails (network, parse, read or write error) is
  caught by the hook, and once it has run the screen renders exactly what it rendered
  before, rows, keys, header and avatar alike, with the spinner off.
\<close>
theorem failed_refresh_keeps_screen:
  assumes "pending (hook st) = []" and "fst (syncTaskFromApi env (store (hook st))) = Inl e"
  shows "screen_render (settle env (st\<lparr>hook := handleRefresh (hook st)\<rparr>)) = (screen_render st)\<lparr>refreshing := False\<rparr>"
proof -
  have "snd (syncTaskFromApi env (store (hook st))) = store (hook st)"
    using assms(2) syncTaskFromApi_Inl_unchanged [of env "store (hook st)" e]
    by (cases "syncTaskFromApi env (store (hook st))") simp
  then show ?thesis
    by (simp add: screen_render_def hook_settle_refresh [OF assms(1)] DashboardScreen_render_def
        Dashboard_render_def)
qed

theorem failed_refresh_keeps_screen_witness:
  "pending (hook (DashboardScreen_mount useUiStore_init database)) = []
   \<and> fst (syncTaskFromApi \<lparr>net = \<lambda>_. NetFailure, read_fault = False, batch_fault = None\<rparr> database) = Inl NetworkError
   \<and> list_items (screen_render (settle \<lparr>net = \<lambda>_. NetFailure, read_fault = False, batch_fault = None\<rparr>
        ((DashboardScreen_mount useUiStore_init database)\<lparr>hook := handleRefresh (hook (DashboardScreen_mount useUiStore_init database))\<rparr>))) = []"
proof -
  have p: "pending (hook (DashboardScreen_mount useUiStore_init database)) = []"
    by (simp add: DashboardScreen_mount_def orch_init_def)
  have f: "fst (syncTaskFromApi \<lparr>net = \<lambda>_. NetFailure, read_fault = False, batch_fault = None\<rparr>
      (store (hook (DashboardScreen_mount useUiStore_init database)))) = Inl NetworkError"
    by (simp add: syncTaskFromApi_def sync_fetch_def)
  have e: "list_items (screen_render (DashboardScreen_mount useUiStore_init database)) = []"
    by (simp add: screen_render_def DashboardScreen_mount_def orch_init_def launch_view_fields
        DashboardScreen_render_def Dashboard_mount_def database_def)
  from p f e failed_refresh_keeps_screen [OF p f] show ?thesis
    by (simp add: DashboardScreen_mount_def orch_init_def)
qed

text \<open>
  C25. Invariant of the whole screen: in every state the app reaches from launch, under any
  interleaving of header and filter events, refreshes and pass continuations, and events
  of the rows the list shows, the store keeps distinct fresh ids and trimmed non-empty
  titles, the header keeps a trimmed name, and the rendered list is well formed: distinct
  keys, stored rows only, of the selected filter only.
\<close>
theorem screen_reachable_wellformed:
  assumes "(screen_step nw)\<^sup>*\<^sup>* App_launch st"
  shows "store_inv (store (hook st)) \<and> dash_inv (dash st)
         \<and> distinct (list_keys (screen_render st))
         \<and> list_all (spec_predicate (dash_filter (dash st))) (list_items (screen_render st))
         \<and> set (list_items (screen_render st)) \<subseteq> set (tasks (store (hook st)))"
proof -
  have "screen_inv st" using screen_reach_inv [OF assms screen_inv_App_launch] .
  then have s: "store_inv (store (hook st))" and d: "dash_inv (dash st)"
    by (simp_all add: screen_inv_def)
  from s have "ids_ok (store (hook st))" by (simp add: store_inv_def)
  from DashboardScreen_render_wf [OF this, of "dash st" "isSyncing (hook st)"] s d
  show ?thesis by (simp add: screen_render_def)
qed

theorem screen_reachable_wellformed_witness:
  "(screen_step (\<lambda>_. NetFailure))\<^sup>*\<^sup>* App_launch
      (App_launch\<lparr>dash := dash_step (PressChip F_pending) (dash App_launch)\<rparr>)
   \<and> distinct (list_keys (screen_render (App_launch\<lparr>dash := dash_step (PressChip F_pending) (dash App_launch)\<rparr>)))"
proof -
  have r: "(screen_step (\<lambda>_. NetFailure))\<^sup>*\<^sup>* App_launch
      (App_launch\<lparr>dash := dash_step (PressChip F_pending) (dash App_launch)\<rparr>)"
    by (rule r_into_rtranclp, rule screen_step.header, rule refl)
  from r screen_reachable_wellformed [OF r] show ?thesis by simp
qed

end
