(* ===== verification/Avatar.thy ===== *)
theory Avatar
  imports Prelude "HOL-Library.Word"
begin

unbundle bit_operations_syntax

text \<open>
  The native avatar behind \<open><AvatarView name=.../>\<close> (\<open>src/src/components/AvatarView.tsx\<close>
  passes the name through \<open>requireNativeComponent('AvatarView')\<close>). Android registers
  \<open>AvatarViewManager\<close> (\<open>AvatarPackage.createViewManagers\<close>), whose \<open>setName\<close> sets the
  initials of a \<open>TextView\<close> and a background built from the bytes of the name's Java hash;
  the custom view \<open>AvatarView.kt\<close> (\<open>setAvatarName\<close>, \<open>generateColor\<close>) is compiled but not
  registered. iOS uses \<open>AvatarView.swift\<close> (\<open>updateAvatar\<close>). Kotlin \<open>Int\<close>s are 32-bit
  words: \<open>String.hashCode\<close> wraps, \<open>shr\<close> is the arithmetic shift, \<open>Math.abs\<close> of the least
  \<open>Int\<close> is itself, \<open>%\<close> truncates toward zero. Characters are the code units 0..255, as
  everywhere in the development.
\<close>

section \<open>Kotlin and Java builtins\<close>

text \<open>\<open>String.hashCode\<close>: \<open>h = 31 * h + c\<close> over the code units, in 32-bit arithmetic.\<close>

definition java_hashCode :: "string \<Rightarrow> 32 word" where
  "java_hashCode s = foldl (\<lambda>h c. 31 * h + of_nat (of_char c)) 0 s"

text \<open>\<open>split(" ")\<close> (Kotlin) and \<open>components(separatedBy: " ")\<close> (Swift): the pieces between
  the delimiters, empty ones included; the empty string gives one empty piece.\<close>

fun kt_split :: "char \<Rightarrow> string \<Rightarrow> string list" where
  "kt_split d [] = [[]]"
| "kt_split d (c # cs) = (let r = kt_split d cs in if c = d then [] # r else (c # hd r) # tl r)"

text \<open>
  \<open>Char.uppercaseChar\<close>: ASCII and Latin-1 small letters to capitals; sharp s (U+00DF) has no
  one-character capital and stays. \<open>String.uppercase\<close> (and Swift's \<open>uppercased\<close>) map it
  to \<open>SS\<close>. The capitals of U+00B5 and U+00FF lie outside the code units modelled and are
  left unchanged.
\<close>

definition kt_uppercaseChar :: "char \<Rightarrow> char" where
  "kt_uppercaseChar c =
     (let n = of_char c :: nat in
      if (97 \<le> n \<and> n \<le> 122) \<or> (224 \<le> n \<and> n \<le> 254 \<and> n \<noteq> 247) then char_of (n - 32) else c)"

definition kt_uppercase :: "string \<Rightarrow> string" where
  "kt_uppercase s = concat (map (\<lambda>c. if c = CHR 0xDF then ''SS'' else [kt_uppercaseChar c]) s)"

text \<open>\<open>Char.isWhitespace\<close> on code units 0..255, and \<open>isNotBlank\<close>.\<close>

definition kt_isWhitespace :: "char \<Rightarrow> bool" where
  "kt_isWhitespace c \<longleftrightarrow>
     (let n = of_char c :: nat in (9 \<le> n \<and> n \<le> 13) \<or> (28 \<le> n \<and> n \<le> 32) \<or> n = 160)"

definition kt_isNotBlank :: "string \<Rightarrow> bool" where
  "kt_isNotBlank s \<longleftrightarrow> \<not> list_all kt_isWhitespace s"

text \<open>\<open>Math.abs(Int)\<close>, \<open>Int % Int\<close> (the remainder takes the sign of the dividend) and
  \<open>List.get\<close>, which throws outside \<open>0 until size\<close>.\<close>

definition kt_abs :: "32 word \<Rightarrow> 32 word" where
  "kt_abs x = (if sint x < 0 then - x else x)"

definition kt_rem :: "int \<Rightarrow> int \<Rightarrow> int" where
  "kt_rem a b = sgn a * (\<bar>a\<bar> mod \<bar>b\<bar>)"

definition kt_list_get :: "'a list \<Rightarrow> int \<Rightarrow> 'a result" where
  "kt_list_get xs i = (if 0 \<le> i \<and> i < int (length xs) then Inr (xs ! nat i) else Inl IndexOutOfBounds)"

text \<open>\<open>android.graphics.Color.rgb\<close> and \<open>Color.GRAY\<close> (ARGB in one \<open>Int\<close>).\<close>

definition Color_rgb :: "32 word \<Rightarrow> 32 word \<Rightarrow> 32 word \<Rightarrow> 32 word" where
  "Color_rgb r g b = 0xFF000000 OR push_bit 16 r OR push_bit 8 g OR b"

definition Color_GRAY :: "32 word" where
  "Color_GRAY = 0xFF888888"

section \<open>Android: the registered view manager\<close>

text \<open>\<open>AvatarViewManager.setName(view, name: String?)\<close>: the first letter of every non-empty
  piece, upper-cased, or \<open>"?"\<close> for a null name; the background from the hash's three
  low bytes, or grey for a null or empty name.\<close>

record tv_state =
  tv_text :: string
  tv_background :: "32 word"

definition setName_initials :: "string option \<Rightarrow> string" where
  "setName_initials name =
     kt_uppercase (case name of
                     None \<Rightarrow> ''?''
                   | Some n \<Rightarrow> map hd (filter (\<lambda>w. w \<noteq> []) (kt_split CHR '' '' n)))"

definition setName_color :: "string option \<Rightarrow> 32 word" where
  "setName_color name =
     (case name of
        Some n \<Rightarrow>
          (if n \<noteq> [] then
             (let hash = java_hashCode n in
              Color_rgb (signed_drop_bit 16 hash AND 0xFF) (signed_drop_bit 8 hash AND 0xFF) (hash AND 0xFF))
           else Color_GRAY)
      | None \<Rightarrow> Color_GRAY)"

definition setName :: "string option \<Rightarrow> tv_state \<Rightarrow> tv_state" where
  "setName name v = v\<lparr>tv_text := setName_initials name, tv_background := setName_color name\<rparr>"

text \<open>\<open>AvatarView.tsx\<close>: the wrapper hands its required \<open>name\<close> prop to the native view, so
  the manager's \<open>name: String?\<close> is never null from the app.\<close>

definition AvatarView :: "string \<Rightarrow> tv_state \<Rightarrow> tv_state" where
  "AvatarView name v = setName (Some name) v"

section \<open>Android: the unregistered custom view\<close>

text \<open>\<open>AvatarView.kt\<close>: at most two initials of the non-blank pieces; the colour is the
  palette entry at \<open>Math.abs(name.hashCode()) % colors.size\<close>. The text is set before the
  colour is computed, so a throwing \<open>generateColor\<close> leaves the new text in place.\<close>

record kt_avatar =
  av_text :: string
  av_color :: string

definition avatar_palette :: "string list" where
  "avatar_palette = [''#2196F3'', ''#9C27B0'', ''#009688'', ''#FF9800'', ''#E91E63'']"

definition generateColor :: "string \<Rightarrow> string result" where
  "generateColor name =
     kt_list_get avatar_palette (kt_rem (sint (kt_abs (java_hashCode name))) (int (length avatar_palette)))"

definition setAvatarName_initials :: "string \<Rightarrow> string" where
  "setAvatarName_initials name =
     map (\<lambda>w. kt_uppercaseChar (hd w)) (take 2 (filter kt_isNotBlank (kt_split CHR '' '' name)))"

definition setAvatarName :: "string \<Rightarrow> kt_avatar \<Rightarrow> unit result \<times> kt_avatar" where
  "setAvatarName name v =
     (let v1 = v\<lparr>av_text := setAvatarName_initials name\<rparr> in
      case generateColor name of
        Inl e \<Rightarrow> (Inl e, v1)
      | Inr c \<Rightarrow> (Inr (), v1\<lparr>av_color := c\<rparr>))"

section \<open>iOS\<close>

text \<open>\<open>AvatarView.updateAvatar\<close>: the first letters of at most two non-empty pieces,
  upper-cased, or \<open>"?"\<close> when there are none. The colour, from \<open>hashValue\<close>, which
  Swift seeds per process, is modelled in the NativeBridge theory.\<close>

definition swift_initials :: "string \<Rightarrow> string" where
  "swift_initials name =
     (let initials = concat (map (\<lambda>w. kt_uppercase (take 1 w)) (take 2 (filter (\<lambda>w. w \<noteq> []) (kt_split CHR '' '' name))))
      in if initials = [] then ''?'' else initials)"

section \<open>Lemmas\<close>

lemma mask_literals:
  "(0xFF :: 32 word) = mask 8" "(0xFFFFFF :: 32 word) = mask 24" "(0xFF000000 :: 32 word) = NOT (mask 24)"
  by (simp_all add: mask_eq_exp_minus_1)

lemma Color_rgb_bytes:
  "Color_rgb (signed_drop_bit 16 h AND 0xFF) (signed_drop_bit 8 h AND 0xFF) (h AND 0xFF) = 0xFF000000 OR (h AND 0xFFFFFF)"
  unfolding Color_rgb_def mask_literals
  apply (rule bit_word_eqI)
  apply (auto simp: bit_simps)
  subgoal for n by (cases "16 \<le> n") simp_all
  done

lemma sint_kt_abs:
  "sint (kt_abs x) = (if x = 0x80000000 then - 2147483648 else \<bar>sint x\<bar>)"
proof (cases "x = 0x80000000")
  case True
  then show ?thesis by (simp add: kt_abs_def)
next
  case False
  have "sint x \<noteq> - 2147483648"
  proof
    assume "sint x = - 2147483648"
    then have "sint x = sint (0x80000000 :: 32 word)" by simp
    then have "x = 0x80000000" by (rule signed_word_eqI)
    with False show False by simp
  qed
  moreover have "- 2147483648 \<le> sint x" "sint x < 2147483648"
    using sint_greater_eq [of x] sint_less [of x] by simp_all
  ultimately show ?thesis
    using False by (auto simp: kt_abs_def sint_word_minus signed_take_bit_int_eq_self)
qed

lemma kt_split_nonempty [simp]: "kt_split d s \<noteq> []"
  by (cases s) (simp_all add: Let_def)

lemma kt_uppercase_Nil_iff [simp]: "kt_uppercase s = [] \<longleftrightarrow> s = []"
  unfolding kt_uppercase_def by (induction s) auto

lemma kt_uppercase_append [simp]: "kt_uppercase (xs @ ys) = kt_uppercase xs @ kt_uppercase ys"
  by (simp add: kt_uppercase_def)

lemma initials_take:
  "\<forall>w\<in>set ws. w \<noteq> [] \<Longrightarrow> concat (map (\<lambda>w. kt_uppercase (take 1 w)) ws) = kt_uppercase (map hd ws)"
proof (induction ws)
  case Nil
  then show ?case by (simp add: kt_uppercase_def)
next
  case (Cons w ws)
  then obtain c cs where "w = c # cs" by (cases w) auto
  with Cons show ?case by (simp add: kt_uppercase_def)
qed

lemma setName_initials_nonempty:
  assumes "n \<noteq> []" "hd n \<noteq> CHR '' ''"
  shows "setName_initials (Some n) \<noteq> []"
proof -
  obtain c cs where n: "n = c # cs" and "c \<noteq> CHR '' ''"
    using assms by (cases n) auto
  then have "hd (kt_split CHR '' '' n) \<noteq> []" by (simp add: Let_def)
  then have "filter (\<lambda>w. w \<noteq> []) (kt_split CHR '' '' n) \<noteq> []"
    by (cases "kt_split CHR '' '' n") simp_all
  then show ?thesis by (simp add: setName_initials_def)
qed

section \<open>Properties of the avatar\<close>

text \<open>
  C27. The background of the avatar the app renders (the \<open>AvatarView\<close> wrapper over the
  registered Android manager), built with shifts and masks from the hash's bytes, is
  exactly the name's Java hash with its top byte replaced by an opaque alpha; an empty
  name gets grey.
\<close>
theorem AvatarView_color_hash:
  "tv_background (AvatarView n v) = (if n = [] then Color_GRAY else 0xFF000000 OR (java_hashCode n AND 0xFFFFFF))"
  by (simp add: AvatarView_def setName_def setName_color_def Color_rgb_bytes Let_def)

text \<open>
  \<open>Math.abs\<close> does not make the hash non-negative: \<open>generateColor\<close> of
  \<open>AvatarView.kt\<close> throws \<open>IndexOutOfBoundsException\<close> exactly for the names whose hash
  is \<open>Int.MIN_VALUE\<close> (where \<open>Math.abs\<close> returns it unchanged and \<open>%\<close> gives -3), and
  otherwise picks the palette entry at the hash's magnitude modulo 5. \<open>setAvatarName\<close>
  has already replaced the text when it throws.
\<close>
theorem generateColor_min_value:
  "generateColor n = (if java_hashCode n = 0x80000000 then Inl IndexOutOfBounds
                      else Inr (avatar_palette ! nat (\<bar>sint (java_hashCode n)\<bar> mod 5)))
   \<and> av_text (snd (setAvatarName n v)) = setAvatarName_initials n
   \<and> fst (setAvatarName n v) = (if java_hashCode n = 0x80000000 then Inl IndexOutOfBounds else Inr ())"
proof -
  have g: "generateColor n = (if java_hashCode n = 0x80000000 then Inl IndexOutOfBounds
                      else Inr (avatar_palette ! nat (\<bar>sint (java_hashCode n)\<bar> mod 5)))"
  proof (cases "java_hashCode n = 0x80000000")
    case True
    then show ?thesis
      by (simp add: generateColor_def kt_list_get_def kt_rem_def sint_kt_abs avatar_palette_def)
  next
    case False
    have "sgn \<bar>sint (java_hashCode n)\<bar> * (\<bar>sint (java_hashCode n)\<bar> mod 5) = \<bar>sint (java_hashCode n)\<bar> mod 5"
      by (cases "sint (java_hashCode n) = 0") (simp_all add: sgn_if)
    with False show ?thesis
      by (simp add: generateColor_def kt_list_get_def kt_rem_def sint_kt_abs avatar_palette_def)
  qed
  then show ?thesis
    by (simp add: setAvatarName_def split: sum.splits)
qed

theorem generateColor_polygenelubricants:
  "generateColor ''polygenelubricants'' = Inl IndexOutOfBounds
   \<and> setAvatarName ''polygenelubricants'' \<lparr>av_text = '''', av_color = ''#2196F3''\<rparr>
       = (Inl IndexOutOfBounds, \<lparr>av_text = ''P'', av_color = ''#2196F3''\<rparr>)"
proof -
  have h: "java_hashCode ''polygenelubricants'' = 0x80000000"
    by (simp add: java_hashCode_def)
  have i: "setAvatarName_initials ''polygenelubricants'' = ''P''"
    by (simp add: setAvatarName_initials_def kt_isNotBlank_def kt_isWhitespace_def kt_uppercaseChar_def char_of_def bit_0)
  from generateColor_min_value [of "''polygenelubricants''" "\<lparr>av_text = '''', av_color = ''#2196F3''\<rparr>"] h i
  show ?thesis
    by (simp add: setAvatarName_def)
qed

text \<open>
  C28. The platforms disagree on the initials. Android (the registered manager, through the
  app's wrapper) shows the first letter of every word of the name; iOS shows those of the
  first two words only, and \<open>?\<close> when there is no word. The two texts are equal exactly
  when the name has one or two words (a word is a non-empty piece between spaces). With
  three words or more, iOS shows a proper prefix of Android's text; with none, Android
  shows an empty text and iOS shows \<open>?\<close>.
\<close>
theorem initials_platforms_diverge:
  "tv_text (AvatarView n v) = swift_initials n
   \<longleftrightarrow> length (filter (\<lambda>w. w \<noteq> []) (kt_split CHR '' '' n)) \<in> {1, 2}"
proof -
  define ws where "ws = filter (\<lambda>w. w \<noteq> []) (kt_split CHR '' '' n)"
  have ne: "\<forall>w\<in>set ws. w \<noteq> []" by (simp add: ws_def)
  have android: "tv_text (AvatarView n v) = kt_uppercase (map hd ws)"
    by (simp add: AvatarView_def setName_def setName_initials_def ws_def)
  have ios: "swift_initials n = (if ws = [] then ''?'' else kt_uppercase (map hd (take 2 ws)))"
  proof -
    have "\<forall>w\<in>set (take 2 ws). w \<noteq> []" using ne by (auto dest: in_set_takeD)
    then show ?thesis
      using initials_take [of "take 2 ws"] by (simp add: swift_initials_def Let_def ws_def [symmetric])
  qed
  show ?thesis
  proof (cases "length ws \<le> 2")
    case True
    then show ?thesis
      by (cases ws) (auto simp: android ios ws_def [symmetric] kt_uppercase_def le_Suc_eq)
  next
    case False
    then have "kt_uppercase (map hd (drop 2 ws)) \<noteq> []" by simp
    moreover have "kt_uppercase (map hd ws)
        = kt_uppercase (map hd (take 2 ws)) @ kt_uppercase (map hd (drop 2 ws))"
      by (metis append_take_drop_id kt_uppercase_append map_append)
    ultimately show ?thesis
      using False by (auto simp: android ios ws_def [symmetric])
  qed
qed

theorem initials_platforms_diverge_witness:
  "tv_text (AvatarView ''Juan Carlos Perez'' \<lparr>tv_text = [], tv_background = 0\<rparr>) \<noteq> swift_initials ''Juan Carlos Perez''
   \<and> tv_text (AvatarView ''Ana Ruiz'' \<lparr>tv_text = [], tv_background = 0\<rparr>) = swift_initials ''Ana Ruiz''"
  using initials_platforms_diverge [of "''Juan Carlos Perez''" "\<lparr>tv_text = [], tv_background = 0\<rparr>"]
    initials_platforms_diverge [of "''Ana Ruiz''" "\<lparr>tv_text = [], tv_background = 0\<rparr>"]
  by (simp add: Let_def)

end
