(* ===== verification/NativeBridge.thy ===== *)
theory NativeBridge
  imports Avatar Views "HOL-Library.Sublist"
begin

unbundle bit_operations_syntax

text \<open>
  How \<open><AvatarView name=... style=.../>\<close> (\<open>src/src/components/AvatarView.tsx\<close>) reaches a
  native view. \<open>requireNativeComponent('AvatarView')\<close> names a host component, which React
  Native finds among the registered view managers; the view is created, and each prop the
  manager exports is set on it. Android registers \<open>AvatarViewManager\<close>
  (\<open>AvatarPackage.createViewManagers\<close>, \<open>getName() = "AvatarView"\<close>, one
  \<open>@ReactProp(name = "name")\<close>); the package list of the app (\<open>MainApplication\<close>) is not in
  the sources and is taken to contain the package. On iOS the Swift class
  \<open>AvatarViewManager\<close> (\<open>src/ios/TaskDashboard/AvatarViewManager.swift\<close>) is an
  \<open>RCTViewManager\<close> whose component name is its class name without \<open>Manager\<close>; it is
  registered only by an Objective-C \<open>RCT_EXTERN_MODULE\<close> and a prop is exported only by
  \<open>RCT_EXPORT_VIEW_PROPERTY\<close>, and no file of the sources has either. The iOS view
  (\<open>src/ios/TaskDashboard/AvatarView.swift\<close>) computes its colour from Swift's
  \<open>hashValue\<close>, which is seeded per process: it is an input, a function from strings to
  64-bit \<open>Int\<close>s.
\<close>

section \<open>iOS: the Swift view\<close>

text \<open>A \<open>UIColor\<close> from three channels, each the numerator of a fraction of 255, or the
  system's light grey.\<close>

datatype ios_color = LightGray | UIColor_rgb nat nat nat

record ios_view =
  label_text :: string
  ios_background :: ios_color

text \<open>\<open>init(frame:)\<close> and \<open>setupView\<close>: an empty label on a light grey background.\<close>

definition ios_view_init :: ios_view where
  "ios_view_init = \<lparr>label_text = '''', ios_background = LightGray\<rparr>"

text \<open>\<open>generateColor(from:)\<close>: \<open>(hash & 0xFF0000) >> 16\<close>, \<open>(hash & 0x00FF00) >> 8\<close>,
  \<open>hash & 0x0000FF\<close>, each over 255; Swift's \<open>>>\<close> on \<open>Int\<close> is the arithmetic shift.\<close>

definition swift_generateColor :: "64 word \<Rightarrow> ios_color" where
  "swift_generateColor hash =
     UIColor_rgb (unat (signed_drop_bit 16 (hash AND 0xFF0000)))
                 (unat (signed_drop_bit 8 (hash AND 0x00FF00)))
                 (unat (hash AND 0x0000FF))"

text \<open>\<open>updateAvatar()\<close>, run by the \<open>didSet\<close> of \<open>name\<close>: the initials (or \<open>?\<close>) and the
  colour of the name's hash.\<close>

definition updateAvatar :: "(string \<Rightarrow> 64 word) \<Rightarrow> string \<Rightarrow> ios_view \<Rightarrow> ios_view" where
  "updateAvatar hashValue name v =
     v\<lparr>label_text := swift_initials name, ios_background := swift_generateColor (hashValue name)\<rparr>"

section \<open>Registration of the view managers\<close>

record view_manager =
  vm_name :: string
  vm_props :: "string list"

text \<open>\<open>AvatarViewManager.kt\<close>: \<open>getName()\<close> and its one \<open>@ReactProp\<close>.\<close>

definition AvatarViewManager_kt :: view_manager where
  "AvatarViewManager_kt = \<lparr>vm_name = ''AvatarView'', vm_props = [''name'']\<rparr>"

text \<open>\<open>AvatarPackage.createViewManagers\<close>.\<close>

definition createViewManagers :: "view_manager list" where
  "createViewManagers = [AvatarViewManager_kt]"

text \<open>The component name React Native gives an iOS manager: the module name without a
  trailing \<open>Manager\<close>.\<close>

definition rn_component_name :: "string \<Rightarrow> string" where
  "rn_component_name m = (if suffix ''Manager'' m then take (length m - 7) m else m)"

text \<open>\<open>@objc(AvatarViewManager) class AvatarViewManager: RCTViewManager\<close>, with no
  exported property.\<close>

definition AvatarViewManager_swift :: view_manager where
  "AvatarViewManager_swift = \<lparr>vm_name = rn_component_name ''AvatarViewManager'', vm_props = []\<rparr>"

text \<open>\<open>createViewInstance\<close> of the Android manager: a centred white-text \<open>TextView\<close> with no
  text and no background (ARGB 0).\<close>

definition createViewInstance :: tv_state where
  "createViewInstance = \<lparr>tv_text = '''', tv_background = 0\<rparr>"

section \<open>Rendering the native component\<close>

datatype platform = Android | IOS

datatype native_avatar = AndroidAvatar tv_state | IOSAvatar ios_view

text \<open>\<open>requireNativeComponent('AvatarView')\<close>: the manager registered under the name;
  rendering a name no manager has violates React Native's invariant.\<close>

definition requireNativeComponent :: "view_manager list \<Rightarrow> string \<Rightarrow> view_manager result" where
  "requireNativeComponent regs n =
     (case find (\<lambda>m. vm_name m = n) regs of None \<Rightarrow> Inl InvariantViolation | Some m \<Rightarrow> Inr m)"

text \<open>\<open><NativeAvatar name={name} .../>\<close>: the platform's view is created and the \<open>name\<close>
  prop is set on it when the manager exports it.\<close>

definition NativeAvatar_render ::
  "platform \<Rightarrow> (string \<Rightarrow> 64 word) \<Rightarrow> view_manager list \<Rightarrow> string \<Rightarrow> native_avatar result" where
  "NativeAvatar_render p hashValue regs name =
     (case requireNativeComponent regs ''AvatarView'' of
        Inl e \<Rightarrow> Inl e
      | Inr m \<Rightarrow>
          (let sets = (''name'' \<in> set (vm_props m)) in
           case p of
             Android \<Rightarrow> Inr (AndroidAvatar (if sets then AvatarView name createViewInstance else createViewInstance))
           | IOS \<Rightarrow> Inr (IOSAvatar (if sets then updateAvatar hashValue name ios_view_init else ios_view_init))))"

text \<open>\<open>interface AvatarViewProps extends ViewProps { name: string }\<close>, with the one
  \<open>ViewProps\<close> entry the app passes, \<open>style\<close> (a style object, or absent).\<close>

record AvatarViewProps =
  avp_name :: string
  avp_style :: style_entry

text \<open>\<open>AvatarView\<close>: the native component with the name and the merged style.\<close>

definition AvatarView_render ::
  "platform \<Rightarrow> (string \<Rightarrow> 64 word) \<Rightarrow> view_manager list \<Rightarrow> AvatarViewProps \<Rightarrow> (native_avatar \<times> style) result" where
  "AvatarView_render p hashValue regs props =
     map_sum id (\<lambda>v. (v, AvatarView_style (avp_style props))) (NativeAvatar_render p hashValue regs (avp_name props))"

text \<open>The avatar of the dashboard's header: \<open><AvatarView name={userName || "User"}
  style={styles.avatar} />\<close>.\<close>

definition dashboard_avatar ::
  "platform \<Rightarrow> (string \<Rightarrow> 64 word) \<Rightarrow> view_manager list \<Rightarrow> dash_state \<Rightarrow> (native_avatar \<times> style) result" where
  "dashboard_avatar p hashValue regs d =
     AvatarView_render p hashValue regs \<lparr>avp_name = avatar_name (userName (ui d)), avp_style = dashboard_avatar_style\<rparr>"

section \<open>Lemmas\<close>

lemma rn_component_name_swift [simp]: "rn_component_name ''AvatarViewManager'' = ''AvatarView''"
  by (simp add: rn_component_name_def suffix_def)

lemma requireNativeComponent_android [simp]:
  "requireNativeComponent createViewManagers ''AvatarView'' = Inr AvatarViewManager_kt"
  by (simp add: requireNativeComponent_def createViewManagers_def AvatarViewManager_kt_def)

lemma AvatarViewManager_swift_props [simp]: "vm_props AvatarViewManager_swift = []"
  by (simp add: AvatarViewManager_swift_def)

lemma requireNativeComponent_ios:
  "requireNativeComponent [] ''AvatarView'' = Inl InvariantViolation"
  "requireNativeComponent [AvatarViewManager_swift] ''AvatarView'' = Inr AvatarViewManager_swift"
  by (simp_all add: requireNativeComponent_def AvatarViewManager_swift_def)

text \<open>The iOS channels are the three low bytes of the hash, each below 256.\<close>

lemma swift_generateColor_bytes:
  "swift_generateColor h = UIColor_rgb (unat (drop_bit 16 h AND mask 8)) (unat (drop_bit 8 h AND mask 8)) (unat (h AND mask 8))"
proof -
  have m: "(0xFF0000 :: 64 word) = push_bit 16 (mask 8)" "(0x00FF00 :: 64 word) = push_bit 8 (mask 8)"
    "(0x0000FF :: 64 word) = mask 8"
    by (simp_all add: mask_eq_exp_minus_1 push_bit_eq_mult)
  have "signed_drop_bit 16 (h AND push_bit 16 (mask 8)) = drop_bit 16 h AND mask 8"
    by (rule bit_word_eqI) (auto simp: bit_simps)
  moreover have "signed_drop_bit 8 (h AND push_bit 8 (mask 8)) = drop_bit 8 h AND mask 8"
    by (rule bit_word_eqI) (auto simp: bit_simps)
  ultimately show ?thesis by (simp add: swift_generateColor_def m)
qed

lemma unat_and_mask_8: "unat (x AND mask 8 :: 64 word) < 256"
proof -
  have "unat (x AND mask 8) = take_bit 8 (unat x)"
    by (simp flip: take_bit_eq_mask add: unsigned_take_bit_eq)
  also have "\<dots> < 2 ^ 8" by (rule take_bit_nat_less_exp)
  finally show ?thesis by simp
qed

lemma swift_generateColor_bounded:
  "swift_generateColor h = UIColor_rgb r g b \<Longrightarrow> r < 256 \<and> g < 256 \<and> b < 256"
  by (auto simp: swift_generateColor_bytes unat_and_mask_8)

section \<open>Properties of the native avatar\<close>

text \<open>
  C23. The avatar in the dashboard's header on each platform: on Android the component
  resolves to the registered manager, which shows the initials and the hash colour of the
  name the dashboard passes (\<open>userName || "User"\<close>), in the dashboard's circle style. On
  iOS, with the managers the sources can register (none, or the Swift manager with no
  exported property), the name never reaches \<open>updateAvatar\<close>: rendering fails with React
  Native's invariant, or the view keeps its empty label on light grey, whatever the name.
\<close>
theorem dashboard_avatar_platforms:
  assumes "regs = [] \<or> regs = [AvatarViewManager_swift]"
  shows "dashboard_avatar Android hv createViewManagers d
           = Inr (AndroidAvatar (AvatarView (avatar_name (userName (ui d))) createViewInstance),
                  AvatarView_style dashboard_avatar_style)
         \<and> (dashboard_avatar IOS hv regs d = Inl InvariantViolation
            \<or> dashboard_avatar IOS hv regs d = Inr (IOSAvatar ios_view_init, AvatarView_style dashboard_avatar_style))"
proof
  show "dashboard_avatar Android hv createViewManagers d
           = Inr (AndroidAvatar (AvatarView (avatar_name (userName (ui d))) createViewInstance),
                  AvatarView_style dashboard_avatar_style)"
    by (simp add: dashboard_avatar_def AvatarView_render_def NativeAvatar_render_def AvatarViewManager_kt_def)
  show "dashboard_avatar IOS hv regs d = Inl InvariantViolation
        \<or> dashboard_avatar IOS hv regs d = Inr (IOSAvatar ios_view_init, AvatarView_style dashboard_avatar_style)"
    using assms
    by (elim disjE) (simp_all add: dashboard_avatar_def AvatarView_render_def NativeAvatar_render_def
        requireNativeComponent_ios)
qed

theorem dashboard_avatar_platforms_witness:
  "dashboard_avatar IOS (\<lambda>_. 0) [AvatarViewManager_swift] (Dashboard_mount useUiStore_init)
     = Inr (IOSAvatar ios_view_init, AvatarView_style dashboard_avatar_style)
   \<and> dashboard_avatar IOS (\<lambda>_. 0) [] (Dashboard_mount useUiStore_init) = Inl InvariantViolation"
proof -
  have a: "dashboard_avatar IOS (\<lambda>_. 0) [AvatarViewManager_swift] (Dashboard_mount useUiStore_init) \<noteq> Inl InvariantViolation"
    by (simp add: dashboard_avatar_def AvatarView_render_def NativeAvatar_render_def requireNativeComponent_ios)
  have b: "dashboard_avatar IOS (\<lambda>_. 0) [] (Dashboard_mount useUiStore_init) = Inl InvariantViolation"
    by (simp add: dashboard_avatar_def AvatarView_render_def NativeAvatar_render_def requireNativeComponent_ios)
  from a b dashboard_avatar_platforms [of "[AvatarViewManager_swift]" "\<lambda>_. 0" "Dashboard_mount useUiStore_init"]
  show ?thesis by simp
qed

end
