(* ===== verification/Tooling.thy ===== *)
theory Tooling
  imports Sync "HOL-Library.Sublist"
begin

text \<open>
  The test tooling: the Jest configuration \<open>src/jest.config.js\<close> and the setup file
  \<open>src/jest-setup.js\<close> it runs after the test environment is installed. Jest reads each entry
  of \<open>transformIgnorePatterns\<close> as a JavaScript regular expression and leaves a file
  untransformed when its path matches one of them. The one pattern of the configuration is
  modelled as a regular expression built from the constructs it uses (characters, groups,
  \<open>?\<close>, \<open>|\<close> and a negative lookahead), read by a backtracking matcher that lists, in the
  order JavaScript tries them, the rests of a string left by each way the expression matches
  at its start. The setup file replaces the global \<open>fetch\<close> by a mock, modelled as a network
  (theory Remote) that answers every URL with the same response.
\<close>

section \<open>Regular expressions\<close>

datatype regex = Chr char | Empty | Seq regex regex | Alt regex regex | Opt regex | NegAhead regex

primrec rx_match :: "regex \<Rightarrow> string \<Rightarrow> string list" where
  "rx_match (Chr c) s = (case s of [] \<Rightarrow> [] | d # s' \<Rightarrow> (if d = c then [s'] else []))"
| "rx_match Empty s = [s]"
| "rx_match (Seq a b) s = concat (map (rx_match b) (rx_match a s))"
| "rx_match (Alt a b) s = rx_match a s @ rx_match b s"
| "rx_match (Opt a) s = rx_match a s @ [s]"
| "rx_match (NegAhead a) s = (if rx_match a s = [] then [s] else [])"

text \<open>A run of literal characters.\<close>

fun lit :: "string \<Rightarrow> regex" where
  "lit [] = Empty"
| "lit (c # cs) = Seq (Chr c) (lit cs)"

text \<open>\<open>RegExp.prototype.test\<close> of a pattern without anchors: a match starting at some
  position of the string.\<close>

definition regex_test :: "regex \<Rightarrow> string \<Rightarrow> bool" where
  "regex_test r s \<longleftrightarrow> list_ex (\<lambda>t. rx_match r t \<noteq> []) (suffixes s)"

section \<open>The Jest configuration\<close>

text \<open>
  \<open>'node_modules/(?!(jest-)?react-native|@react-native(-community)?|@nozbe/watermelondb|@nozbe/with-observables)/'\<close>:
  the lookahead closes before the final \<open>/\<close>, so that slash must follow
  \<open>node_modules/\<close> directly.
\<close>

definition transformIgnorePattern :: regex where
  "transformIgnorePattern =
     Seq (lit ''node_modules/'')
       (Seq (NegAhead
               (Alt (Seq (Opt (lit ''jest-'')) (lit ''react-native''))
               (Alt (Seq (lit ''@react-native'') (Opt (lit ''-community'')))
               (Alt (lit ''@nozbe/watermelondb'') (lit ''@nozbe/with-observables'')))))
            (lit ''/''))"

record JestConfig =
  preset :: string
  setupFilesAfterEnv :: "string list"
  transformIgnorePatterns :: "regex list"

text \<open>\<open>module.exports\<close> of \<open>jest.config.js\<close>.\<close>

definition jest_config :: JestConfig where
  "jest_config =
     \<lparr>preset = ''react-native'', setupFilesAfterEnv = [''<rootDir>/jest-setup.js''],
      transformIgnorePatterns = [transformIgnorePattern]\<rparr>"

text \<open>Jest passes a file through the transformer unless its path matches one of the
  ignore patterns.\<close>

definition is_transformed :: "JestConfig \<Rightarrow> string \<Rightarrow> bool" where
  "is_transformed cfg path \<longleftrightarrow> \<not> list_ex (\<lambda>r. regex_test r path) (transformIgnorePatterns cfg)"

section \<open>The setup file\<close>

text \<open>
  \<open>global.fetch = jest.fn(() => Promise.resolve({ json: () => Promise.resolve({ todos: [] }) }))\<close>:
  every request resolves to the same object, whose \<open>json()\<close> is a \<open>TodoResponse\<close> with no
  items. The object has neither \<open>ok\<close> nor \<open>status\<close>: \<open>response.ok\<close> is \<open>undefined\<close>, falsy
  like the flag of a status outside 200..299, and the status 0 stands for it; \<open>total\<close>,
  \<open>skip\<close> and \<open>limit\<close>, absent too, are read by no code.
\<close>

definition jest_fetch :: network where
  "jest_fetch url = Response 0 (Some (TodoBody \<lparr>todos = [], total = 0, skip = 0, limit = 0\<rparr>))"

section \<open>Lemmas\<close>

lemma rx_match_lit:
  "rx_match (lit w) s = (if prefix w s then [drop (length w) s] else [])"
proof (induction w arbitrary: s)
  case Nil
  then show ?case by simp
next
  case (Cons c w)
  then show ?case by (cases s) auto
qed

lemma rx_match_Seq_nonempty:
  "rx_match (Seq a b) s \<noteq> [] \<longleftrightarrow> (\<exists>t \<in> set (rx_match a s). rx_match b t \<noteq> [])"
  by (induction "rx_match a s") auto

lemma prefix_append_drop: "prefix u s \<Longrightarrow> prefix v (drop (length u) s) \<Longrightarrow> prefix (u @ v) s"
  by (auto simp: prefix_def)

lemma rx_match_lit_ahead_lit:
  assumes "rx_match (Seq (lit u) (Seq (NegAhead a) (lit v))) s \<noteq> []"
  shows "prefix (u @ v) s"
  using assms by (auto simp: rx_match_lit prefix_append_drop split: if_splits)

lemma regex_test_prefix:
  assumes "regex_test r path" and "\<And>t. rx_match r t \<noteq> [] \<Longrightarrow> prefix w t"
  shows "sublist w path"
proof -
  from assms(1) obtain t where s: "suffix t path" and m: "rx_match r t \<noteq> []"
    by (auto simp: regex_test_def list_ex_iff)
  from assms(2) [OF m] obtain z where t: "t = w @ z" by (auto simp: prefix_def)
  from s obtain p where "path = p @ t" by (auto simp: suffix_def)
  with t show ?thesis by (auto simp: sublist_def)
qed

lemma transformIgnorePattern_prefix:
  assumes "rx_match transformIgnorePattern t \<noteq> []"
  shows "prefix ''node_modules//'' t"
proof -
  have "prefix (''node_modules/'' @ ''/'') t"
    using assms unfolding transformIgnorePattern_def by (rule rx_match_lit_ahead_lit)
  then show ?thesis by simp
qed

lemma jest_ignored_path:
  assumes "\<not> is_transformed jest_config path"
  shows "sublist ''node_modules//'' path"
proof -
  have "regex_test transformIgnorePattern path"
    using assms by (simp add: is_transformed_def jest_config_def)
  then show ?thesis by (rule regex_test_prefix) (rule transformIgnorePattern_prefix)
qed

text \<open>
  C7. The ignore pattern of the Jest configuration ignores nothing: every path without an
  empty segment (\<open>//\<close>), so every file of every package under \<open>node_modules\<close>, is passed
  through the transformer, where the pattern's lookahead was meant to exempt all but the
  listed React Native packages.
\<close>
theorem jest_transforms_every_module:
  assumes "\<not> sublist ''//'' path"
  shows "is_transformed jest_config path"
proof (rule ccontr)
  assume "\<not> is_transformed jest_config path"
  then have p: "sublist ''node_modules//'' path" by (rule jest_ignored_path)
  have "sublist ''//'' ''node_modules//''"
    unfolding sublist_def by (rule exI [of _ "''node_modules''"], rule exI [of _ "[]"]) simp
  from sublist_order.order_trans [OF this p] assms show False by simp
qed

theorem jest_transforms_every_module_witness:
  "\<not> sublist ''//'' ''/app/node_modules/lodash/index.js''
   \<and> is_transformed jest_config ''/app/node_modules/lodash/index.js''"
proof -
  have n: "\<not> sublist ''//'' ''/app/node_modules/lodash/index.js''"
    by (simp add: sublist_Cons_right)
  from n jest_transforms_every_module [OF n] show ?thesis by simp
qed

lemma jest_ignores_double_slash: "\<not> is_transformed jest_config ''node_modules//x''"
  by (simp add: is_transformed_def jest_config_def regex_test_def transformIgnorePattern_def)

theorem jest_fetch_mock_sync:
  "syncTaskFromApi \<lparr>net = jest_fetch, read_fault = False, batch_fault = bf\<rparr> db = (Inr (), db)
   \<and> apiClient_get jest_fetch endpoint = Inl (HttpError 0)"
  by (simp add: syncTaskFromApi_def sync_fetch_def jest_fetch_def db_fetch_def sync_write_def
      tasksToCreate_def apiClient_get_def response_ok_def)

end
