(* ===== verification/Spec2Isabelle.thy ===== *)
theory Spec2Isabelle
  imports Launch NativeBridge Tooling "HOL-Library.Sublist"
begin

text \<open>
  \<^bold>\<open>TaskDashboard: a verification development of the sync and local-store core.\<close>

  The program is a React Native client (TypeScript under \<open>src/src\<close>) that caches the
  remote DummyJSON todo collection in a WatermelonDB/SQLite store and shows it in a
  filterable, live list. Its parts and how they interact:
  \<^item> the remote source: \<open>api/client.ts\<close> (\<open>apiClient.get\<close>), \<open>api/taskApi.ts\<close>
    (\<open>fetchAllTasks\<close>), \<open>types/api.ts\<close>; the sync service calls \<open>fetch\<close> itself;
  \<^item> the local store: \<open>database/schema.ts\<close>, \<open>database/Task.ts\<close> (the \<open>Task\<close> model
    and its writers \<open>toggleComplete\<close>, \<open>addAttachment\<close>), \<open>database/index.ts\<close>;
  \<^item> the sync pass \<open>services/SyncService.ts\<close> (\<open>syncTaskFromApi\<close>): fetch, read the
    local titles, filter and prepare inside one \<open>database.write\<close>, commit with one
    \<open>database.batch\<close>; it is started by \<open>hooks/useTasks.ts\<close> (\<open>handleRefresh\<close>);
  \<^item> the UI that observes the store and calls its writers: \<open>screens/DashboardScreen.tsx\<close>,
    \<open>components/TaskItem.tsx\<close>, \<open>components/filterTabs.tsx\<close>, \<open>hooks/useFilter.ts\<close>,
    \<open>store/useUiStore.ts\<close>, and the native avatar view (Kotlin, Swift);
  \<^item> the app root \<open>App.tsx\<close> (the database provider around \<open>DashboardScreen\<close>) and
    the navigator \<open>navigation/MainNavigator.tsx\<close>, \<open>navigation/types.ts\<close>, which
    nothing mounts;
  \<^item> the test tooling: \<open>jest.config.js\<close>, \<open>jest-setup.js\<close> (mocks of the SQLite adapter
    and of \<open>fetch\<close>), \<open>.eslintrc.js\<close> and the unit tests.

  \<^bold>\<open>Theories.\<close>
  \<^item> \<open>Prelude\<close>: the error type \<open>app_error\<close> every component throws or rethrows, the
    JavaScript builtins the code calls (\<open>js_trim\<close> for \<open>String.prototype.trim\<close>,
    \<open>js_truthy_str\<close>) and the shape lemmas of trimmed strings (\<open>js_trim_eqI\<close>,
    \<open>js_trim_idem\<close>, \<open>js_trim_Nil_iff\<close>), collected in \<open>js_string_simps\<close>.
  \<^item> \<open>Store\<close>: \<open>schema\<close>; the row record \<open>task\<close> (fields \<open>task_id\<close>, \<open>todo\<close>,
    \<open>completed\<close>, \<open>attachmentUri\<close>) and the store \<open>db_state\<close> (rows in creation order,
    \<open>next_id\<close> standing for WatermelonDB's random ids); \<open>database\<close>, the empty store of
    index.ts; the WatermelonDB contract the code relies on, modelled from the spec:
    \<open>query_fetch\<close>/\<open>db_fetch\<close> (\<open>query(...clauses).fetch()\<close>, with a read fault),
    \<open>insert_rows\<close>/\<open>db_batch\<close> (\<open>batch\<close>, rows inserted one by one into a working copy,
    an optional fault index that aborts the transaction), \<open>update_task\<close>
    (\<open>record.update\<close> in a writer); the model's decorated bindings as data
    (\<open>Task_fields\<close>, \<open>binding_ok\<close>) and the \<open>@text\<close> setter, which trims
    (\<open>text_field_set\<close>); the two writers \<open>toggleComplete\<close> and \<open>addAttachment\<close>; the
    invariants \<open>ids_ok\<close>, \<open>titles_ok\<close>, \<open>store_inv\<close>.
  \<^item> \<open>Remote\<close>: \<open>remote_task\<close>, \<open>todo_response\<close>, what \<open>fetch\<close> yields
    (\<open>fetch_outcome\<close>, a \<open>network\<close> is a function from URL to it), \<open>apiClient_get\<close>,
    \<open>fetchAllTasks\<close>, the sync's own fetch \<open>sync_fetch\<close>, and the endpoint \<open>dummyjson\<close>
    (from the spec, section 6: \<open>limit=0\<close> returns everything, the bare path one page).
  \<^item> \<open>Sync\<close>: the reconciler (\<open>localTodoTexts\<close>, \<open>keep_raw\<close>, \<open>tasksToCreate\<close>,
    \<open>prepareCreate\<close>, \<open>batchActions\<close>), the write \<open>sync_write\<close> and the pass
    \<open>syncTaskFromApi\<close>, which threads the store and returns the outcome with it (an error
    leaves the store as the last committed write left it); the abstract view
    \<open>title_set\<close>/\<open>remote_titles\<close>.
  \<^item> \<open>Orchestrator\<close>: \<open>useTasks.handleRefresh\<close> as an inductive step relation
    \<open>orch_step\<close> over \<open>orch_state\<close> (the store, \<open>isSyncing\<close>, the passes in flight as
    \<open>pass_phase\<close>s, one phase per \<open>await\<close> of \<open>syncTaskFromApi\<close>), so that passes
    started by the mount effect and by pull to refresh interleave; \<open>handleRefresh\<close> up to
    its first \<open>await\<close>; \<open>advance_at env i\<close>, the continuation pass \<open>i\<close> waits on, which
    is a step of the relation once the pass to move is chosen (\<open>advance_at_step\<close>), so
    that a concrete interleaving is a \<open>fold\<close> of it over the indices of the passes.
  \<^item> \<open>Schedule\<close>: one choice of the environment, not code of the app: the schedule where
    the oldest pass always moves, \<open>run_oldest_first\<close> (a \<open>function\<close> whose termination
    is proved by the measure \<open>pending_weight\<close>), which repeats \<open>advance_at env 0\<close> until no
    pass is in flight. Launch uses it to let the passes in flight run to their end.
  \<^item> \<open>Dashboard\<close>: \<open>FilterType\<close>, the filter bar (\<open>filterBar\<close>, \<open>chip_label\<close>) and
    the unused \<open>FilterTabs\<close>/\<open>useFilter\<close>, the clauses of \<open>enhance\<close>
    (\<open>enhance_clauses\<close>) and the live query's snapshot \<open>observed_tasks\<close>; the Zustand
    store (\<open>UiState\<close>, Zustand's shallow merge \<open>zustand_set\<close>, the actions
    \<open>setUserName\<close> and \<open>setOnlineStatus\<close>, the store \<open>useUiStore\<close>) and the header's name
    entry as events \<open>dash_event\<close> with the step \<open>dash_step\<close> (\<open>saveName\<close>, typing,
    tapping, chips) and the name passed to the avatar (\<open>avatar_name\<close>).
  \<^item> \<open>TaskItem\<close>: a row's buttons (\<open>TaskItem_step\<close>: \<open>toggleComplete\<close>,
    \<open>handleCamera\<close> with the picker's \<open>ImagePickerResponse\<close> as input), the title
    fallback \<open>display_title\<close>, and the unused \<open>useCamera\<close> hook.
  \<^item> \<open>Avatar\<close>: the native avatar on 32-bit words: Java's \<open>String.hashCode\<close>
    (\<open>java_hashCode\<close>, wrapping), the registered Android \<open>AvatarViewManager.setName\<close>
    (\<open>setName_initials\<close>, \<open>setName_color\<close>), the unregistered \<open>AvatarView.kt\<close>
    (\<open>generateColor\<close>, \<open>setAvatarName\<close>) and the iOS initials (\<open>swift_initials\<close>).
  \<^item> \<open>Styles\<close>: React Native styles: values \<open>style_val\<close>, object literals
    (\<open>style_object\<close>, \<open>obj\<close>), style arrays with falsy entries (\<open>style_entry\<close>,
    \<open>js_and\<close> for \<open>cond && styles.x\<close>), \<open>StyleSheet_flatten\<close> (later entries override
    earlier ones key by key), \<open>sheet_get\<close> for \<open>styles.k\<close>; the four style sheets as data
    (\<open>AvatarView_styles\<close>, \<open>DashboardScreen_styles\<close>, \<open>TaskItem_styles\<close>,
    \<open>FilterTabs_styles\<close>) and the avatar's merged style \<open>AvatarView_style\<close>.
  \<^item> \<open>Views\<close>: what the screens render, as data: the filter bars as drawn
    (\<open>filterBar_elements\<close>, \<open>FilterTabs_elements\<close>: label, flattened styles, press
    value, and the tabs' accessibility role and state), the dependencies of the
    \<open>LayoutAnimation\<close> effect (\<open>layout_deps\<close>, \<open>layout_effect_runs\<close>), \<open>Dashboard_render\<close> (header,
    avatar name, chips, list keys and rows, spinner) and \<open>DashboardScreen_render\<close>, which
    feeds it the live query's snapshot; a row's \<open>TaskItem_render\<close> (with the card's,
    checkbox's and title's styles) and \<open>TaskItem_observed\<close> (the record
    \<open>task.observe()\<close> emits); the route table \<open>RootStackParamList\<close>, the stack
    \<open>MainNavigator\<close> and the element tree \<open>App\<close>.
  \<^item> \<open>Launch\<close>: the app from launch to its first settled screen: the screen's state
    \<open>screen_state\<close> (the dashboard beside the \<open>useTasks\<close> hook), \<open>handleRefresh\<close> up to
    its first \<open>await\<close>, \<open>DashboardScreen_mount\<close>, the mount effect
    \<open>Dashboard_mount_effect\<close>, \<open>screen_render\<close>, \<open>App_launch\<close>, \<open>settle\<close>, which runs
    the passes in flight oldest first, and the screen's steps \<open>screen_step\<close> (header
    events, steps of the hook, events of the rows shown, interleaved).
  \<^item> \<open>NativeBridge\<close>: how \<open>AvatarView\<close> reaches a native view: the managers each platform
    registers (\<open>AvatarViewManager_kt\<close>, \<open>createViewManagers\<close>, \<open>AvatarViewManager_swift\<close>,
    \<open>rn_component_name\<close>), \<open>requireNativeComponent\<close>, the prop forwarding of
    \<open>NativeAvatar_render\<close>, the iOS view (\<open>ios_view\<close>, \<open>updateAvatar\<close>,
    \<open>swift_generateColor\<close> on 64-bit words) and the dashboard's avatar
    \<open>dashboard_avatar\<close>.
  \<^item> \<open>Tooling\<close>: Jest's configuration: JavaScript regular expressions (\<open>regex\<close>, the
    backtracking matcher \<open>rx_match\<close>, \<open>regex_test\<close>), \<open>transformIgnorePattern\<close>,
    \<open>jest_config\<close> and which files Jest transforms (\<open>is_transformed\<close>); the setup
    file's \<open>fetch\<close> mock as a network (\<open>jest_fetch\<close>).
  \<^item> this theory: the store operations the app performs as one datatype \<open>app_op\<close> with the
    step \<open>app_step\<close> and runs \<open>app_run\<close>, and the properties that span components.

  \<^bold>\<open>What the lemmas show.\<close>
  Prelude: \<open>trim\<close> yields a trimmed string and is idempotent. Store: a batch commits all
  its rows or fails with \<open>StoreWriteError\<close> (\<open>db_batch_cases\<close>); toggling is an
  involution that touches only the flag of one record; attaching is last-write-wins and
  stores the trimmed reference; the two filtered queries partition the rows. Remote: \<open>fetchAllTasks\<close> under-syncs against
  a paginated endpoint, the sync's request gets the whole collection, the sync's fetch
  ignores the status. Sync: each branch of the pass, errors included, the store invariant,
  the refinement of the title set, the exact rows a second pass over the same payload
  creates, and that duplicates within one payload are all created. Orchestrator: one refresh alone computes exactly
  \<open>syncTaskFromApi\<close> (refinement), the invariant holds under every interleaving (rule
  induction), rows stay append-only under every interleaving, every pass in flight can
  run to its \<open>finally\<close> and then the flag is cleared (liveness, by induction on
  \<open>pending_weight\<close>, the phases left), two overlapping passes store a title twice, and
  the flag is cleared while a pass is in flight. Schedule: from a lone fetch the
  oldest-first schedule computes \<open>syncTaskFromApi\<close> and clears the flag.
  Dashboard: the clauses implement the spec's predicate, a toggle moves
  the record between the views, the header's invariant (trimmed name, a name whenever it
  is shown), \<open>saveName\<close> on both branches, the two filter bars agree, the store's two
  actions commute. TaskItem: every
  branch of \<open>handleCamera\<close>, the empty-array \<open>TypeError\<close> included, and that stored rows
  never show the placeholder. Avatar: the byte-wise colour equals the masked hash, the
  \<open>Int.MIN_VALUE\<close> index fault of \<open>generateColor\<close> (with the witness name
  \<open>polygenelubricants\<close>), the platforms' initials agree exactly on names of one or two
  words. Views: the dashboard's list
  refines the filtered query (distinct keys, rows of the filter only, spinner equal to
  \<open>isSyncing\<close>), a checkbox press re-renders the row with the flipped flag and the
  matching styles (check mark, struck-through grey title, greyed card), the drawn filter
  bar refines the abstract one with exactly the current filter's chip highlighted, the
  tabs of \<open>FilterTabs\<close> report as selected exactly the highlighted tab, a toggle
  runs the \<open>LayoutAnimation\<close> effect exactly in the filtered views, the navigator's
  initial route is registered and typed, the avatar is round at both sizes. Launch: right after
  launch the spinner shows, and once the mount pass has run the screen renders exactly
  the rows one \<open>syncTaskFromApi\<close> leaves in the empty database (refinement); online, those
  are the trimmed non-blank remote titles in remote order; a failed refresh from any idle
  screen leaves the rendered screen as it was, with the spinner off; every screen reachable from launch keeps the store's and the
  header's invariants and renders a well-formed list (rule induction over
  \<open>screen_step\<close>, from the components' preservation lemmas). NativeBridge: the iOS colour channels are the hash's three low
  bytes; on Android the dashboard's avatar shows the name's initials and colour, on iOS
  the name never reaches the view. Tooling: the ignore pattern of the Jest configuration
  matches no path without an empty segment, so Jest transforms every module, and under
  the setup file's \<open>fetch\<close> mock every pass that reads resolves without writing while
  \<open>apiClient.get\<close> rejects every request. Here: the invariant holds after
  any run from the empty store, rows are never removed, reordered or retitled, every step
  refines the abstract title-set machine, a row's events are the app's operations on
  that row's record, and the avatar always gets initials.

  \<^bold>\<open>Bounds and environment.\<close> No loop of the program can diverge (every recursion is
  over a finite list, and the interleavings are finite traces of an inductive relation), so
  no fuel is used; the one non-structural recursion, \<open>run_oldest_first\<close>, terminates by
  \<open>pending_weight\<close>. Everything the environment decides is an explicit input: the network's
  answer per URL, a read fault, the index of a failing batch row, which pass moves next,
  the picker's answer, the user's events. Characters are the code units 0..255; JavaScript
  white space in that range is U+0009..U+000D, U+0020 and U+00A0. Kotlin \<open>Int\<close>s are
  \<open>32 word\<close>s, Swift \<open>Int\<close>s \<open>64 word\<close>s; Swift's \<open>hashValue\<close>, seeded per process, is
  an input function. Android's \<open>MainApplication\<close>, which lists the packages, is not in the
  sources and is taken to list \<open>AvatarPackage\<close>; iOS registers what the sources export,
  which is nothing, or the Swift manager without properties if a project file outside
  them registers the module.

  \<^bold>\<open>Not modelled.\<close> Of the test tooling: \<open>.eslintrc.js\<close>, which only selects rule sets
  of external packages, the Jest preset's own settings, and the SQLite adapter mock of
  \<open>jest-setup.js\<close> (the model's store is not built through an adapter); the unit tests run
  local copies of the logic, and their expectations are proved of the app's operations
  instead (\<open>TaskLogic_suite\<close>). Of the views: the styles of elements that do not depend on
  the state are kept as the sheets' data only; the layout engine and fonts, the animation
  itself (only when the effect configures one is modelled) and the Android \<open>UIManager\<close>
  switch are left out; the navigation library's own
  state (\<open>MainNavigator\<close> is configuration and is never mounted); WatermelonDB's
  SQLite adapter, JSI and the raw rows records are persisted as; the live query's notification
  timing (one snapshot per commit is assumed, as the spec grants); Swift's hash function
  itself (its seed is chosen per process); upper-casing of U+00B5 and U+00FF,
  whose capitals lie outside the modelled code units.
\<close>

unbundle bit_operations_syntax

section \<open>The app's operations on the store\<close>

text \<open>
  The operations that change the store: a sync pass (\<open>handleRefresh\<close>), a completion
  toggle and an attachment (the two writers of \<open>Task\<close>, called from \<open>TaskItem\<close>).
\<close>

datatype app_op = SyncPass sync_env | Toggle nat | Attach nat string

fun app_step :: "app_op \<Rightarrow> db_state \<Rightarrow> db_state" where
  "app_step (SyncPass env) db = snd (syncTaskFromApi env db)"
| "app_step (Toggle i) db = toggleComplete i db"
| "app_step (Attach i ref) db = addAttachment i ref db"

definition app_run :: "app_op list \<Rightarrow> db_state \<Rightarrow> db_state" where
  "app_run ops db = fold app_step ops db"

text \<open>
  The abstract machine: a set of titles. A step adds the titles a successful pass
  delivered; a failed pass, a toggle and an attachment add nothing.
\<close>

fun delivered :: "app_op \<Rightarrow> db_state \<Rightarrow> string set" where
  "delivered (SyncPass env) db =
     (if fst (syncTaskFromApi env db) = Inr ()
      then (case sync_fetch (net env) of Inr (Some rs) \<Rightarrow> remote_titles rs | _ \<Rightarrow> {})
      else {})"
| "delivered (Toggle i) db = {}"
| "delivered (Attach i ref) db = {}"

section \<open>Lemmas\<close>

abbreviation rows :: "db_state \<Rightarrow> (nat \<times> string) list" where
  "rows db \<equiv> map (\<lambda>t. (task_id t, todo t)) (tasks db)"

text \<open>Every stored attachment is trimmed (the \<open>@text\<close> setter stores it so).\<close>

abbreviation attachments_ok :: "db_state \<Rightarrow> bool" where
  "attachments_ok db \<equiv> list_all (\<lambda>t. pred_option trimmed (attachmentUri t)) (tasks db)"

lemma app_step_store_inv: "store_inv db \<Longrightarrow> store_inv (app_step op db)"
  by (cases op) (auto simp: syncTaskFromApi_store_inv toggleComplete_def addAttachment_def
      intro: store_inv_update_task)

lemma app_step_rows: "prefix (rows db) (rows (app_step op db))"
proof (cases op)
  case (SyncPass env)
  then show ?thesis
    using syncTaskFromApi_cases [of env db] by (auto simp: prefix_def)
next
  case (Toggle i)
  then show ?thesis by (simp add: toggleComplete_def)
next
  case (Attach i ref)
  then show ?thesis by (simp add: addAttachment_def)
qed

lemma title_set_update_task:
  "(\<And>t. todo (f t) = todo t) \<Longrightarrow> title_set (update_task i f db) = title_set db"
  unfolding title_set_def by (metis map_update_task)

text \<open>A property every operation keeps holds after every run, and of the empty store
  both invariants hold.\<close>

lemma app_run_invariant:
  assumes "\<And>db op. P db \<Longrightarrow> P (app_step op db)" and "P db"
  shows "P (app_run ops db)"
  using assms(2) unfolding app_run_def
  by (induction ops arbitrary: db) (simp_all add: assms(1))

lemma database_invariants: "store_inv database \<and> attachments_ok database"
  using store_inv_database by (simp add: database_def)

lemma batchActions_no_attachment: "t \<in> set (batchActions n rs) \<Longrightarrow> attachmentUri t = None"
  by (induction n rs rule: batchActions.induct) (auto simp: prepareCreate_def)

lemma app_step_attachments: "attachments_ok db \<Longrightarrow> attachments_ok (app_step op db)"
proof (cases op)
  case (SyncPass env)
  assume a: "attachments_ok db"
  from syncTaskFromApi_cases [of env db] a SyncPass show ?thesis
    by (auto simp: list_all_iff batchActions_no_attachment)
next
  case (Toggle i)
  assume "attachments_ok db"
  with Toggle show ?thesis by (auto simp: toggleComplete_def update_task_def list_all_iff)
next
  case (Attach i ref)
  assume "attachments_ok db"
  with Attach show ?thesis by (auto simp: addAttachment_def update_task_def list_all_iff js_trim_trimmed)
qed

text \<open>The expectations of the unit tests (\<open>src/src/services/__tests__/TaskLogic.test.ts\<close>),
  which run local copies of the logic on a mock record, hold of the app's own operations:
  \<open>toggleComplete\<close> twice flips the flag and restores the record, \<open>prepareCreate\<close> stores
  the trimmed title, \<open>addAttachment\<close> stores the test's URI (which has no surrounding
  white space, so the trimming of \<open>@text\<close> does not show).\<close>

lemma TaskLogic_suite:
  "completed (hd (tasks (toggleComplete 0 \<lparr>tasks = [\<lparr>task_id = 0, todo = ''Aprender WatermelonDB'', completed = False, attachmentUri = None\<rparr>], next_id = 1\<rparr>)))
   \<and> toggleComplete 0 (toggleComplete 0 \<lparr>tasks = [\<lparr>task_id = 0, todo = ''Aprender WatermelonDB'', completed = False, attachmentUri = None\<rparr>], next_id = 1\<rparr>)
       = \<lparr>tasks = [\<lparr>task_id = 0, todo = ''Aprender WatermelonDB'', completed = False, attachmentUri = None\<rparr>], next_id = 1\<rparr>
   \<and> todo (prepareCreate 0 \<lparr>rt_id = 1, rt_todo = ''Tarea desde API  '', rt_completed = False, rt_userId = 10\<rparr>) = ''Tarea desde API''
   \<and> attachmentUri (hd (tasks (addAttachment 0 ''file://images/photo.jpg''
        \<lparr>tasks = [\<lparr>task_id = 0, todo = ''Aprender WatermelonDB'', completed = False, attachmentUri = None\<rparr>], next_id = 1\<rparr>)))
       = Some ''file://images/photo.jpg''"
  by (simp add: toggleComplete_def addAttachment_def update_task_def prepareCreate_def js_trim_def is_js_space_def)

section \<open>Properties across components\<close>

text \<open>
  C2. The store invariant of the spec (section 3) holds in every state the app can reach
  from the empty store: after any sequence of sync passes (whatever the network and the
  engine do), toggles and attachments, every title is non-empty and trimmed and the
  identifiers are distinct and fresh.
\<close>

theorem app_run_store_inv: "store_inv (app_run ops database)"
  using database_invariants by (auto intro: app_run_invariant app_step_store_inv)

text \<open>
  C3. Offline-first (spec sections 3 and 7): no sequence of operations, failed passes
  included, removes, reorders or retitles a stored row; the rows of the store are a
  prefix of the rows after the run.
\<close>

theorem app_run_rows_prefix: "prefix (rows db) (rows (app_run ops db))"
proof (induction ops arbitrary: db)
  case Nil
  then show ?case by (simp add: app_run_def)
next
  case (Cons op ops)
  have "prefix (rows db) (rows (app_step op db))" by (rule app_step_rows)
  moreover have "prefix (rows (app_step op db)) (rows (app_run ops (app_step op db)))"
    by (rule Cons.IH)
  ultimately show ?case by (simp add: app_run_def prefix_order.trans)
qed

text \<open>
  C1. Refinement: seen through the set of titles, every operation of the app implements
  the abstract machine. A successful pass adds exactly the trimmed non-blank remote
  titles, a failed pass, a toggle and an attachment change nothing.
\<close>

theorem app_step_refines_titles:
  assumes "titles_ok db"
  shows "title_set (app_step op db) = title_set db \<union> delivered op db"
proof (cases op)
  case (SyncPass env)
  show ?thesis
  proof (cases "syncTaskFromApi env db")
    case (Pair r db')
    show ?thesis
    proof (cases r)
      case (Inl e)
      from Pair Inl have "db' = db"
        by (simp add: syncTaskFromApi_Inl_unchanged)
      moreover have "delivered op db = {}"
        using SyncPass Pair Inl by simp
      ultimately show ?thesis
        using SyncPass Pair by simp
    next
      case (Inr u)
      with Pair have s: "syncTaskFromApi env db = (Inr (), db')"
        by simp
      then obtain rs where f: "sync_fetch (net env) = Inr (Some rs)"
        using syncTaskFromApi_Inr by blast
      have "delivered op db = remote_titles rs"
        using SyncPass s f by simp
      moreover have "title_set db' = title_set db \<union> remote_titles rs"
        by (rule sync_refines_title_union [OF assms f s])
      ultimately show ?thesis
        using SyncPass s by simp
    qed
  qed
next
  case (Toggle i)
  then show ?thesis by (simp add: toggleComplete_def title_set_update_task)
next
  case (Attach i ref)
  then show ?thesis by (simp add: addAttachment_def title_set_update_task)
qed

theorem app_step_refines_titles_witness:
  "titles_ok database
   \<and> title_set (app_step (SyncPass (serving [remote_item 1 '' Buy milk ''])) database) = {''Buy milk''}"
proof -
  have ok: "titles_ok database" by (simp add: database_def titles_ok_def)
  have d: "delivered (SyncPass (serving [remote_item 1 '' Buy milk ''])) database = {''Buy milk''}"
    by (simp add: syncTaskFromApi_eq sync_fetch_def sync_write_Some tasksToCreate_def keep_raw_def
        localTodoTexts_def database_def remote_titles_def js_string_simps)
  have t: "title_set database = {}" by (simp add: database_def title_set_def)
  show ?thesis
    using app_step_refines_titles [OF ok, of "SyncPass (serving [remote_item 1 '' Buy milk ''])"] ok d t
    by simp
qed

section \<open>The UI over the store\<close>

lemma avatar_name_shape:
  "trimmed u \<Longrightarrow> avatar_name u \<noteq> [] \<and> hd (avatar_name u) \<noteq> CHR '' ''"
  by (auto simp: avatar_name_def trimmed_def js_truthy_str_def is_js_space_def)

text \<open>
  C29. The row's buttons are the app's operations on that row's record: a checkbox press
  of the row showing record \<open>i\<close> is the app's toggle of record \<open>i\<close>; a camera press that
  does not throw either writes nothing or is the app's attachment, to record \<open>i\<close>, of the
  URI of the picker's first asset. So the invariant, the append-only and the refinement
  results (C1 to C3) cover the stores the UI produces.
\<close>
theorem TaskItem_refines_app_ops:
  assumes "TaskItem_step i ev db = Inr db'"
  shows "(ev = PressCheckbox \<and> db' = app_run [Toggle i] db)
         \<or> (\<exists>r. ev = PressCamera r
               \<and> (db' = db \<or> (\<exists>a as u. assets r = Some (a # as) \<and> uri a = Some u
                                       \<and> db' = app_run [Attach i u] db)))"
proof (cases ev)
  case PressCheckbox
  with assms show ?thesis by (simp add: app_run_def)
next
  case (PressCamera r)
  with assms show ?thesis
    by (auto simp: app_run_def handleCamera_def split: option.splits list.splits if_splits)
qed

theorem TaskItem_refines_app_ops_witness:
  "TaskItem_step 0 (PressCamera \<lparr>didCancel = False, assets = Some [\<lparr>uri = Some ''file://a''\<rparr>]\<rparr>)
     \<lparr>tasks = [\<lparr>task_id = 0, todo = ''a'', completed = False, attachmentUri = None\<rparr>], next_id = 1\<rparr>
     = Inr (app_run [Attach 0 ''file://a''] \<lparr>tasks = [\<lparr>task_id = 0, todo = ''a'', completed = False, attachmentUri = None\<rparr>], next_id = 1\<rparr>)
   \<and> app_run [Attach 0 ''file://a''] \<lparr>tasks = [\<lparr>task_id = 0, todo = ''a'', completed = False, attachmentUri = None\<rparr>], next_id = 1\<rparr>
       \<noteq> \<lparr>tasks = [\<lparr>task_id = 0, todo = ''a'', completed = False, attachmentUri = None\<rparr>], next_id = 1\<rparr>"
proof -
  have s: "TaskItem_step 0 (PressCamera \<lparr>didCancel = False, assets = Some [\<lparr>uri = Some ''file://a''\<rparr>]\<rparr>)
     \<lparr>tasks = [\<lparr>task_id = 0, todo = ''a'', completed = False, attachmentUri = None\<rparr>], next_id = 1\<rparr>
     = Inr (addAttachment 0 ''file://a'' \<lparr>tasks = [\<lparr>task_id = 0, todo = ''a'', completed = False, attachmentUri = None\<rparr>], next_id = 1\<rparr>)"
    by (simp add: handleCamera_def js_truthy_str_def)
  from s TaskItem_refines_app_ops [OF s] show ?thesis
    by (simp add: app_run_def addAttachment_def update_task_def text_field_set_def js_trim_def is_js_space_def)
qed

text \<open>
  C30. From the header to the native view: in every state the dashboard reaches from the
  store's initial state, the name handed to the registered Android avatar yields at least
  one initial, and its background is the hash colour of that name, never the grey of an
  empty name.
\<close>
theorem avatar_always_has_initials:
  "setName_initials (Some (avatar_name (userName (ui (dash_run evs (Dashboard_mount useUiStore_init)))))) \<noteq> []
   \<and> setName_color (Some (avatar_name (userName (ui (dash_run evs (Dashboard_mount useUiStore_init))))))
       = 0xFF000000 OR (java_hashCode (avatar_name (userName (ui (dash_run evs (Dashboard_mount useUiStore_init))))) AND 0xFFFFFF)"
proof -
  let ?n = "avatar_name (userName (ui (dash_run evs (Dashboard_mount useUiStore_init))))"
  have "dash_inv (dash_run evs (Dashboard_mount useUiStore_init))"
    by (rule dash_inv_run, rule dash_inv_mount) (simp add: useUiStore_init_def trimmed_def)
  then have n: "?n \<noteq> []" "hd ?n \<noteq> CHR '' ''"
    using avatar_name_shape by (simp_all add: dash_inv_def)
  from n have "setName_initials (Some ?n) \<noteq> []" by (rule setName_initials_nonempty)
  moreover from n have "setName_color (Some ?n) = 0xFF000000 OR (java_hashCode ?n AND 0xFFFFFF)"
    by (simp add: setName_color_def Color_rgb_bytes Let_def)
  ultimately show ?thesis by simp
qed

end
